(* ===== verification/Prelude.thy ===== *)
theory Prelude
  imports Complex_Main "HOL-Library.Word" "HOL-Library.AList" "HOL-Library.Sublist"
    "HOL-Library.Multiset"
begin

text \<open>
  Shared vocabulary of the development.  The program is TypeScript running in a browser,
  so its strings are JavaScript strings: sequences of UTF-16 code units.  They are modelled
  as lists of 16-bit words (\<open>jsstr\<close>), so that the Korean floor labels of the campus data
  (the basement prefix, Hangul JI HA, is the two code units 0xC9C0 0xD558) are represented
  exactly and
  \<open>===\<close> is list equality.  This theory holds the string primitives the components call
  (\<open>String.prototype.includes\<close>, the first match of the regular expression \<open>/(\d+)/\<close>,
  \<open>parseInt\<close> on a run of decimal digits, \<open>String.prototype.trim\<close>), a decimal printer used
  to state round trips, the insertion-ordered JavaScript \<open>Map\<close> as an association list
  (\<open>AList.update\<close> is \<open>Map.prototype.set\<close>: in place for a present key, appended
  otherwise), the order-of-first-occurrence deduplication the grouping code computes, and
  the lemma collections the component theories use.
\<close>

named_theorems jsstr_simps \<open>evaluation rules for string literals and character classes\<close>
named_theorems alist_simps \<open>rules for association lists standing for JavaScript Maps\<close>

section \<open>JavaScript strings\<close>

type_synonym jsstr = "16 word list"

text \<open>An ASCII literal of the source, as code units.\<close>

definition js :: "string \<Rightarrow> jsstr" where
  "js s = map of_char s"

declare js_def [jsstr_simps]

text \<open>The class \<open>\d\<close> of a regular expression without the \<open>u\<close> flag: ASCII 0 to 9.\<close>

definition is_digit :: "16 word \<Rightarrow> bool" where
  "is_digit c \<longleftrightarrow> 0x30 \<le> c \<and> c \<le> 0x39"

declare is_digit_def [jsstr_simps]

text \<open>\<open>s.includes(p)\<close>: \<open>p\<close> occurs in \<open>s\<close> at some position.\<close>

fun js_includes :: "jsstr \<Rightarrow> jsstr \<Rightarrow> bool" where
  "js_includes [] p = (p = [])"
| "js_includes (c # s) p = (take (length p) (c # s) = p \<or> js_includes s p)"

text \<open>
  \<open>s.match(/(\d+)/)\<close>: the leftmost match of a greedy digit run; its group 1 is the
  whole run.  \<open>None\<close> is the \<open>null\<close> the method returns when there is no digit.
\<close>

definition first_digit_run :: "jsstr \<Rightarrow> jsstr option" where
  "first_digit_run s =
     (case dropWhile (\<lambda>c. \<not> is_digit c) s of
        [] \<Rightarrow> None
      | r \<Rightarrow> Some (takeWhile is_digit r))"

text \<open>\<open>parseInt(ds)\<close> on a run of decimal digits: its decimal value.\<close>

definition parse_digits :: "jsstr \<Rightarrow> nat" where
  "parse_digits ds = foldl (\<lambda>n c. 10 * n + (unat c - 48)) 0 ds"

text \<open>Decimal rendering of a natural number (\<open>String(n)\<close>).\<close>

definition digit_unit :: "nat \<Rightarrow> 16 word" where
  "digit_unit d = of_nat (48 + d)"

fun show_nat :: "nat \<Rightarrow> jsstr" where
  "show_nat n =
     (if n < 10 then [digit_unit n]
      else show_nat (n div 10) @ [digit_unit (n mod 10)])"

declare show_nat.simps [simp del]

section \<open>Lists\<close>

text \<open>
  The distinct elements of a list in the order in which they first occur: the key order
  of a JavaScript \<open>Map\<close> filled by a loop over the list.
\<close>

definition first_occ :: "'a list \<Rightarrow> 'a list" where
  "first_occ xs = rev (remdups (rev xs))"

text \<open>
  \<open>prev.includes(x) ? prev.filter(y => y !== x) : [...prev, x]\<close>, the idiom the
  components use to open and close collapsible sections.
\<close>

definition toggle_member :: "'a \<Rightarrow> 'a list \<Rightarrow> 'a list" where
  "toggle_member x xs = (if x \<in> set xs then filter (\<lambda>y. y \<noteq> x) xs else xs @ [x])"

text \<open>
  JavaScript truthiness of an optional string field: \<open>{x && ...}\<close> renders, and
  \<open>if (x)\<close> proceeds, only for a present, non-empty string.
\<close>

definition js_truthy :: "jsstr option \<Rightarrow> jsstr option" where
  "js_truthy x = (case x of Some v \<Rightarrow> if v = [] then None else Some v | None \<Rightarrow> None)"

text \<open>
  \<open>`${n}`\<close> for an integer-valued number: the decimal digits, after a minus sign when
  negative.
\<close>

definition show_int :: "int \<Rightarrow> jsstr" where
  "show_int i = (if i < 0 then 0x2D # show_nat (nat (- i)) else show_nat (nat i))"

text \<open>
  \<open>Number(s)\<close> on the strings an integer can be printed as: the empty string is 0, an
  optional minus sign followed by decimal digits is read as an integer.  Every other
  string (whitespace, \<open>+\<close>, fractions, exponents, hexadecimal) is outside the model and
  is read as \<open>None\<close>, like \<open>NaN\<close>: the app's own links never produce one.
\<close>

definition js_Number_int :: "jsstr \<Rightarrow> int option" where
  "js_Number_int s =
     (if s = [] then Some 0
      else if hd s = 0x2D \<and> tl s \<noteq> [] \<and> list_all is_digit (tl s) then Some (- int (parse_digits (tl s)))
      else if list_all is_digit s then Some (int (parse_digits s))
      else None)"

text \<open>\<open>Array.prototype.join(sep)\<close> on strings.\<close>

fun js_join :: "jsstr \<Rightarrow> jsstr list \<Rightarrow> jsstr" where
  "js_join sep [] = []"
| "js_join sep [x] = x"
| "js_join sep (x # y # zs) = x @ sep @ js_join sep (y # zs)"

text \<open>
  The code units \<open>String.prototype.trim\<close> removes: the ECMAScript WhiteSpace (tab, vertical
  tab, form feed, space, no-break space, the byte order mark and the other space separators
  of the Basic Multilingual Plane) and LineTerminator (line feed, carriage return, line and
  paragraph separators) code points.
\<close>

definition js_is_space :: "16 word \<Rightarrow> bool" where
  "js_is_space c \<longleftrightarrow>
     c \<in> {0x09, 0x0A, 0x0B, 0x0C, 0x0D, 0x20, 0xA0, 0x1680, 0x2028, 0x2029, 0x202F, 0x205F,
          0x3000, 0xFEFF} \<or> (0x2000 \<le> c \<and> c \<le> 0x200A)"

definition js_trim :: "jsstr \<Rightarrow> jsstr" where
  "js_trim s = rev (dropWhile js_is_space (rev (dropWhile js_is_space s)))"

section \<open>Lemmas on the string primitives\<close>

lemma take_length_prefix: "take (length p) s = p \<longleftrightarrow> prefix p s"
proof
  assume "take (length p) s = p"
  then show "prefix p s" by (metis take_is_prefix)
next
  assume "prefix p s"
  then obtain r where "s = p @ r" by (auto simp: prefix_def)
  then show "take (length p) s = p" by simp
qed

lemma js_includes_iff_sublist: "js_includes s p \<longleftrightarrow> sublist p s"
  by (induction s) (simp_all add: take_length_prefix sublist_Cons_right)

lemma js_includes_append_right [intro]: "js_includes s p \<Longrightarrow> js_includes (s @ t) p"
  unfolding js_includes_iff_sublist sublist_def by (metis append.assoc)

lemma js_includes_append_left [intro]: "js_includes t p \<Longrightarrow> js_includes (s @ t) p"
  unfolding js_includes_iff_sublist sublist_def by (metis append.assoc)

lemma js_includes_self [simp]: "js_includes s s"
  by (simp add: js_includes_iff_sublist)

lemma js_includes_prefix [simp]: "js_includes (p @ s) p"
  by (rule js_includes_append_right) simp

lemma parse_digits_snoc [simp]:
  "parse_digits (ds @ [c]) = 10 * parse_digits ds + (unat c - 48)"
  by (simp add: parse_digits_def)

lemma digit_unit:
  assumes "d < 10"
  shows "unat (digit_unit d) = 48 + d"
    and "is_digit (digit_unit d)"
proof -
  have "48 + d < 2 ^ LENGTH(16)" using assms by simp
  then have u: "unat (digit_unit d) = 48 + d"
    by (simp only: digit_unit_def unat_of_nat mod_less)
  then show "unat (digit_unit d) = 48 + d" .
  from u assms show "is_digit (digit_unit d)"
    by (simp add: is_digit_def word_le_nat_alt)
qed

lemma show_nat_digits: "\<forall>c \<in> set (show_nat n). is_digit c"
proof (induction n rule: show_nat.induct)
  case (1 n)
  then show ?case
    by (subst show_nat.simps) (auto simp: digit_unit)
qed

lemma show_nat_not_Nil [simp]: "show_nat n \<noteq> []"
  by (subst show_nat.simps) simp

text \<open>Round trip: \<open>parseInt\<close> reads back what the decimal printer wrote.\<close>

lemma parse_show_nat [simp]: "parse_digits (show_nat n) = n"
proof (induction n rule: show_nat.induct)
  case (1 n)
  show ?case
  proof (cases "n < 10")
    case True
    then show ?thesis
      by (subst show_nat.simps) (simp add: parse_digits_def digit_unit)
  next
    case False
    with "1.IH" have "parse_digits (show_nat (n div 10)) = n div 10" by simp
    with False show ?thesis
      by (subst show_nat.simps) (simp add: digit_unit)
  qed
qed

text \<open>The leftmost digit run of a label made of a digit-free prefix, a run and a suffix.\<close>

lemma first_digit_run_split:
  assumes p: "\<forall>c \<in> set p. \<not> is_digit c"
    and ds: "ds \<noteq> []" "\<forall>c \<in> set ds. is_digit c"
    and q: "q = [] \<or> \<not> is_digit (hd q)"
  shows "first_digit_run (p @ ds @ q) = Some ds"
proof -
  have drop: "dropWhile (\<lambda>c. \<not> is_digit c) (p @ ds @ q) = ds @ q"
    using p ds by (cases ds) (auto simp: dropWhile_append2)
  have take: "takeWhile is_digit (ds @ q) = ds"
    using ds q by (cases q) (auto simp: takeWhile_append2)
  from ds(1) obtain c cs where "ds @ q = c # cs" by (cases ds) auto
  with drop take show ?thesis
    by (simp add: first_digit_run_def)
qed

lemma first_digit_run_None:
  assumes "\<forall>c \<in> set s. \<not> is_digit c"
  shows "first_digit_run s = None"
proof -
  from assms have "dropWhile (\<lambda>c. \<not> is_digit c) s = []"
    by (simp add: dropWhile_eq_Nil_conv)
  then show ?thesis unfolding first_digit_run_def by (simp only: list.case)
qed

lemma js_Number_show_int [simp]: "js_Number_int (show_int i) = Some i"
proof (cases "i < 0")
  case True
  have "\<not> is_digit 0x2D" by (simp add: is_digit_def)
  with True show ?thesis
    using show_nat_digits [of "nat (- i)"]
    by (simp add: show_int_def js_Number_int_def list_all_iff)
next
  case False
  obtain c cs where sn: "show_nat (nat i) = c # cs"
    using show_nat_not_Nil by (metis list.exhaust)
  have "list_all is_digit (show_nat (nat i))"
    using show_nat_digits [of "nat i"] by (simp add: list_all_iff)
  moreover have "c \<noteq> 0x2D"
    using calculation sn by (auto simp: is_digit_def)
  ultimately show ?thesis
    using False sn parse_show_nat [of "nat i"] by (simp add: show_int_def js_Number_int_def)
qed

lemma show_int_inj: "show_int i = show_int j \<Longrightarrow> i = j"
  by (metis js_Number_show_int option.inject)

lemma ball_dropWhile: "(\<forall>x \<in> set (dropWhile P s). P x) \<longleftrightarrow> (\<forall>x \<in> set s. P x)"
  by (induction s) auto

lemma js_trim_Nil_iff: "js_trim s = [] \<longleftrightarrow> list_all js_is_space s"
  by (simp add: js_trim_def dropWhile_eq_Nil_conv list_all_iff ball_dropWhile)

section \<open>Order of first occurrence\<close>


lemma first_occ_Nil [simp]: "first_occ [] = []"
  by (simp add: first_occ_def)

lemma first_occ_snoc [simp]:
  "first_occ (xs @ [x]) = (if x \<in> set xs then first_occ xs else first_occ xs @ [x])"
  by (simp add: first_occ_def)

lemma set_first_occ [simp]: "set (first_occ xs) = set xs"
  by (simp add: first_occ_def)

lemma distinct_first_occ [simp]: "distinct (first_occ xs)"
  by (simp add: first_occ_def)

lemma first_occ_Cons:
  "first_occ (x # xs) = x # first_occ (filter (\<lambda>y. y \<noteq> x) xs)"
proof (induction xs rule: rev_induct)
  case Nil
  show ?case by (simp add: first_occ_def)
next
  case (snoc y ys)
  then show ?case
    by (simp only: append_Cons [symmetric] first_occ_snoc) auto
qed

lemma first_occ_distinct [simp]: "distinct xs \<Longrightarrow> first_occ xs = xs"
  by (simp add: first_occ_def distinct_remdups_id)

section \<open>JavaScript Maps as association lists\<close>

text \<open>
  A \<open>Map\<close> keeps its keys in insertion order; \<open>set\<close> on a present key replaces the value
  in place.  \<open>AList.update\<close> does exactly this, and \<open>map_of\<close> is \<open>get\<close>.
\<close>

lemma update_map_keys [alist_simps]:
  assumes "distinct (map key ys)" "y \<in> set ys"
  shows "AList.update (key y) v (map (\<lambda>z. (key z, g z)) ys)
           = map (\<lambda>z. (key z, if key z = key y then v else g z)) ys"
  using assms
proof (induction ys)
  case Nil
  then show ?case by simp
next
  case (Cons z ys)
  then show ?case
    by (cases "key z = key y") (auto simp: image_iff)
qed

lemma update_map_new_key [alist_simps]:
  assumes "k \<notin> key ` set ys"
  shows "AList.update k v (map (\<lambda>z. (key z, g z)) ys) = map (\<lambda>z. (key z, g z)) ys @ [(k, v)]"
  using assms by (induction ys) auto

lemma map_of_map_keys [alist_simps]:
  assumes "distinct (map key ys)" "y \<in> set ys"
  shows "map_of (map (\<lambda>z. (key z, g z)) ys) (key y) = Some (g y)"
  using assms
proof (induction ys)
  case Nil
  then show ?case by simp
next
  case (Cons z ys)
  then show ?case by (auto simp: image_iff)
qed

lemma map_of_map_keys_None [alist_simps]:
  "k \<notin> key ` set ys \<Longrightarrow> map_of (map (\<lambda>z. (key z, g z)) ys) k = None"
  by (induction ys) auto

section \<open>Partitions and sorting by key\<close>

text \<open>
  Splitting a list into one sublist per key, over a list of keys that covers every element
  once, keeps every element exactly once.
\<close>

lemma mset_filter_disj:
  "(\<And>y. \<not> (P y \<and> Q y)) \<Longrightarrow>
     mset (filter P ys) + mset (filter Q ys) = mset (filter (\<lambda>y. P y \<or> Q y) ys)"
  by (induction ys) auto

lemma filter_key_Nil [simp]: "k \<notin> key ` set ys \<Longrightarrow> filter (\<lambda>y. key y = k) ys = []"
  by (induction ys) auto

lemma mset_concat_filter_keys:
  assumes "distinct L"
  shows "mset (concat (map (\<lambda>l. filter (\<lambda>y. key y = l) ys) L))
           = mset (filter (\<lambda>y. key y \<in> set L) ys)"
  using assms
proof (induction L)
  case Nil
  then show ?case by simp
next
  case (Cons l L)
  from Cons.prems have "l \<notin> set L" by simp
  then have "mset (filter (\<lambda>y. key y = l) ys) + mset (filter (\<lambda>y. key y \<in> set L) ys)
               = mset (filter (\<lambda>y. key y = l \<or> key y \<in> set L) ys)"
    by (intro mset_filter_disj) auto
  with Cons show ?case by simp
qed

lemma mset_partition_by_key:
  assumes "distinct L" "\<forall>y \<in> set ys. key y \<in> set L"
  shows "mset (concat (map (\<lambda>l. filter (\<lambda>y. key y = l) ys) L)) = mset ys"
proof -
  from assms(2) have "filter (\<lambda>y. key y \<in> set L) ys = ys"
    by (simp add: filter_id_conv)
  with mset_concat_filter_keys [OF assms(1), of key ys] show ?thesis by (simp only:)
qed

lemma map_insort_key_comp:
  "map h (insort_key (\<lambda>a. k (h a)) x xs) = insort_key k (h x) (map h xs)"
  by (induction xs) auto

text \<open>Sorting records by a key of one field, then reading that field, sorts the field.\<close>

lemma map_sort_key_comp:
  "map h (sort_key (\<lambda>a. k (h a)) xs) = sort_key k (map h xs)"
  by (induction xs) (simp_all add: map_insort_key_comp)

lemma js_includes_set: "js_includes s p \<Longrightarrow> set p \<subseteq> set s"
  unfolding js_includes_iff_sublist sublist_def by auto

lemma mset_concat_insort_key:
  "mset (concat (map h (insort_key k x xs))) = mset (h x) + mset (concat (map h xs))"
  by (induction xs) auto

text \<open>Sorting the parts does not change the elements of their concatenation.\<close>

lemma mset_concat_sort_key [simp]:
  "mset (concat (map h (sort_key k xs))) = mset (concat (map h xs))"
  by (induction xs) (simp_all add: mset_concat_insort_key)

lemma mset_concat_map_cong:
  "(\<And>x. x \<in> set xs \<Longrightarrow> mset (h x) = mset (k x)) \<Longrightarrow>
     mset (concat (map h xs)) = mset (concat (map k xs))"
  by (induction xs) auto

section \<open>Toggling membership\<close>


lemma set_toggle_member [simp]:
  "set (toggle_member x xs) = (if x \<in> set xs then set xs - {x} else insert x (set xs))"
  by (auto simp: toggle_member_def)

lemma distinct_toggle_member [simp]:
  "distinct xs \<Longrightarrow> distinct (toggle_member x xs)"
  by (simp add: toggle_member_def)

lemma toggle_member_twice_absent:
  "x \<notin> set xs \<Longrightarrow> toggle_member x (toggle_member x xs) = xs"
  by (auto simp: toggle_member_def filter_id_conv)

lemma toggle_member_other:
  "y \<noteq> x \<Longrightarrow> (y \<in> set (toggle_member x xs)) = (y \<in> set xs)"
  by simp

end
