(* ===== verification/Facility.thy ===== *)
theory Facility
  imports Prelude
begin

text \<open>
  The data model shared by every component.  The type declarations and the favourite
  toggle live in \<open>App.tsx\<close>, which is not among the sources; they are modelled from the
  specification (section 3, Data Model, and section 4.4, Favorites Toggle) and from how the
  components use them: \<open>facility.category\<close> indexes the nine-entry label tables,
  \<open>facility.isFavorite || false\<close> shows the flag may be absent (read as \<open>False\<close>), and
  \<open>onToggleFavorite(facilityId: number)\<close> is the only mutation.
\<close>

section \<open>Facilities, categories and users\<close>

text \<open>The closed category union of \<open>Facility.category\<close> (the keys of \<open>categoryLabels\<close>).\<close>

datatype category =
    Cafe | Restaurant | Library | Atm | Convenience | Medical | Gym | Lounge | Transport

text \<open>The string value of each member of the union, as the category buttons compare it.\<close>

fun category_id :: "category \<Rightarrow> jsstr" where
  "category_id Cafe = js ''cafe''"
| "category_id Restaurant = js ''restaurant''"
| "category_id Library = js ''library''"
| "category_id Atm = js ''atm''"
| "category_id Convenience = js ''convenience''"
| "category_id Medical = js ''medical''"
| "category_id Gym = js ''gym''"
| "category_id Lounge = js ''lounge''"
| "category_id Transport = js ''transport''"

record facility =
  f_id :: int
  f_name :: jsstr
  f_category :: category
  f_building :: jsstr
  f_floor :: jsstr
  f_latitude :: real
  f_longitude :: real
  f_hours :: jsstr
  f_contact :: "jsstr option"
  f_description :: "jsstr option"
  f_image :: "jsstr option"
  f_isFavorite :: bool

record user =
  u_name :: jsstr
  u_email :: jsstr

section \<open>The favourite toggle\<close>

text \<open>
  \<open>onToggleFavorite(id)\<close>: every facility with that id has its flag flipped, the list is
  otherwise unchanged (the usual \<open>prev.map(f => f.id === id ? {...f, isFavorite:
  !f.isFavorite} : f)\<close> of the owning state).
\<close>

definition toggleFavorite :: "facility list \<Rightarrow> int \<Rightarrow> facility list" where
  "toggleFavorite fs i =
     map (\<lambda>f. if f_id f = i then f\<lparr>f_isFavorite := \<not> f_isFavorite f\<rparr> else f) fs"

definition favorite_ids :: "facility list \<Rightarrow> int set" where
  "favorite_ids fs = f_id ` {f \<in> set fs. f_isFavorite f}"

section \<open>Lemmas\<close>

lemma category_id_inj [simp]: "category_id a = category_id b \<longleftrightarrow> a = b"
  by (cases a; cases b) (simp_all add: js_def)

lemma category_id_not_all [simp]: "category_id c \<noteq> js ''all''"
  by (cases c) (simp_all add: js_def)

lemma length_toggleFavorite [simp]: "length (toggleFavorite fs i) = length fs"
  by (simp add: toggleFavorite_def)

lemma toggleFavorite_nth:
  "k < length fs \<Longrightarrow> toggleFavorite fs i ! k =
     (if f_id (fs ! k) = i then (fs ! k)\<lparr>f_isFavorite := \<not> f_isFavorite (fs ! k)\<rparr> else fs ! k)"
  by (simp add: toggleFavorite_def)

lemma map_toggleFavorite_frame:
  assumes "\<And>f. P (f\<lparr>f_isFavorite := \<not> f_isFavorite f\<rparr>) = P f"
  shows "map P (toggleFavorite fs i) = map P fs"
  using assms by (simp add: toggleFavorite_def)

lemma toggleFavorite_ids [simp]: "map f_id (toggleFavorite fs i) = map f_id fs"
  by (rule map_toggleFavorite_frame) simp

text \<open>A run of toggles flips a facility once for every occurrence of its id: by parity.\<close>

lemma foldl_toggleFavorite:
  "foldl toggleFavorite fs ids =
     map (\<lambda>f. if odd (count_list ids (f_id f)) then f\<lparr>f_isFavorite := \<not> f_isFavorite f\<rparr> else f) fs"
proof (induction ids arbitrary: fs)
  case Nil
  show ?case by (simp add: map_idI)
next
  case (Cons i ids)
  have "foldl toggleFavorite fs (i # ids) = foldl toggleFavorite (toggleFavorite fs i) ids"
    by simp
  also have "\<dots> = map (\<lambda>f. if odd (count_list ids (f_id f)) then f\<lparr>f_isFavorite := \<not> f_isFavorite f\<rparr> else f)
                       (toggleFavorite fs i)"
    by (rule Cons.IH)
  also have "\<dots> = map (\<lambda>f. if odd (count_list (i # ids) (f_id f))
                         then f\<lparr>f_isFavorite := \<not> f_isFavorite f\<rparr> else f) fs"
    unfolding toggleFavorite_def map_map by (rule map_cong [OF refl]) auto
  finally show ?case .
qed

end
