(* ===== verification/Grouping.thy ===== *)
theory Grouping
  imports Facility
begin

text \<open>
  The grouping transform of \<open>MapView.tsx\<close> (\<open>groupFacilitiesByBuilding\<close>, lines 23-80):
  one marker group per building, in the order in which buildings first occur, each holding
  its floors, and each floor the facilities on it.  The loop fills a JavaScript \<open>Map\<close>
  keyed by building name (an association list updated with \<open>AList.update\<close>), appends to
  the floor found by \<open>floors.find\<close>, then sorts every floor list in place by the number
  \<open>getFloorNumber\<close> extracts from the label.  The theory also states the transform
  declaratively (\<open>grouping_spec\<close>: a group per first occurrence of a building, a floor per
  first occurrence of a label, every facility in the floor its label names) and proves the
  loop equal to it; the properties of the spec (order, partition, sortedness, stability,
  the favourite flag) follow.
\<close>

section \<open>Floor numbers\<close>

text \<open>The basement prefix, Hangul JI HA (U+C9C0 U+D558).\<close>

definition jiha :: jsstr where
  "jiha = [0xC9C0, 0xD558]"

declare jiha_def [jsstr_simps]

text \<open>\<open>getFloorNumber\<close> (lines 67-74), the key of the comparator.\<close>

definition getFloorNumber :: "jsstr \<Rightarrow> int" where
  "getFloorNumber fl =
     (if js_includes fl jiha
      then (case first_digit_run fl of Some ds \<Rightarrow> - int (parse_digits ds) | None \<Rightarrow> -999)
      else (case first_digit_run fl of Some ds \<Rightarrow> int (parse_digits ds) | None \<Rightarrow> 0))"

section \<open>Groups\<close>

record floor_info =
  fi_floor :: jsstr
  fi_facilities :: "facility list"

record grouped_facility =
  g_building :: jsstr
  g_category :: category
  g_latitude :: real
  g_longitude :: real
  g_floors :: "floor_info list"
  g_isFavorite :: bool

text \<open>The group made for the first facility of a building (lines 32-39).\<close>

definition new_group :: "facility \<Rightarrow> grouped_facility" where
  "new_group f =
     \<lparr>g_building = f_building f, g_category = f_category f,
      g_latitude = f_latitude f, g_longitude = f_longitude f,
      g_floors = [], g_isFavorite = f_isFavorite f\<rparr>"

text \<open>
  Lines 45-55: \<open>floors.find\<close> returns the first floor with the facility's label, and the
  facility is pushed onto that floor's list (the object is shared with the group, so the
  push updates the group); when there is none a new floor with an empty list is pushed
  onto the group and the facility onto it.
\<close>

fun add_to_floors :: "floor_info list \<Rightarrow> facility \<Rightarrow> floor_info list" where
  "add_to_floors [] f = [\<lparr>fi_floor = f_floor f, fi_facilities = [f]\<rparr>]"
| "add_to_floors (fi # fis) f =
     (if fi_floor fi = f_floor f then fi\<lparr>fi_facilities := fi_facilities fi @ [f]\<rparr> # fis
      else fi # add_to_floors fis f)"

text \<open>
  One iteration of \<open>facilities.forEach\<close> (lines 26-61) on the \<open>Map\<close> of groups:
  create the group if the building is new, add the facility to its floor, raise the
  group's favourite flag if the facility is a favourite.
\<close>

definition group_step ::
  "(jsstr \<times> grouped_facility) list \<Rightarrow> facility \<Rightarrow> (jsstr \<times> grouped_facility) list" where
  "group_step grouped f =
     (let key = f_building f;
          g = (case map_of grouped key of None \<Rightarrow> new_group f | Some g \<Rightarrow> g);
          g' = g\<lparr>g_floors := add_to_floors (g_floors g) f,
                 g_isFavorite := (if f_isFavorite f then True else g_isFavorite g)\<rparr>
      in AList.update key g' grouped)"

text \<open>
  Lines 64-77: \<open>floors.sort((a, b) => getFloorNumber(a.floor) - getFloorNumber(b.floor))\<close>.
  \<open>Array.prototype.sort\<close> is stable (ECMAScript 2019), and a stable sort by a key is
  unique, so it is the library's insertion sort by key.
\<close>

definition sort_floors :: "floor_info list \<Rightarrow> floor_info list" where
  "sort_floors fis = sort_key (\<lambda>fi. getFloorNumber (fi_floor fi)) fis"

definition groupFacilitiesByBuilding :: "facility list \<Rightarrow> grouped_facility list" where
  "groupFacilitiesByBuilding fs =
     map (\<lambda>g. g\<lparr>g_floors := sort_floors (g_floors g)\<rparr>) (map snd (foldl group_step [] fs))"

section \<open>The declarative specification\<close>

text \<open>The first facility of every building, in order of first occurrence.\<close>

fun first_per_building :: "facility list \<Rightarrow> facility list" where
  "first_per_building [] = []"
| "first_per_building (f # fs) =
     f # first_per_building (filter (\<lambda>g. f_building g \<noteq> f_building f) fs)"

text \<open>The floors of the facilities of one building: one per label, in order of first occurrence.\<close>

definition floor_group :: "facility list \<Rightarrow> jsstr \<Rightarrow> floor_info" where
  "floor_group fsb l = \<lparr>fi_floor = l, fi_facilities = filter (\<lambda>f. f_floor f = l) fsb\<rparr>"

definition floors_spec :: "facility list \<Rightarrow> floor_info list" where
  "floors_spec fsb = map (floor_group fsb) (first_occ (map f_floor fsb))"

definition building_facilities :: "facility list \<Rightarrow> jsstr \<Rightarrow> facility list" where
  "building_facilities fs b = filter (\<lambda>f. f_building f = b) fs"

text \<open>The group of the building of \<open>f0\<close>, represented by \<open>f0\<close>, before sorting.\<close>

definition group_spec :: "facility list \<Rightarrow> facility \<Rightarrow> grouped_facility" where
  "group_spec fs f0 =
     (let fsb = building_facilities fs (f_building f0) in
      \<lparr>g_building = f_building f0, g_category = f_category f0,
       g_latitude = f_latitude f0, g_longitude = f_longitude f0,
       g_floors = floors_spec fsb, g_isFavorite = list_ex f_isFavorite fsb\<rparr>)"

definition grouping_spec :: "facility list \<Rightarrow> grouped_facility list" where
  "grouping_spec fs =
     map (\<lambda>f0. let g = group_spec fs f0 in g\<lparr>g_floors := sort_floors (g_floors g)\<rparr>)
       (first_per_building fs)"


section \<open>A campus example\<close>

text \<open>Test data in the shape of the campus list: the floor suffix is Hangul CHEUNG (U+CE35).\<close>

definition cheung :: jsstr where
  "cheung = [0xCE35]"

definition campus_facility :: "int \<Rightarrow> jsstr \<Rightarrow> jsstr \<Rightarrow> bool \<Rightarrow> facility" where
  "campus_facility i b fl fav =
     \<lparr>f_id = i, f_name = js ''facility'', f_category = Cafe, f_building = b, f_floor = fl,
      f_latitude = 36.7675, f_longitude = 127.0745, f_hours = js ''09:00-18:00'',
      f_contact = None, f_description = None, f_image = None, f_isFavorite = fav\<rparr>"

text \<open>The scenario of the specification (section 8): one building, floors B1, 2, 1.\<close>

definition spec_scenario :: "facility list" where
  "spec_scenario =
     [campus_facility 1 (js ''A'') (jiha @ js ''1'' @ cheung) False,
      campus_facility 2 (js ''A'') (js ''2'' @ cheung) False,
      campus_facility 3 (js ''A'') (js ''1'' @ cheung) False]"

definition campus_example :: "facility list" where
  "campus_example =
     [campus_facility 1 (js ''A'') (jiha @ js ''1'' @ cheung) False,
      campus_facility 2 (js ''B'') (js ''1'' @ cheung) True,
      campus_facility 3 (js ''A'') (js ''2'' @ cheung) True,
      campus_facility 4 (js ''A'') (jiha @ js ''1'' @ cheung) False]"

text \<open>The two groups of the campus example, written out.\<close>

definition campus_group_A :: grouped_facility where
  "campus_group_A =
     \<lparr>g_building = js ''A'', g_category = Cafe, g_latitude = 36.7675, g_longitude = 127.0745,
      g_floors = [\<lparr>fi_floor = jiha @ js ''1'' @ cheung,
                   fi_facilities = [campus_facility 1 (js ''A'') (jiha @ js ''1'' @ cheung) False,
                                    campus_facility 4 (js ''A'') (jiha @ js ''1'' @ cheung) False]\<rparr>,
                  \<lparr>fi_floor = js ''2'' @ cheung,
                   fi_facilities = [campus_facility 3 (js ''A'') (js ''2'' @ cheung) True]\<rparr>],
      g_isFavorite = True\<rparr>"

definition campus_group_B :: grouped_facility where
  "campus_group_B =
     \<lparr>g_building = js ''B'', g_category = Cafe, g_latitude = 36.7675, g_longitude = 127.0745,
      g_floors = [\<lparr>fi_floor = js ''1'' @ cheung,
                   fi_facilities = [campus_facility 2 (js ''B'') (js ''1'' @ cheung) True]\<rparr>],
      g_isFavorite = True\<rparr>"

section \<open>The loop implements the specification\<close>

lemmas grouping_eval = groupFacilitiesByBuilding_def group_step_def new_group_def
  sort_floors_def getFloorNumber_def first_digit_run_def parse_digits_def Let_def
  campus_facility_def cheung_def jsstr_simps

subsection \<open>Representatives of buildings\<close>

lemma first_per_building_snoc:
  "first_per_building (xs @ [x]) =
     first_per_building xs @ (if f_building x \<in> f_building ` set xs then [] else [x])"
proof (induction xs rule: first_per_building.induct)
  case 1
  then show ?case by simp
next
  case (2 f fs)
  show ?case
  proof (cases "f_building x = f_building f")
    case True
    then show ?thesis by simp
  next
    case False
    then have "f_building x \<in> f_building ` set (filter (\<lambda>g. f_building g \<noteq> f_building f) fs)
                 \<longleftrightarrow> f_building x \<in> f_building ` set fs"
      by auto
    with False "2.IH" show ?thesis by simp
  qed
qed

lemma first_per_building_buildings:
  "map f_building (first_per_building xs) = first_occ (map f_building xs)"
  by (induction xs rule: rev_induct) (auto simp: first_per_building_snoc)

lemma distinct_first_per_building: "distinct (map f_building (first_per_building xs))"
  by (simp add: first_per_building_buildings)

lemma building_in_first_per_building:
  "f_building x \<in> f_building ` set xs \<Longrightarrow>
     \<exists>f0 \<in> set (first_per_building xs). f_building f0 = f_building x"
  using first_per_building_buildings [of xs]
  by (metis (no_types, lifting) image_iff list.set_map set_first_occ)

text \<open>The representative of a building is its first facility.\<close>

lemma first_per_building_first:
  "f0 \<in> set (first_per_building xs) \<Longrightarrow>
     \<exists>rest. building_facilities xs (f_building f0) = f0 # rest"
proof (induction xs rule: first_per_building.induct)
  case 1
  then show ?case by simp
next
  case (2 f fs)
  show ?case
  proof (cases "f0 = f")
    case True
    then show ?thesis by (simp add: building_facilities_def)
  next
    case False
    let ?P = "\<lambda>g. f_building g \<noteq> f_building f"
    from False "2.prems" have f0: "f0 \<in> set (first_per_building (filter ?P fs))" by simp
    then obtain rest where rest: "building_facilities (filter ?P fs) (f_building f0) = f0 # rest"
      using "2.IH" by blast
    then have "f0 \<in> set (building_facilities (filter ?P fs) (f_building f0))" by simp
    then have "f_building f0 \<noteq> f_building f" by (simp add: building_facilities_def)
    then have "building_facilities (filter ?P fs) (f_building f0)
                 = building_facilities (f # fs) (f_building f0)"
      by (simp add: building_facilities_def) (intro filter_cong, auto)
    with rest show ?thesis by simp
  qed
qed

lemma first_per_building_subset: "set (first_per_building xs) \<subseteq> set xs"
  by (induction xs rule: rev_induct) (auto simp: first_per_building_snoc)

subsection \<open>Floors\<close>

lemma floor_group_snoc_other:
  "l \<noteq> f_floor x \<Longrightarrow> floor_group (ys @ [x]) l = floor_group ys l"
  by (simp add: floor_group_def)

lemma map_floor_group_snoc_other:
  "f_floor x \<notin> set L \<Longrightarrow> map (floor_group (ys @ [x])) L = map (floor_group ys) L"
  by (induction L) (auto simp: floor_group_snoc_other)

lemma add_to_floors_floor_groups:
  assumes "distinct L"
  shows "add_to_floors (map (floor_group ys) L) x =
           (if f_floor x \<in> set L then map (floor_group (ys @ [x])) L
            else map (floor_group ys) L @ [\<lparr>fi_floor = f_floor x, fi_facilities = [x]\<rparr>])"
  using assms
proof (induction L)
  case Nil
  then show ?case by simp
next
  case (Cons l L)
  show ?case
  proof (cases "l = f_floor x")
    case True
    with Cons.prems have "f_floor x \<notin> set L" by simp
    with True show ?thesis
      by (simp add: map_floor_group_snoc_other) (simp add: floor_group_def)
  next
    case False
    with Cons show ?thesis by (simp add: floor_group_snoc_other floor_group_def)
  qed
qed

text \<open>Adding a facility to the floors of a building's facilities gives the floors of the longer list.\<close>

lemma add_to_floors_spec: "add_to_floors (floors_spec ys) x = floors_spec (ys @ [x])"
proof (cases "f_floor x \<in> f_floor ` set ys")
  case True
  then show ?thesis
    by (simp add: floors_spec_def add_to_floors_floor_groups)
next
  case False
  then have "floor_group (ys @ [x]) (f_floor x) = \<lparr>fi_floor = f_floor x, fi_facilities = [x]\<rparr>"
    by (simp add: floor_group_def)
  with False show ?thesis
    by (simp add: floors_spec_def add_to_floors_floor_groups map_floor_group_snoc_other)
qed

subsection \<open>The loop invariant\<close>

lemma group_spec_snoc_other:
  "f_building f0 \<noteq> f_building x \<Longrightarrow> group_spec (xs @ [x]) f0 = group_spec xs f0"
  by (simp add: group_spec_def building_facilities_def)

lemma group_spec_snoc_same:
  "f_building f0 = f_building x \<Longrightarrow>
     group_spec (xs @ [x]) f0 =
       (group_spec xs f0)\<lparr>g_floors := add_to_floors (g_floors (group_spec xs f0)) x,
          g_isFavorite := (if f_isFavorite x then True else g_isFavorite (group_spec xs f0))\<rparr>"
  by (simp add: group_spec_def building_facilities_def add_to_floors_spec Let_def)

lemma group_spec_new_building:
  "f_building x \<notin> f_building ` set xs \<Longrightarrow>
     group_spec (xs @ [x]) x =
       (new_group x)\<lparr>g_floors := add_to_floors (g_floors (new_group x)) x,
          g_isFavorite := (if f_isFavorite x then True else g_isFavorite (new_group x))\<rparr>"
proof -
  assume new: "f_building x \<notin> f_building ` set xs"
  then have "building_facilities xs (f_building x) = []"
    by (simp add: building_facilities_def)
  then have "building_facilities (xs @ [x]) (f_building x) = [x]"
    by (simp add: building_facilities_def)
  then show ?thesis
    by (simp add: group_spec_def new_group_def floors_spec_def floor_group_def)
qed

lemma group_loop:
  "foldl group_step [] xs = map (\<lambda>f0. (f_building f0, group_spec xs f0)) (first_per_building xs)"
proof (induction xs rule: rev_induct)
  case Nil
  show ?case by simp
next
  case (snoc x xs)
  have dist: "distinct (map f_building (first_per_building xs))"
    by (rule distinct_first_per_building)
  show ?case
  proof (cases "f_building x \<in> f_building ` set xs")
    case True
    then obtain f0 where f0: "f0 \<in> set (first_per_building xs)" "f_building f0 = f_building x"
      using building_in_first_per_building by blast
    have get: "map_of (map (\<lambda>z. (f_building z, group_spec xs z)) (first_per_building xs))
                 (f_building x) = Some (group_spec xs f0)"
      using map_of_map_keys [OF dist f0(1)] f0(2) by simp
    have "foldl group_step [] (xs @ [x]) =
            group_step (map (\<lambda>z. (f_building z, group_spec xs z)) (first_per_building xs)) x"
      using snoc.IH by simp
    also have "\<dots> = AList.update (f_building f0) (group_spec (xs @ [x]) f0)
              (map (\<lambda>z. (f_building z, group_spec xs z)) (first_per_building xs))"
      using get f0(2) by (simp add: group_step_def group_spec_snoc_same Let_def)
    also have "\<dots> = map (\<lambda>z. (f_building z, if f_building z = f_building x
                                         then group_spec (xs @ [x]) f0 else group_spec xs z))
                       (first_per_building xs)"
      using update_map_keys [OF dist f0(1)] f0(2) by simp
    also have "\<dots> = map (\<lambda>z. (f_building z, group_spec (xs @ [x]) z)) (first_per_building xs)"
    proof (rule map_cong [OF refl])
      fix z
      assume z: "z \<in> set (first_per_building xs)"
      show "(f_building z, if f_building z = f_building x
                           then group_spec (xs @ [x]) f0 else group_spec xs z)
            = (f_building z, group_spec (xs @ [x]) z)"
      proof (cases "f_building z = f_building x")
        case True
        from dist have "inj_on f_building (set (first_per_building xs))"
          by (simp add: distinct_map)
        with f0 z True have "z = f0" by (metis inj_onD)
        with True show ?thesis by simp
      next
        case False
        then show ?thesis by (simp add: group_spec_snoc_other)
      qed
    qed
    finally show ?thesis
      using True by (simp add: first_per_building_snoc)
  next
    case False
    have keys: "f_building x \<notin> f_building ` set (first_per_building xs)"
      using False first_per_building_subset by blast
    have get: "map_of (map (\<lambda>z. (f_building z, group_spec xs z)) (first_per_building xs))
                 (f_building x) = None"
      using map_of_map_keys_None [OF keys] .
    have "foldl group_step [] (xs @ [x]) =
            group_step (map (\<lambda>z. (f_building z, group_spec xs z)) (first_per_building xs)) x"
      using snoc.IH by simp
    also have "\<dots> = AList.update (f_building x) (group_spec (xs @ [x]) x)
                       (map (\<lambda>z. (f_building z, group_spec xs z)) (first_per_building xs))"
      unfolding group_step_def Let_def get option.case group_spec_new_building [OF False]
      by (rule refl)
    also have "\<dots> = map (\<lambda>z. (f_building z, group_spec xs z)) (first_per_building xs)
              @ [(f_building x, group_spec (xs @ [x]) x)]"
      by (rule update_map_new_key [OF keys])
    also have "\<dots> = map (\<lambda>z. (f_building z, group_spec (xs @ [x]) z)) (first_per_building xs)
              @ [(f_building x, group_spec (xs @ [x]) x)]"
    proof -
      have "map (\<lambda>z. (f_building z, group_spec xs z)) (first_per_building xs)
              = map (\<lambda>z. (f_building z, group_spec (xs @ [x]) z)) (first_per_building xs)"
      proof (rule map_cong [OF refl])
        fix z
        assume "z \<in> set (first_per_building xs)"
        with keys have "f_building z \<noteq> f_building x" by (metis image_eqI)
        then show "(f_building z, group_spec xs z) = (f_building z, group_spec (xs @ [x]) z)"
          by (simp add: group_spec_snoc_other)
      qed
      then show ?thesis by simp
    qed
    finally show ?thesis
      using False by (simp add: first_per_building_snoc)
  qed
qed

lemma grouping_eq_spec:
  "groupFacilitiesByBuilding fs = grouping_spec fs"
  by (simp add: groupFacilitiesByBuilding_def grouping_spec_def group_loop comp_def Let_def)

text \<open>
  The Map-based grouping loop equals the declarative grouping: one group per building
  in first-occurrence order, represented by its first facility, with one floor per label
  holding exactly that building's facilities on that floor, floors stably sorted by
  getFloorNumber, favourite flag the OR of the members.
\<close>

text \<open>
  The Map-based grouping loop equals the declarative grouping: one group per building
  in first-occurrence order, represented by its first facility, with one floor per label
  holding exactly that building's facilities on that floor, floors stably sorted by
  getFloorNumber, favourite flag the OR of the members.
\<close>

text \<open>
  C1.  The Map-based grouping loop equals the declarative grouping: one group per building
  in first-occurrence order, represented by its first facility, with one floor per label
  holding exactly that building's facilities on that floor, floors stably sorted by
  getFloorNumber, favourite flag the OR of the members.
\<close>

theorem groupFacilitiesByBuilding_refines:
  "groupFacilitiesByBuilding fs = grouping_spec fs"
  by (rule grouping_eq_spec)

lemma groupFacilitiesByBuilding_member:
  assumes "g \<in> set (groupFacilitiesByBuilding fs)"
  obtains f0 where "f0 \<in> set (first_per_building fs)"
    and "g = (group_spec fs f0)\<lparr>g_floors := sort_floors (g_floors (group_spec fs f0))\<rparr>"
  using assms by (auto simp: grouping_eq_spec grouping_spec_def Let_def)

lemma group_spec_simps [simp]:
  "g_building (group_spec fs f0) = f_building f0"
  "g_category (group_spec fs f0) = f_category f0"
  "g_latitude (group_spec fs f0) = f_latitude f0"
  "g_longitude (group_spec fs f0) = f_longitude f0"
  "g_floors (group_spec fs f0) = floors_spec (building_facilities fs (f_building f0))"
  "g_isFavorite (group_spec fs f0) = list_ex f_isFavorite (building_facilities fs (f_building f0))"
  by (simp_all add: group_spec_def Let_def)

lemma fi_floor_floor_group [simp]: "fi_floor (floor_group fsb l) = l"
  by (simp add: floor_group_def)

lemma map_fi_floor_floors_spec: "map fi_floor (floors_spec fsb) = first_occ (map f_floor fsb)"
  by (simp add: floors_spec_def comp_def)

lemma floors_spec_facilities:
  "mset (concat (map fi_facilities (floors_spec fsb))) = mset fsb"
proof -
  have "concat (map fi_facilities (floors_spec fsb))
          = concat (map (\<lambda>l. filter (\<lambda>f. f_floor f = l) fsb) (first_occ (map f_floor fsb)))"
    by (simp add: floors_spec_def floor_group_def comp_def)
  then show ?thesis
    by (simp add: mset_partition_by_key)
qed

section \<open>Properties of the grouping\<close>

lemma sort_floors_fi_floor:
  "map fi_floor (sort_floors fis) = sort_key getFloorNumber (map fi_floor fis)"
  by (simp add: sort_floors_def map_sort_key_comp)

lemma mset_sort_floors_facilities [simp]:
  "mset (concat (map fi_facilities (sort_floors fis))) = mset (concat (map fi_facilities fis))"
  by (simp add: sort_floors_def)

lemma set_sort_floors [simp]: "set (sort_floors fis) = set fis"
  by (simp add: sort_floors_def)

lemma grouping_spec_buildings:
  "map g_building (grouping_spec fs) = first_occ (map f_building fs)"
  by (simp add: grouping_spec_def Let_def comp_def first_per_building_buildings [symmetric])

lemma grouping_member_facilities:
  assumes "g \<in> set (groupFacilitiesByBuilding fs)"
  shows "mset (concat (map fi_facilities (g_floors g))) = mset (building_facilities fs (g_building g))"
proof -
  obtain f0 where "f0 \<in> set (first_per_building fs)"
    and g: "g = (group_spec fs f0)\<lparr>g_floors := sort_floors (g_floors (group_spec fs f0))\<rparr>"
    using assms by (rule groupFacilitiesByBuilding_member)
  then show ?thesis by (simp add: floors_spec_facilities)
qed

lemma grouping_floor_labels:
  assumes "g \<in> set (groupFacilitiesByBuilding fs)"
  shows "map fi_floor (g_floors g)
           = sort_key getFloorNumber (first_occ (map f_floor (building_facilities fs (g_building g))))"
proof -
  obtain f0 where "f0 \<in> set (first_per_building fs)"
    and g: "g = (group_spec fs f0)\<lparr>g_floors := sort_floors (g_floors (group_spec fs f0))\<rparr>"
    using assms by (rule groupFacilitiesByBuilding_member)
  then show ?thesis
    by (simp add: sort_floors_fi_floor map_fi_floor_floors_spec)
qed

lemma grouping_floor_labels_distinct:
  "g \<in> set (groupFacilitiesByBuilding fs) \<Longrightarrow> distinct (map fi_floor (g_floors g))"
  by (simp add: grouping_floor_labels)

lemma grouping_building_favorite:
  assumes "f \<in> set fs" and "f_isFavorite f"
  shows "\<exists>g \<in> set (groupFacilitiesByBuilding fs). g_building g = f_building f \<and> g_isFavorite g"
proof -
  obtain f0 where f0: "f0 \<in> set (first_per_building fs)" "f_building f0 = f_building f"
    using building_in_first_per_building [of f fs] assms(1) by blast
  let ?g = "(group_spec fs f0)\<lparr>g_floors := sort_floors (g_floors (group_spec fs f0))\<rparr>"
  have mem: "?g \<in> set (groupFacilitiesByBuilding fs)"
    using f0(1) by (auto simp: grouping_eq_spec grouping_spec_def Let_def)
  have fav: "g_isFavorite ?g"
    using assms f0(2) by (auto simp: building_facilities_def list_ex_iff)
  show ?thesis
  proof (rule bexI [where x = ?g])
    show "g_building ?g = f_building f \<and> g_isFavorite ?g"
      using fav f0(2) by simp
  qed (rule mem)
qed

text \<open>
  C2.  The output building order is the order of first occurrence of the buildings in the
  input list.
\<close>

theorem groupFacilitiesByBuilding_building_order:
  "map g_building (groupFacilitiesByBuilding fs) = first_occ (map f_building fs)"
  by (simp add: grouping_eq_spec grouping_spec_buildings)

text \<open>
  C3.  The floor labels of a group are the building's distinct labels in first-occurrence
  order, stably sorted by getFloorNumber; the keys along the floor list are sorted.
\<close>

theorem groupFacilitiesByBuilding_floor_order:
  assumes "g \<in> set (groupFacilitiesByBuilding fs)"
  shows "map fi_floor (g_floors g)
           = sort_key getFloorNumber (first_occ (map f_floor (building_facilities fs (g_building g))))
         \<and> sorted (map (\<lambda>fi. getFloorNumber (fi_floor fi)) (g_floors g))"
proof -
  obtain f0 where "f0 \<in> set (first_per_building fs)"
    and g: "g = (group_spec fs f0)\<lparr>g_floors := sort_floors (g_floors (group_spec fs f0))\<rparr>"
    using assms by (rule groupFacilitiesByBuilding_member)
  then show ?thesis
    by (simp add: sort_floors_fi_floor map_fi_floor_floors_spec)
      (simp add: sort_floors_def)
qed

text \<open>
  C30.  A floor of a group holds exactly the input facilities with that building and that
  floor label, in input order.
\<close>

theorem groupFacilitiesByBuilding_floor_members:
  assumes "g \<in> set (groupFacilitiesByBuilding fs)" and "fi \<in> set (g_floors g)"
  shows "fi_facilities fi = filter (\<lambda>f. f_building f = g_building g \<and> f_floor f = fi_floor fi) fs"
proof -
  obtain f0 where "f0 \<in> set (first_per_building fs)"
    and g: "g = (group_spec fs f0)\<lparr>g_floors := sort_floors (g_floors (group_spec fs f0))\<rparr>"
    using assms(1) by (rule groupFacilitiesByBuilding_member)
  with assms(2) obtain l where "fi = floor_group (building_facilities fs (f_building f0)) l"
    by (auto simp: floors_spec_def)
  with g show ?thesis
    by (simp add: floor_group_def building_facilities_def)
qed

text \<open>
  C4.  Every input facility appears exactly once among the floor lists of the groups (the
  multiset of all grouped facilities equals the input's).
\<close>

theorem groupFacilitiesByBuilding_partition:
  "mset (concat (map (\<lambda>g. concat (map fi_facilities (g_floors g))) (groupFacilitiesByBuilding fs)))
     = mset fs"
proof -
  let ?G = "groupFacilitiesByBuilding fs"
  have "mset (concat (map (\<lambda>g. concat (map fi_facilities (g_floors g))) ?G))
          = mset (concat (map (\<lambda>g. building_facilities fs (g_building g)) ?G))"
    by (rule mset_concat_map_cong) (simp add: grouping_member_facilities)
  also have "\<dots> = mset (concat (map (\<lambda>b. filter (\<lambda>f. f_building f = b) fs) (map g_building ?G)))"
    by (simp add: building_facilities_def comp_def)
  also have "map g_building ?G = first_occ (map f_building fs)"
    by (simp add: grouping_eq_spec grouping_spec_buildings)
  also have "mset (concat (map (\<lambda>b. filter (\<lambda>f. f_building f = b) fs)
                 (first_occ (map f_building fs)))) = mset fs"
    by (simp add: mset_partition_by_key)
  finally show ?thesis .
qed

text \<open>
  A group is marked favourite exactly when some facility of its building is a
  favourite.
\<close>

theorem groupFacilitiesByBuilding_favorite:
  assumes "g \<in> set (groupFacilitiesByBuilding fs)"
  shows "g_isFavorite g \<longleftrightarrow> (\<exists>f \<in> set fs. f_building f = g_building g \<and> f_isFavorite f)"
proof -
  obtain f0 where "f0 \<in> set (first_per_building fs)"
    and g: "g = (group_spec fs f0)\<lparr>g_floors := sort_floors (g_floors (group_spec fs f0))\<rparr>"
    using assms by (rule groupFacilitiesByBuilding_member)
  then show ?thesis
    by (auto simp: building_facilities_def list_ex_iff)
qed

text \<open>
  A group's category and coordinates are those of the first facility of its
  building.
\<close>

theorem groupFacilitiesByBuilding_representative:
  assumes "g \<in> set (groupFacilitiesByBuilding fs)"
  shows "\<exists>f0 rest. building_facilities fs (g_building g) = f0 # rest
           \<and> g_category g = f_category f0 \<and> g_latitude g = f_latitude f0
           \<and> g_longitude g = f_longitude f0"
proof -
  obtain f0 where f0: "f0 \<in> set (first_per_building fs)"
    and g: "g = (group_spec fs f0)\<lparr>g_floors := sort_floors (g_floors (group_spec fs f0))\<rparr>"
    using assms by (rule groupFacilitiesByBuilding_member)
  from f0 obtain rest where "building_facilities fs (f_building f0) = f0 # rest"
    using first_per_building_first by blast
  with g show ?thesis by simp
qed

section \<open>Floor numbers\<close>

lemma jiha_not_digit: "\<forall>c \<in> set jiha. \<not> is_digit c"
  by (simp add: jsstr_simps)

lemma getFloorNumber_run:
  assumes "\<forall>c \<in> set p. \<not> is_digit c" and "q = [] \<or> \<not> is_digit (hd q)"
  shows "getFloorNumber (p @ show_nat n @ q)
           = (if js_includes (p @ show_nat n @ q) jiha then - int n else int n)"
  using first_digit_run_split [OF assms(1) show_nat_not_Nil show_nat_digits assms(2)]
  by (simp add: getFloorNumber_def)

lemma not_includes_jiha_digits:
  "\<not> js_includes (show_nat m @ cheung) jiha"
proof
  assume "js_includes (show_nat m @ cheung) jiha"
  then have "(0xC9C0 :: 16 word) \<in> set (show_nat m @ cheung)"
    using js_includes_set by (fastforce simp: jiha_def)
  then show False
    using show_nat_digits [of m] by (auto simp: cheung_def is_digit_def)
qed

text \<open>
  C31.  For a label made of a digit-free prefix, the decimal digits of n and a suffix not
  starting with a digit, getFloorNumber reads back -n when the label contains the basement
  prefix JI HA and n otherwise.
\<close>

theorem getFloorNumber_digit_run:
  assumes "\<forall>c \<in> set p. \<not> is_digit c" and "q = [] \<or> \<not> is_digit (hd q)"
  shows "getFloorNumber (p @ show_nat n @ q)
           = (if js_includes (p @ show_nat n @ q) jiha then - int n else int n)"
  using assms by (rule getFloorNumber_run)

theorem getFloorNumber_digit_run_witness:
  "list_all (\<lambda>c. \<not> is_digit c) jiha \<and> (cheung = [] \<or> \<not> is_digit (hd cheung))
   \<and> getFloorNumber (jiha @ show_nat 1 @ cheung) = -1"
  using getFloorNumber_digit_run [of jiha cheung 1]
  by (simp add: jsstr_simps cheung_def show_nat.simps digit_unit_def)

text \<open>
  C32.  A label without digits gets key -999 if it contains the basement prefix and 0
  otherwise.
\<close>

theorem getFloorNumber_no_digits:
  assumes "\<forall>c \<in> set l. \<not> is_digit c"
  shows "getFloorNumber l = (if js_includes l jiha then -999 else 0)"
  using first_digit_run_None [OF assms] by (simp add: getFloorNumber_def)

theorem getFloorNumber_no_digits_witness:
  "list_all (\<lambda>c. \<not> is_digit c) jiha \<and> getFloorNumber jiha = -999"
  using getFloorNumber_no_digits [of jiha] by (simp add: jsstr_simps)

text \<open>
  A basement label JI HA n CHEUNG with n > 0 gets a key strictly below every ground
  label m CHEUNG, so basements sort first.
\<close>

theorem basement_below_ground:
  assumes "0 < n"
  shows "getFloorNumber (jiha @ show_nat n @ cheung) < getFloorNumber (show_nat m @ cheung)"
proof -
  have "getFloorNumber (jiha @ show_nat n @ cheung) = - int n"
    using getFloorNumber_run [OF jiha_not_digit, of cheung n]
    by (simp add: cheung_def is_digit_def)
  moreover have "getFloorNumber (show_nat m @ cheung) = int m"
    using getFloorNumber_run [of "[]" cheung m] not_includes_jiha_digits [of m]
    by (simp add: cheung_def is_digit_def)
  ultimately show ?thesis using assms by simp
qed

theorem basement_below_ground_witness:
  "0 < (1::nat) \<and> getFloorNumber (jiha @ show_nat 1 @ cheung) < getFloorNumber (show_nat 1 @ cheung)"
  using basement_below_ground [of 1 1] by simp

section \<open>The specification's scenario\<close>

text \<open>
  The specification's scenario: facilities of building A on floors B1 (JI HA 1), 2
  and 1 group into one group A with floor order B1, 1, 2.
\<close>

theorem spec_scenario_grouping:
  "map (\<lambda>g. (g_building g, map fi_floor (g_floors g))) (groupFacilitiesByBuilding spec_scenario)
     = [(js ''A'', [jiha @ js ''1'' @ cheung, js ''1'' @ cheung, js ''2'' @ cheung])]"
  by (simp add: spec_scenario_def grouping_eval)

section \<open>Witnesses on the campus example\<close>

lemma campus_example_grouped: "groupFacilitiesByBuilding campus_example = [campus_group_A, campus_group_B]"
  by (simp add: campus_example_def campus_group_A_def campus_group_B_def grouping_eval)

lemmas campus_groups_eval = campus_example_def campus_group_A_def campus_group_B_def campus_facility_def

theorem groupFacilitiesByBuilding_floor_order_witness:
  "hd (groupFacilitiesByBuilding campus_example) \<in> set (groupFacilitiesByBuilding campus_example)
   \<and> map fi_floor (g_floors (hd (groupFacilitiesByBuilding campus_example)))
       = sort_key getFloorNumber (first_occ (map f_floor (building_facilities campus_example
           (g_building (hd (groupFacilitiesByBuilding campus_example))))))
   \<and> sorted (map (\<lambda>fi. getFloorNumber (fi_floor fi))
       (g_floors (hd (groupFacilitiesByBuilding campus_example))))"
  using groupFacilitiesByBuilding_floor_order
    [of "hd (groupFacilitiesByBuilding campus_example)" campus_example]
  unfolding campus_example_grouped by (simp add: campus_groups_eval grouping_eval)

theorem groupFacilitiesByBuilding_floor_members_witness:
  "hd (groupFacilitiesByBuilding campus_example) \<in> set (groupFacilitiesByBuilding campus_example)
   \<and> hd (g_floors (hd (groupFacilitiesByBuilding campus_example)))
       \<in> set (g_floors (hd (groupFacilitiesByBuilding campus_example)))
   \<and> fi_facilities (hd (g_floors (hd (groupFacilitiesByBuilding campus_example))))
       = filter (\<lambda>f. f_building f = g_building (hd (groupFacilitiesByBuilding campus_example))
                   \<and> f_floor f = fi_floor (hd (g_floors (hd (groupFacilitiesByBuilding campus_example)))))
           campus_example"
  using groupFacilitiesByBuilding_floor_members
    [of "hd (groupFacilitiesByBuilding campus_example)" campus_example
        "hd (g_floors (hd (groupFacilitiesByBuilding campus_example)))"]
  unfolding campus_example_grouped by (simp add: campus_groups_eval grouping_eval)

theorem groupFacilitiesByBuilding_favorite_witness:
  "hd (groupFacilitiesByBuilding campus_example) \<in> set (groupFacilitiesByBuilding campus_example)
   \<and> g_isFavorite (hd (groupFacilitiesByBuilding campus_example))"
  using groupFacilitiesByBuilding_favorite
    [of "hd (groupFacilitiesByBuilding campus_example)" campus_example]
  unfolding campus_example_grouped by (simp add: campus_groups_eval grouping_eval)

theorem groupFacilitiesByBuilding_representative_witness:
  "hd (groupFacilitiesByBuilding campus_example) \<in> set (groupFacilitiesByBuilding campus_example)
   \<and> (\<exists>f0 rest. building_facilities campus_example
          (g_building (hd (groupFacilitiesByBuilding campus_example))) = f0 # rest
        \<and> g_category (hd (groupFacilitiesByBuilding campus_example)) = f_category f0
        \<and> g_latitude (hd (groupFacilitiesByBuilding campus_example)) = f_latitude f0
        \<and> g_longitude (hd (groupFacilitiesByBuilding campus_example)) = f_longitude f0)"
  using groupFacilitiesByBuilding_representative
    [of "hd (groupFacilitiesByBuilding campus_example)" campus_example]
  unfolding campus_example_grouped by (simp add: campus_groups_eval grouping_eval)

end
