(* ===== verification/MapView.thy ===== *)
theory MapView
  imports Grouping "HOL-Library.While_Combinator"
begin

text \<open>
  The map screen, \<open>MapView.tsx\<close> apart from the grouping transform (theory \<open>Grouping\<close>).
  \<^item> The category filter (lines 107-112) and the groups it feeds (line 115).
  \<^item> \<open>latLngToPixel\<close> (lines 118-132): the linear projection of the fallback ("mock") map
    into a 0-100 percent box, clamped.  JavaScript numbers are doubles; the model computes
    in \<open>real\<close>, so rounding is not modelled, and the inputs are taken finite (no NaN).
  \<^item> The three effects (lines 135-263) as a step relation on a record of the component's
    state (\<open>mapLoaded\<close>, \<open>mapError\<close>, \<open>useMockMap\<close>, the refs \<open>naverMapRef\<close> and
    \<open>markersRef\<close>) together with the browser state the effects observe and schedule: whether
    \<open>window.naver\<close> and \<open>window.naver.maps\<close> exist, the script request, the polling
    interval and the 5 s timeout.  Timers, the script callbacks and the arrival of the SDK
    interleave in any order, so the steps are an inductive relation; the effect of lines
    177-203 runs once after each change of its dependencies (a pending flag), the marker
    effect after every render (its dependency \<open>groupedFacilities\<close> is a new array on each
    render).
  \<^item> \<open>handleCurrentLocation\<close> (lines 266-311) as the list of map commands it issues for a
    geolocation outcome, and the map area of the render (lines 345-480) as a value saying
    which layers are shown and where the fallback markers go.
\<close>

section \<open>Filtering and projection\<close>

definition filteredFacilities :: "facility list \<Rightarrow> jsstr \<Rightarrow> facility list" where
  "filteredFacilities fs selectedCategory =
     (if selectedCategory = js ''all'' then fs
      else filter (\<lambda>f. category_id (f_category f) = selectedCategory) fs)"

definition groupedFacilities :: "facility list \<Rightarrow> jsstr \<Rightarrow> grouped_facility list" where
  "groupedFacilities fs selectedCategory =
     groupFacilitiesByBuilding (filteredFacilities fs selectedCategory)"

text \<open>The campus bounds of lines 120-125 and \<open>BAEKSEOK_CENTER\<close> of lines 83-86.\<close>

definition bound_north :: real where "bound_north = 36.770"
definition bound_south :: real where "bound_south = 36.765"
definition bound_east :: real where "bound_east = 127.077"
definition bound_west :: real where "bound_west = 127.072"

definition center_lat :: real where "center_lat = 36.7675"
definition center_lng :: real where "center_lng = 127.0745"

definition clamp_pct :: "real \<Rightarrow> real" where
  "clamp_pct v = max 0 (min 100 v)"

definition latLngToPixel :: "real \<Rightarrow> real \<Rightarrow> real \<times> real" where
  "latLngToPixel lat lng =
     (let x = ((lng - bound_west) / (bound_east - bound_west)) * 100;
          y = ((bound_north - lat) / (bound_north - bound_south)) * 100
      in (clamp_pct x, clamp_pct y))"

section \<open>The loading effects\<close>

text \<open>What \<open>window.naver\<close> holds: nothing, the namespace without \<open>maps\<close>, or the SDK.\<close>

datatype sdk_state = SdkAbsent | SdkNamespace | SdkReady

text \<open>The \<open><script>\<close> element of lines 142-169: not appended, loading, or settled.\<close>

datatype script_state = ScriptNone | ScriptLoading | ScriptSettled

record marker =
  mk_title :: jsstr
  mk_lat :: real
  mk_lng :: real
  mk_group :: grouped_facility

record map_state =
  mounted :: bool
  mapLoaded :: bool
  mapError :: bool
  useMockMap :: bool
  naverMap :: bool
  markers :: "marker list"
  sdk :: sdk_state
  script :: script_state
  intervalActive :: bool
  timeoutPending :: bool
  initPending :: bool

text \<open>
  The state at mount: every \<open>useState\<close> false, the refs empty, no timer; the SDK may
  already be on the page (a previous visit of the screen), and the initialisation effect
  is due (effects run after the first render).
\<close>

definition map_init :: "sdk_state \<Rightarrow> map_state" where
  "map_init w =
     \<lparr>mounted = False, mapLoaded = False, mapError = False, useMockMap = False, naverMap = False,
      markers = [], sdk = w, script = ScriptNone, intervalActive = False,
      timeoutPending = False, initPending = True\<rparr>"

text \<open>
  A change of \<open>mapLoaded\<close> or \<open>useMockMap\<close> makes the effect of lines 177-203 due again
  (its dependency list).
\<close>

definition set_loaded :: "map_state \<Rightarrow> map_state" where
  "set_loaded s = s\<lparr>mapLoaded := True, initPending := initPending s \<or> \<not> mapLoaded s\<rparr>"

definition set_mock :: "map_state \<Rightarrow> map_state" where
  "set_mock s = s\<lparr>useMockMap := True, initPending := initPending s \<or> \<not> useMockMap s\<rparr>"

text \<open>Lines 135-174, the effect with empty dependencies: runs once, at mount.\<close>

definition mount_effect :: "map_state \<Rightarrow> map_state" where
  "mount_effect s =
     (let s' = s\<lparr>mounted := True\<rparr>
      in if sdk s = SdkReady then set_loaded s' else s'\<lparr>script := ScriptLoading\<rparr>)"

text \<open>Lines 147-164, \<open>script.onload\<close>: start polling every 100 ms and a 5 s timeout.\<close>

definition script_onload :: "map_state \<Rightarrow> map_state" where
  "script_onload s = s\<lparr>script := ScriptSettled, intervalActive := True, timeoutPending := True\<rparr>"

text \<open>Lines 165-168, \<open>script.onerror\<close>.\<close>

definition script_onerror :: "map_state \<Rightarrow> map_state" where
  "script_onerror s = set_loaded (set_mock (s\<lparr>script := ScriptSettled\<rparr>))"

text \<open>Lines 149-154, one tick of \<open>checkNaver\<close>.\<close>

definition interval_tick :: "map_state \<Rightarrow> map_state" where
  "interval_tick s =
     (if sdk s = SdkReady then set_loaded (s\<lparr>intervalActive := False\<rparr>) else s)"

text \<open>Lines 157-163, the timeout: clear the interval, fall back if the SDK is not there.\<close>

definition timeout_fires :: "map_state \<Rightarrow> map_state" where
  "timeout_fires s =
     (let s' = s\<lparr>timeoutPending := False, intervalActive := False\<rparr>
      in if sdk s \<noteq> SdkReady then set_loaded (set_mock s') else s')"

text \<open>
  Lines 177-203.  The container \<open>mapRef.current\<close> exists exactly when the SDK layer is
  rendered (\<open>!useMockMap\<close>, line 349), so the guard \<open>!mapRef.current\<close> adds nothing to
  \<open>useMockMap\<close>.  With only the namespace present, reading \<open>window.naver.maps.LatLng\<close>
  throws; the constructor itself may throw (\<open>ctor_fails\<close>); both land in the \<open>catch\<close>.
\<close>

definition init_effect :: "bool \<Rightarrow> map_state \<Rightarrow> map_state" where
  "init_effect ctor_fails s =
     (let s' = s\<lparr>initPending := False\<rparr> in
      if \<not> mapLoaded s \<or> sdk s = SdkAbsent \<or> useMockMap s then s'
      else if sdk s = SdkNamespace \<or> ctor_fails then set_mock s'
      else s'\<lparr>naverMap := True\<rparr>)"

text \<open>Lines 221-261: one marker per group, titled by the building, its click surfacing the group.\<close>

definition marker_of :: "grouped_facility \<Rightarrow> marker" where
  "marker_of g =
     \<lparr>mk_title = g_building g, mk_lat = g_latitude g, mk_lng = g_longitude g, mk_group = g\<rparr>"

text \<open>Lines 206-263: replace the markers when the SDK map exists and the mode is not the fallback.\<close>

definition marker_effect :: "grouped_facility list \<Rightarrow> map_state \<Rightarrow> map_state" where
  "marker_effect groups s =
     (if \<not> naverMap s \<or> sdk s \<noteq> SdkReady \<or> useMockMap s then s
      else s\<lparr>markers := map marker_of groups\<rparr>)"

text \<open>The SDK script defines \<open>window.naver\<close>, then \<open>window.naver.maps\<close>; it never goes away.\<close>

fun sdk_rank :: "sdk_state \<Rightarrow> nat" where
  "sdk_rank SdkAbsent = 0"
| "sdk_rank SdkNamespace = 1"
| "sdk_rank SdkReady = 2"

inductive map_step :: "map_state \<Rightarrow> map_state \<Rightarrow> bool" where
  mount: "\<not> mounted s \<Longrightarrow> map_step s (mount_effect s)"
| onload: "script s = ScriptLoading \<Longrightarrow> map_step s (script_onload s)"
| onerror: "script s = ScriptLoading \<Longrightarrow> map_step s (script_onerror s)"
| tick: "intervalActive s \<Longrightarrow> map_step s (interval_tick s)"
| timeout: "timeoutPending s \<Longrightarrow> map_step s (timeout_fires s)"
| init: "initPending s \<Longrightarrow> map_step s (init_effect b s)"
| render: "map_step s (marker_effect groups s)"
| sdk_arrives: "sdk_rank (sdk s) < sdk_rank w \<Longrightarrow> map_step s (s\<lparr>sdk := w\<rparr>)"

inductive map_reachable :: "map_state \<Rightarrow> bool" where
  start: "map_reachable (map_init w)"
| step: "map_reachable s \<Longrightarrow> map_step s t \<Longrightarrow> map_reachable t"


text \<open>
  The timers of \<open>script.onload\<close> (lines 147-164).  After the load the \<open>checkNaver\<close> interval
  ticks every 100 ms until it sees the SDK, and the 5 s timeout clears it.  Browsers only
  guarantee lower bounds for timer delays, so how many ticks run before the timeout is not
  fixed (50 when the timers are punctual, fewer when the interval drifts): the schedule is an
  input.  Event \<open>i\<close> of a run is the \<open>i\<close>-th tick for \<open>i \<le> ticks\<close> and the timeout for
  \<open>i = Suc ticks\<close>; \<open>ready i\<close> says whether \<open>window.naver.maps\<close> has appeared when event \<open>i\<close>
  runs (once there it stays, so the state records the first sighting).  The loop runs while
  a timer is pending.
\<close>

definition seen_by :: "(nat \<Rightarrow> bool) \<Rightarrow> map_state \<Rightarrow> nat \<Rightarrow> bool" where
  "seen_by ready s0 j \<longleftrightarrow> sdk s0 = SdkReady \<or> (\<exists>i \<in> {1..j}. ready i)"

definition poll_round :: "(nat \<Rightarrow> bool) \<Rightarrow> nat \<Rightarrow> nat \<times> map_state \<Rightarrow> nat \<times> map_state" where
  "poll_round ready ticks ns =
     (let n = fst ns; s = snd ns;
          s1 = (if ready (Suc n) then s\<lparr>sdk := SdkReady\<rparr> else s)
      in (Suc n, if n < ticks then (if intervalActive s1 then interval_tick s1 else s1)
                 else (if timeoutPending s1 then timeout_fires s1 else s1)))"

definition poll_timers :: "(nat \<Rightarrow> bool) \<Rightarrow> nat \<Rightarrow> map_state \<Rightarrow> (nat \<times> map_state) option" where
  "poll_timers ready ticks s =
     while_option (\<lambda>ns. intervalActive (snd ns) \<or> timeoutPending (snd ns)) (poll_round ready ticks)
       (0, script_onload s)"

definition poll_inv :: "(nat \<Rightarrow> bool) \<Rightarrow> nat \<Rightarrow> map_state \<Rightarrow> nat \<times> map_state \<Rightarrow> bool" where
  "poll_inv ready ticks s0 ns \<longleftrightarrow>
     (let n = fst ns; s = snd ns; r = seen_by ready s0 n in
      (n = 0 \<and> s = script_onload s0)
      \<or> (0 < n \<and> n \<le> Suc ticks \<and> (timeoutPending s \<longleftrightarrow> n \<le> ticks)
         \<and> (intervalActive s \<longleftrightarrow> n \<le> ticks \<and> \<not> r) \<and> (sdk s = SdkReady \<longleftrightarrow> r)
         \<and> (mapLoaded s \<longleftrightarrow> (0 < ticks \<and> seen_by ready s0 (min n ticks)) \<or> (n = Suc ticks \<and> \<not> r))
         \<and> (useMockMap s \<longleftrightarrow> n = Suc ticks \<and> \<not> r)))"

text \<open>
  What the effects keep true between them: the error flag is never raised, the fallback
  only comes with a loaded map, timers only run after the script loaded, and an SDK map
  (and its markers) exists only in a loaded, non-fallback state with the SDK present.
\<close>

definition map_inv :: "map_state \<Rightarrow> bool" where
  "map_inv s \<longleftrightarrow>
     \<not> mapError s
     \<and> (useMockMap s \<longrightarrow> mapLoaded s)
     \<and> (mapLoaded s \<longrightarrow> mounted s \<and> script s \<noteq> ScriptLoading)
     \<and> (script s \<noteq> ScriptNone \<longrightarrow> mounted s)
     \<and> (intervalActive s \<longrightarrow> timeoutPending s)
     \<and> (timeoutPending s \<longrightarrow> script s = ScriptSettled)
     \<and> (naverMap s \<longrightarrow> sdk s = SdkReady \<and> mapLoaded s \<and> \<not> useMockMap s \<and> \<not> initPending s)
     \<and> (markers s \<noteq> [] \<longrightarrow> naverMap s)"


section \<open>Runs of the effects\<close>

text \<open>The SDK never arrives: the script loads, and the 5 s timeout falls back.\<close>

definition fallback_state :: map_state where
  "fallback_state = timeout_fires (script_onload (mount_effect (map_init SdkAbsent)))"

text \<open>
  The SDK becomes ready after the script loaded but before the next poll, and the
  timeout fires first: it clears the interval and, seeing the SDK, does not fall back.
\<close>

definition race_state :: map_state where
  "race_state =
     timeout_fires ((script_onload (mount_effect (map_init SdkAbsent)))\<lparr>sdk := SdkReady\<rparr>)"

text \<open>The SDK was already on the page: the map is created at the first effects.\<close>

definition sdk_map_state :: map_state where
  "sdk_map_state = init_effect False (mount_effect (map_init SdkReady))"

text \<open>A state from which no effect can ever mark the map loaded.\<close>

definition stuck_inv :: "map_state \<Rightarrow> bool" where
  "stuck_inv s \<longleftrightarrow> mounted s \<and> \<not> mapLoaded s \<and> \<not> naverMap s \<and> \<not> mapError s
     \<and> \<not> intervalActive s \<and> \<not> timeoutPending s \<and> script s = ScriptSettled \<and> sdk s = SdkReady"

section \<open>Current location and the rendered map area\<close>

datatype geo_outcome = GeoPosition real real | GeoDenied

datatype map_command = SetCenter real real | SetZoom nat

text \<open>
  Lines 266-311: the commands sent to the SDK map.  In the fallback mode and without the
  SDK the handler only logs; without \<open>navigator.geolocation\<close> or a map it does nothing;
  otherwise the position callback recentres and zooms to 17, the error callback recentres
  on the campus centre.
\<close>

definition handleCurrentLocation :: "map_state \<Rightarrow> bool \<Rightarrow> geo_outcome \<Rightarrow> map_command list" where
  "handleCurrentLocation s has_geolocation outcome =
     (if useMockMap s then []
      else if sdk s \<noteq> SdkReady then []
      else if \<not> (has_geolocation \<and> naverMap s) then []
      else (case outcome of
              GeoPosition lat lng \<Rightarrow> [SetCenter lat lng, SetZoom 17]
            | GeoDenied \<Rightarrow> [SetCenter center_lat center_lng]))"

record map_area =
  sdk_container :: bool
  mock_markers :: "(jsstr \<times> (real \<times> real)) list option"
  loading_overlay :: bool
  error_panel :: bool
  location_button :: bool

text \<open>Lines 345-480: the layers of the map area and the fallback markers' positions.\<close>

definition render_map_area :: "map_state \<Rightarrow> grouped_facility list \<Rightarrow> map_area" where
  "render_map_area s groups =
     \<lparr>sdk_container = (\<not> useMockMap s),
      mock_markers = (if useMockMap s
                      then Some (map (\<lambda>g. (g_building g, latLngToPixel (g_latitude g) (g_longitude g)))
                                   groups)
                      else None),
      loading_overlay = (\<not> mapLoaded s \<and> \<not> mapError s),
      error_panel = mapError s,
      location_button = (mapLoaded s \<and> \<not> useMockMap s)\<rparr>"


section \<open>The effects keep the invariant\<close>

inductive_cases map_step_cases: "map_step s t"

lemma map_inv_init: "map_inv (map_init w)"
  by (simp add: map_inv_def map_init_def)

lemma map_inv_mount: "map_inv s \<Longrightarrow> \<not> mounted s \<Longrightarrow> map_inv (mount_effect s)"
  unfolding map_inv_def mount_effect_def Let_def set_loaded_def by auto

lemma map_inv_onload: "map_inv s \<Longrightarrow> script s = ScriptLoading \<Longrightarrow> map_inv (script_onload s)"
  unfolding map_inv_def script_onload_def by auto

lemma map_inv_onerror: "map_inv s \<Longrightarrow> script s = ScriptLoading \<Longrightarrow> map_inv (script_onerror s)"
  unfolding map_inv_def script_onerror_def set_loaded_def set_mock_def by auto

lemma map_inv_tick: "map_inv s \<Longrightarrow> intervalActive s \<Longrightarrow> map_inv (interval_tick s)"
  unfolding map_inv_def interval_tick_def set_loaded_def by auto

lemma map_inv_timeout: "map_inv s \<Longrightarrow> timeoutPending s \<Longrightarrow> map_inv (timeout_fires s)"
  unfolding map_inv_def timeout_fires_def set_loaded_def set_mock_def Let_def by auto

lemma map_inv_init_effect: "map_inv s \<Longrightarrow> initPending s \<Longrightarrow> map_inv (init_effect b s)"
  unfolding map_inv_def init_effect_def set_mock_def Let_def by (cases "sdk s") auto

lemma map_inv_marker: "map_inv s \<Longrightarrow> map_inv (marker_effect gs s)"
  unfolding map_inv_def marker_effect_def by auto

lemma map_inv_sdk:
  "map_inv s \<Longrightarrow> sdk_rank (sdk s) < sdk_rank w \<Longrightarrow> map_inv (s\<lparr>sdk := w\<rparr>)"
  unfolding map_inv_def by (cases "sdk s"; cases w) auto

lemma map_step_inv: "map_step s t \<Longrightarrow> map_inv s \<Longrightarrow> map_inv t"
proof (induction rule: map_step.induct)
  case (mount s)
  then show ?case by (intro map_inv_mount)
next
  case (onload s)
  then show ?case by (intro map_inv_onload)
next
  case (onerror s)
  then show ?case by (intro map_inv_onerror)
next
  case (tick s)
  then show ?case by (intro map_inv_tick)
next
  case (timeout s)
  then show ?case by (intro map_inv_timeout)
next
  case (init s b)
  then show ?case by (intro map_inv_init_effect)
next
  case (render s groups)
  then show ?case by (intro map_inv_marker)
next
  case (sdk_arrives s w)
  then show ?case by (intro map_inv_sdk)
qed

lemma map_reachable_inv: "map_reachable s \<Longrightarrow> map_inv s"
  by (induction rule: map_reachable.induct) (auto intro: map_inv_init map_step_inv)

section \<open>Properties of the loading effects\<close>

lemma map_step_monotone:
  "map_step s t \<Longrightarrow> (useMockMap s \<longrightarrow> useMockMap t) \<and> (mapLoaded s \<longrightarrow> mapLoaded t)"
  by (induction rule: map_step.induct)
    (auto simp: mount_effect_def script_onload_def script_onerror_def interval_tick_def
      timeout_fires_def init_effect_def marker_effect_def set_loaded_def set_mock_def Let_def)

lemma map_steps_reachable: "map_step\<^sup>*\<^sup>* s t \<Longrightarrow> map_reachable s \<Longrightarrow> map_reachable t"
  by (induction rule: rtranclp_induct) (auto intro: map_reachable.step)

lemma stuck_inv_step: "map_step s t \<Longrightarrow> stuck_inv s \<Longrightarrow> stuck_inv t"
proof (induction rule: map_step.induct)
  case (sdk_arrives s w)
  then show ?case by (cases w) (auto simp: stuck_inv_def)
qed (auto simp: stuck_inv_def mount_effect_def script_onload_def script_onerror_def
       interval_tick_def timeout_fires_def init_effect_def marker_effect_def Let_def)

lemma stuck_inv_steps: "map_step\<^sup>*\<^sup>* s t \<Longrightarrow> stuck_inv s \<Longrightarrow> stuck_inv t"
  by (induction rule: rtranclp_induct) (auto intro: stuck_inv_step)

lemma race_state_reachable: "map_reachable race_state"
proof -
  let ?s1 = "mount_effect (map_init SdkAbsent)"
  let ?s2 = "script_onload ?s1"
  have r1: "map_reachable ?s1"
    by (rule map_reachable.step [OF map_reachable.start]) (rule map_step.mount, simp add: map_init_def)
  have r2: "map_reachable ?s2"
    by (rule map_reachable.step [OF r1])
      (rule map_step.onload, simp add: map_init_def mount_effect_def Let_def)
  have r3: "map_reachable (?s2\<lparr>sdk := SdkReady\<rparr>)"
    by (rule map_reachable.step [OF r2])
      (rule map_step.sdk_arrives, simp add: map_init_def mount_effect_def script_onload_def Let_def)
  show ?thesis unfolding race_state_def
    by (rule map_reachable.step [OF r3])
      (rule map_step.timeout, simp add: script_onload_def)
qed

lemma fallback_state_reachable: "map_reachable fallback_state"
proof -
  let ?s1 = "mount_effect (map_init SdkAbsent)"
  have r1: "map_reachable ?s1"
    by (rule map_reachable.step [OF map_reachable.start]) (rule map_step.mount, simp add: map_init_def)
  have r2: "map_reachable (script_onload ?s1)"
    by (rule map_reachable.step [OF r1])
      (rule map_step.onload, simp add: map_init_def mount_effect_def Let_def)
  show ?thesis unfolding fallback_state_def
    by (rule map_reachable.step [OF r2]) (rule map_step.timeout, simp add: script_onload_def)
qed

lemma sdk_map_state_reachable: "map_reachable sdk_map_state"
proof -
  have r1: "map_reachable (mount_effect (map_init SdkReady))"
    by (rule map_reachable.step [OF map_reachable.start]) (rule map_step.mount, simp add: map_init_def)
  show ?thesis unfolding sdk_map_state_def
    by (rule map_reachable.step [OF r1])
      (rule map_step.init, simp add: map_init_def mount_effect_def set_loaded_def Let_def)
qed

lemma fallback_state_mode: "useMockMap fallback_state" "mapLoaded fallback_state"
  by (simp_all add: fallback_state_def timeout_fires_def script_onload_def mount_effect_def
      map_init_def set_loaded_def set_mock_def Let_def)

lemma sdk_map_state_naver: "naverMap sdk_map_state"
  by (simp add: sdk_map_state_def init_effect_def mount_effect_def map_init_def set_loaded_def Let_def)

section \<open>Claims on the map screen\<close>

text \<open>
  C8.  No reachable state raises mapError, so the error panel of the render (lines
  439-466) is never shown.
\<close>

theorem map_error_panel_unreachable:
  assumes "map_reachable s"
  shows "\<not> mapError s \<and> \<not> error_panel (render_map_area s gs)"
  using map_reachable_inv [OF assms] by (simp add: map_inv_def render_map_area_def)

theorem map_error_panel_unreachable_witness:
  "map_reachable race_state \<and> \<not> error_panel (render_map_area race_state [])"
  using map_error_panel_unreachable [OF race_state_reachable, of "[]"] race_state_reachable
  by simp

text \<open>
  C6.  Along any sequence of effect steps of one mount of MapView the fallback mode, once
  chosen, is never left (and a loaded map stays loaded).  A tab switch unmounts the map,
  and the next mount starts from map_init again.
\<close>

theorem map_mode_one_way:
  assumes "map_step\<^sup>*\<^sup>* s t" and "useMockMap s"
  shows "useMockMap t \<and> (mapLoaded s \<longrightarrow> mapLoaded t)"
proof -
  from assms(1) have "(useMockMap s \<longrightarrow> useMockMap t) \<and> (mapLoaded s \<longrightarrow> mapLoaded t)"
    by (induction rule: rtranclp_induct) (auto dest: map_step_monotone)
  with assms(2) show ?thesis by simp
qed

theorem map_mode_one_way_witness:
  "map_step\<^sup>*\<^sup>* fallback_state (marker_effect [] fallback_state) \<and> useMockMap fallback_state
   \<and> useMockMap (marker_effect [] fallback_state) \<and> mapLoaded (marker_effect [] fallback_state)"
proof -
  have step: "map_step\<^sup>*\<^sup>* fallback_state (marker_effect [] fallback_state)"
    by (rule r_into_rtranclp) (rule map_step.render)
  from map_mode_one_way [OF step fallback_state_mode(1)] fallback_state_mode step
  show ?thesis by simp
qed

text \<open>
  C7.  In every reachable state in fallback mode there is no SDK map, no SDK marker and no
  SDK container: the two render modes are exclusive.
\<close>

theorem fallback_excludes_sdk_markers:
  assumes "map_reachable s" and "useMockMap s"
  shows "markers s = [] \<and> \<not> naverMap s \<and> \<not> sdk_container (render_map_area s gs)"
  using map_reachable_inv [OF assms(1)] assms(2)
  by (auto simp: map_inv_def render_map_area_def)

theorem fallback_excludes_sdk_markers_witness:
  "map_reachable fallback_state \<and> useMockMap fallback_state \<and> markers fallback_state = []"
proof -
  from fallback_excludes_sdk_markers [OF fallback_state_reachable fallback_state_mode(1), of "[]"]
    fallback_state_reachable fallback_state_mode
  show ?thesis by simp
qed

text \<open>
  C5.  If the SDK becomes ready after the script loaded but the 5 s timeout fires before
  the next 100 ms poll, the timeout clears the poll and does not fall back, and from then
  on no effect ever sets mapLoaded: the loading overlay stays for the rest of this mount
  of MapView although the SDK is ready (a tab switch remounts it and probes again).
\<close>

theorem sdk_ready_race_loads_forever:
  assumes "map_step\<^sup>*\<^sup>* race_state t"
  shows "map_reachable t \<and> sdk t = SdkReady \<and> \<not> mapLoaded t \<and> loading_overlay (render_map_area t gs)"
proof -
  have "stuck_inv race_state"
    by (simp add: stuck_inv_def race_state_def timeout_fires_def script_onload_def
        mount_effect_def map_init_def Let_def)
  with assms have "stuck_inv t" by (rule stuck_inv_steps)
  moreover from assms race_state_reachable have "map_reachable t" by (rule map_steps_reachable)
  ultimately show ?thesis by (simp add: stuck_inv_def render_map_area_def)
qed

theorem sdk_ready_race_loads_forever_witness:
  "map_step\<^sup>*\<^sup>* race_state race_state \<and> \<not> mapLoaded race_state
   \<and> loading_overlay (render_map_area race_state [])"
  using sdk_ready_race_loads_forever [of race_state "[]"] by simp

text \<open>
  With the SDK map created, the current-location button recentres on the reported
  position and zooms to 17, recentres on the campus centre (36.7675, 127.0745) when the
  position is denied, and does nothing without geolocation.
\<close>

theorem current_location_commands:
  assumes "map_reachable s" and "naverMap s"
  shows "handleCurrentLocation s True GeoDenied = [SetCenter 36.7675 127.0745]
       \<and> handleCurrentLocation s True (GeoPosition lat lng) = [SetCenter lat lng, SetZoom 17]
       \<and> handleCurrentLocation s False out = []"
  using map_reachable_inv [OF assms(1)] assms(2)
  by (simp add: map_inv_def handleCurrentLocation_def center_lat_def center_lng_def)

theorem current_location_commands_witness:
  "map_reachable sdk_map_state \<and> naverMap sdk_map_state
   \<and> handleCurrentLocation sdk_map_state True GeoDenied = [SetCenter 36.7675 127.0745]"
proof -
  from current_location_commands [OF sdk_map_state_reachable sdk_map_state_naver]
    sdk_map_state_reachable sdk_map_state_naver
  show ?thesis by blast
qed

section \<open>Claims on filtering, projection and markers\<close>

text \<open>
  The category filter with 'all' returns the list unchanged; with a category's id it
  returns exactly the subsequence of that category, in order.
\<close>

theorem filteredFacilities_category:
  "filteredFacilities fs (js ''all'') = fs
   \<and> filteredFacilities fs (category_id c) = filter (\<lambda>f. f_category f = c) fs"
  by (simp add: filteredFacilities_def)

text \<open>
  When the SDK map exists, the marker effect draws exactly one marker per building
  of the filtered facilities, in first-occurrence order, each click surfacing its group.
\<close>

text \<open>
  When the SDK map exists, the marker effect draws exactly one marker per building
  of the filtered facilities, in first-occurrence order, each click surfacing its group.
\<close>

text \<open>
  C29.  When the SDK map exists, the marker effect draws exactly one marker per building
  of the filtered facilities, in first-occurrence order, each click surfacing its group.
\<close>

theorem sdk_markers_one_per_building:
  assumes "map_reachable s" and "naverMap s"
  shows "map mk_title (markers (marker_effect (groupedFacilities fs sel) s))
           = first_occ (map f_building (filteredFacilities fs sel))
         \<and> map mk_group (markers (marker_effect (groupedFacilities fs sel) s))
           = groupedFacilities fs sel"
proof -
  from map_reachable_inv [OF assms(1)] assms(2)
  have "sdk s = SdkReady" "\<not> useMockMap s" by (simp_all add: map_inv_def)
  with assms(2) show ?thesis
    by (simp add: marker_effect_def marker_of_def comp_def groupedFacilities_def
        grouping_eq_spec grouping_spec_buildings [unfolded comp_def])
qed

theorem sdk_markers_one_per_building_witness:
  "map_reachable sdk_map_state \<and> naverMap sdk_map_state
   \<and> map mk_title (markers (marker_effect (groupedFacilities campus_example (js ''all'')) sdk_map_state))
       = first_occ (map f_building (filteredFacilities campus_example (js ''all'')))"
proof -
  from sdk_markers_one_per_building [OF sdk_map_state_reachable sdk_map_state_naver]
    sdk_map_state_reachable sdk_map_state_naver
  show ?thesis by blast
qed

section \<open>The timers after the script loads\<close>

lemma seen_by_0 [simp]: "seen_by ready s0 0 \<longleftrightarrow> sdk s0 = SdkReady"
  by (simp add: seen_by_def)

lemma seen_by_Suc: "seen_by ready s0 (Suc n) \<longleftrightarrow> seen_by ready s0 n \<or> ready (Suc n)"
  by (auto simp: seen_by_def atLeastAtMostSuc_conv)

lemma poll_inv_step:
  assumes "\<not> mapLoaded s0" "\<not> useMockMap s0"
    and "poll_inv ready ticks s0 ns" "intervalActive (snd ns) \<or> timeoutPending (snd ns)"
  shows "poll_inv ready ticks s0 (poll_round ready ticks ns)
         \<and> Suc ticks - fst (poll_round ready ticks ns) < Suc ticks - fst ns"
proof -
  obtain n s where ns: "ns = (n, s)" by (cases ns)
  let ?r = "seen_by ready s0"
  let ?s1 = "if ready (Suc n) then s\<lparr>sdk := SdkReady\<rparr> else s"
  have pre: "n \<le> ticks \<and> (n = 0 \<longrightarrow> s = script_onload s0)
      \<and> (0 < n \<longrightarrow> timeoutPending s \<and> (intervalActive s \<longleftrightarrow> \<not> ?r n)
           \<and> (sdk s = SdkReady \<longleftrightarrow> ?r n) \<and> (mapLoaded s \<longleftrightarrow> ?r n) \<and> \<not> useMockMap s)"
    using assms(3,4) by (auto simp: poll_inv_def ns Let_def script_onload_def min_def)
  have sdk1: "sdk ?s1 = SdkReady \<longleftrightarrow> ?r (Suc n)"
    using pre by (cases n) (auto simp: seen_by_Suc script_onload_def)
  have fields: "timeoutPending ?s1 = timeoutPending s" "intervalActive ?s1 = intervalActive s"
      "mapLoaded ?s1 = mapLoaded s" "useMockMap ?s1 = useMockMap s"
    by simp_all
  have act: "intervalActive s \<longleftrightarrow> \<not> (0 < n \<and> ?r n)" "timeoutPending s"
    "mapLoaded s = (0 < n \<and> ?r n)" "\<not> useMockMap s"
    using pre assms(1,2) by (cases n; simp add: script_onload_def)+
  have mono: "?r n \<Longrightarrow> ?r (Suc n)"
    by (simp add: seen_by_Suc)
  show ?thesis
    using pre sdk1 fields act mono
    by (auto simp: poll_round_def poll_inv_def ns Let_def interval_tick_def timeout_fires_def
        set_loaded_def set_mock_def min_def)
qed

lemma poll_timers_Some:
  assumes "\<not> mapLoaded s0" "\<not> useMockMap s0"
  shows "\<exists>n r. poll_timers ready ticks s0 = Some (n, r) \<and> poll_inv ready ticks s0 (n, r)
           \<and> \<not> intervalActive r \<and> \<not> timeoutPending r"
proof -
  let ?b = "\<lambda>ns. intervalActive (snd ns) \<or> timeoutPending (snd ns)"
  have init: "poll_inv ready ticks s0 (0, script_onload s0)"
    by (simp add: poll_inv_def)
  have step: "\<And>ns. poll_inv ready ticks s0 ns \<Longrightarrow> ?b ns \<Longrightarrow>
      poll_inv ready ticks s0 (poll_round ready ticks ns)
      \<and> Suc ticks - fst (poll_round ready ticks ns) < Suc ticks - fst ns"
    using poll_inv_step [OF assms] by blast
  obtain ns where ns: "poll_timers ready ticks s0 = Some ns"
    using measure_while_option_Some [of "poll_inv ready ticks s0" ?b "poll_round ready ticks"
        "\<lambda>ns. Suc ticks - fst ns", OF step init]
    unfolding poll_timers_def by blast
  have "poll_inv ready ticks s0 ns"
    using while_option_rule [where P = "poll_inv ready ticks s0", OF _ ns [unfolded poll_timers_def] init] step
    by blast
  moreover have "\<not> ?b ns"
    using while_option_stop [OF ns [unfolded poll_timers_def]] .
  ultimately show ?thesis
    using ns by (cases ns) auto
qed

text \<open>
  C9.  Under every timer schedule (any number of interval ticks before the timeout, the
  SDK appearing at any of these events), the two timers of script.onload always settle:
  after the timeout both are cleared; the map falls back exactly when the timeout does not
  see the SDK, and is loaded exactly when the last tick saw the SDK or the timeout falls
  back, so the race in which only the timeout sees the SDK leaves it neither loaded nor in
  fallback.
\<close>

theorem poll_timers_settle:
  assumes "map_inv s" and "script s = ScriptLoading"
  shows "\<exists>r. poll_timers ready ticks s = Some (Suc ticks, r)
           \<and> \<not> intervalActive r \<and> \<not> timeoutPending r
           \<and> (useMockMap r \<longleftrightarrow> \<not> seen_by ready s (Suc ticks))
           \<and> (mapLoaded r \<longleftrightarrow> (0 < ticks \<and> seen_by ready s ticks) \<or> \<not> seen_by ready s (Suc ticks))"
proof -
  have "\<not> mapLoaded s" "\<not> useMockMap s"
    using assms by (auto simp: map_inv_def)
  from poll_timers_Some [OF this, of ready ticks] obtain n r where
    r: "poll_timers ready ticks s = Some (n, r)" "poll_inv ready ticks s (n, r)"
       "\<not> intervalActive r" "\<not> timeoutPending r"
    by blast
  have n: "n = Suc ticks"
    using r(2-4) by (auto simp: poll_inv_def Let_def script_onload_def)
  have "(useMockMap r \<longleftrightarrow> \<not> seen_by ready s (Suc ticks))
      \<and> (mapLoaded r \<longleftrightarrow> (0 < ticks \<and> seen_by ready s ticks) \<or> \<not> seen_by ready s (Suc ticks))"
    using r(2) by (simp add: poll_inv_def Let_def n)
  then show ?thesis
    using r n by auto
qed

theorem poll_timers_settle_witness:
  "map_inv (mount_effect (map_init SdkAbsent)) \<and> script (mount_effect (map_init SdkAbsent)) = ScriptLoading
   \<and> (\<exists>r. poll_timers (\<lambda>i. 50 \<le> i) 49 (mount_effect (map_init SdkAbsent)) = Some (50, r)
        \<and> \<not> intervalActive r \<and> \<not> timeoutPending r \<and> \<not> useMockMap r \<and> \<not> mapLoaded r)"
proof -
  have h: "map_inv (mount_effect (map_init SdkAbsent))" "script (mount_effect (map_init SdkAbsent)) = ScriptLoading"
    by (simp_all add: map_inv_def mount_effect_def map_init_def)
  have "seen_by (\<lambda>i. 50 \<le> i) (mount_effect (map_init SdkAbsent)) 50"
    by (auto simp: seen_by_def mount_effect_def map_init_def intro: bexI [of _ 50])
  moreover have "\<not> seen_by (\<lambda>i. 50 \<le> i) (mount_effect (map_init SdkAbsent)) 49"
    by (auto simp: seen_by_def mount_effect_def map_init_def)
  ultimately show ?thesis
    using poll_timers_settle [OF h, of "\<lambda>i. 50 \<le> i" 49] h by simp
qed
end
