(* ===== verification/DetailSheet.thy ===== *)
theory DetailSheet
  imports Grouping
begin

text \<open>
  The bottom sheet of \<open>FacilityDetailSheet.tsx\<close>, opened from a map marker with a building
  group (or with a single facility).  Its own state is \<open>copied\<close> and the list of open
  floors; its handlers return the browser effects they cause (navigation, new windows,
  clipboard, native share, downloads, toasts, delayed actions) as a list, in the order the
  code issues them; the favourite handlers call the parent's \<open>onToggleFavorite\<close>, modelled
  by \<open>toggleFavorite\<close> on the facility list.  The two render branches are values saying what
  the sheet shows.  The clock (\<open>new Date()\<close>), \<open>navigator.userAgent\<close>, the presence of
  \<open>navigator.share\<close> and the outcome of \<open>fetch\<close> are inputs.  The rendering of numbers and
  \<open>encodeURIComponent\<close> inside URLs are parameters (\<open>num\<close>, \<open>enc\<close>): the properties do
  not depend on them.
\<close>

section \<open>Labels, state and opening hours\<close>

text \<open>\<open>categoryLabels\<close> (lines 36-46), the Korean name of each category.\<close>

fun categoryLabel :: "category \<Rightarrow> jsstr" where
  "categoryLabel Cafe = [0xCE74, 0xD398]"
| "categoryLabel Restaurant = [0xC2DD, 0xB2F9]"
| "categoryLabel Library = [0xB3C4, 0xC11C, 0xAD00]"
| "categoryLabel Atm = js ''ATM''"
| "categoryLabel Convenience = [0xD3B8, 0xC758, 0xC810]"
| "categoryLabel Medical = [0xC758, 0xBB34, 0xC2E4]"
| "categoryLabel Gym = [0xCCB4, 0xC721, 0xAD00]"
| "categoryLabel Lounge = [0xD734, 0xAC8C, 0xC2E4]"
| "categoryLabel Transport = [0xD1B5, 0xD559, 0xBC84, 0xC2A4]"

record sheet_state =
  copied :: bool
  openFloors :: "jsstr list"

text \<open>
  Lines 51-59: \<open>copied\<close> starts false; the lazy initialiser of line 55 runs on the first
  render and opens the first floor of a group.
\<close>

definition sheet_init :: "grouped_facility option \<Rightarrow> sheet_state" where
  "sheet_init grp =
     \<lparr>copied = False,
      openFloors = (case grp of
                      Some g \<Rightarrow> (case g_floors g of fi # _ \<Rightarrow> [fi_floor fi] | [] \<Rightarrow> [])
                    | None \<Rightarrow> [])\<rparr>"

text \<open>Lines 61-67.\<close>

definition toggleFloor :: "jsstr \<Rightarrow> sheet_state \<Rightarrow> sheet_state" where
  "toggleFloor fl s = s\<lparr>openFloors := toggle_member fl (openFloors s)\<rparr>"

text \<open>The substrings \<open>isOpen\<close> looks for: "24 hours" and "weekdays".\<close>

definition kw_24h :: jsstr where "kw_24h = [0x32, 0x34, 0xC2DC, 0xAC04]"
definition kw_weekday :: jsstr where "kw_weekday = [0xD3C9, 0xC77C]"

text \<open>
  Lines 70-93, for the day of the week (\<open>getDay()\<close>, 0 is Sunday) and the hour
  (\<open>getHours()\<close>) of the current time.
\<close>

definition isOpen :: "facility option \<Rightarrow> nat \<Rightarrow> nat \<Rightarrow> bool" where
  "isOpen fac day hour =
     (case fac of
        None \<Rightarrow> False
      | Some f \<Rightarrow>
          (if day = 0 \<or> day = 6 then False
           else if js_includes (f_hours f) kw_24h then True
           else if js_includes (f_hours f) kw_weekday then 9 \<le> hour \<and> hour < 18
           else False))"

section \<open>Handlers and their effects\<close>

datatype toast_msg = MsgToNaver | MsgCopied | MsgDownloaded | MsgDownloadFailed

datatype sheet_effect =
    SetLocation jsstr
  | OpenWindow jsstr
  | After nat sheet_effect
  | Toast bool toast_msg
  | NativeShare jsstr jsstr
  | ClipboardWrite jsstr
  | SetCopied bool
  | DownloadAs jsstr

text \<open>The two URLs of lines 101 and 104 (and 178), with number rendering and encoding as parameters.\<close>

definition naverMapAppUrl :: "(real \<Rightarrow> jsstr) \<Rightarrow> (jsstr \<Rightarrow> jsstr) \<Rightarrow> facility \<Rightarrow> jsstr" where
  "naverMapAppUrl num enc f =
     js ''nmap://place?lat='' @ num (f_latitude f) @ js ''&lng='' @ num (f_longitude f)
     @ js ''&name='' @ enc (f_name f) @ js ''&appname=com.campuscompass''"

definition naverMapWebUrl :: "(real \<Rightarrow> jsstr) \<Rightarrow> (jsstr \<Rightarrow> jsstr) \<Rightarrow> jsstr \<Rightarrow> real \<Rightarrow> real \<Rightarrow> jsstr" where
  "naverMapWebUrl num enc place lat lng =
     js ''https://map.naver.com/v5/search/'' @ enc place @ js ''?c='' @ num lng @ js '','' @ num lat
     @ js '',16,0,0,0,dh''"

text \<open>
  Lines 95-121: on a phone the app link is tried and the web page opened 2 s later
  (whether or not the app opened); elsewhere only the web page.
\<close>

definition handleGetDirections ::
  "(real \<Rightarrow> jsstr) \<Rightarrow> (jsstr \<Rightarrow> jsstr) \<Rightarrow> bool \<Rightarrow> facility option \<Rightarrow> sheet_effect list" where
  "handleGetDirections num enc mobile fac =
     (case fac of
        None \<Rightarrow> []
      | Some f \<Rightarrow>
          (let web = naverMapWebUrl num enc (f_name f) (f_latitude f) (f_longitude f) in
           (if mobile then [SetLocation (naverMapAppUrl num enc f), After 2000 (OpenWindow web)]
            else [OpenWindow web])
           @ [Toast True MsgToNaver]))"

text \<open>Lines 123-140: the native share sheet if there is one, the clipboard otherwise.\<close>

definition handleShare ::
  "bool \<Rightarrow> facility option \<Rightarrow> sheet_state \<Rightarrow> sheet_state \<times> sheet_effect list" where
  "handleShare has_share fac s =
     (case fac of
        None \<Rightarrow> (s, [])
      | Some f \<Rightarrow>
          (if has_share
           then (s, [NativeShare (f_name f)
                      (f_building f @ js '' '' @ f_floor f @ js '' - ''
                       @ (case js_truthy (f_description f) of Some d \<Rightarrow> d | None \<Rightarrow> []))])
           else (s\<lparr>copied := True\<rparr>,
                 [ClipboardWrite (f_name f @ [0x0A] @ f_building f @ js '' '' @ f_floor f @ [0x0A] @ f_hours f),
                  Toast True MsgCopied, After 2000 (SetCopied False)])))"

text \<open>Lines 142-146.\<close>

definition handleCall :: "facility option \<Rightarrow> sheet_effect list" where
  "handleCall fac =
     (case fac of
        Some f \<Rightarrow> (case js_truthy (f_contact f) of Some c \<Rightarrow> [SetLocation (js ''tel:'' @ c)] | None \<Rightarrow> [])
      | None \<Rightarrow> [])"

datatype fetch_outcome = FetchOk | FetchFails

text \<open>Lines 148-167: fetch the image, save it as \<open><name>.png\<close>; a failure only shows a toast.\<close>

definition handleDownload :: "facility option \<Rightarrow> fetch_outcome \<Rightarrow> sheet_effect list" where
  "handleDownload fac outcome =
     (case fac of
        None \<Rightarrow> []
      | Some f \<Rightarrow>
          (case js_truthy (f_image f) of
             None \<Rightarrow> []
           | Some _ \<Rightarrow>
               (case outcome of
                  FetchOk \<Rightarrow> [DownloadAs (f_name f @ js ''.png''), Toast True MsgDownloaded]
                | FetchFails \<Rightarrow> [Toast False MsgDownloadFailed])))"

section \<open>The grouped sheet\<close>

text \<open>Line 173.\<close>

definition allFacilities :: "grouped_facility \<Rightarrow> facility list" where
  "allFacilities g = concat (map fi_facilities (g_floors g))"

text \<open>Lines 176-181.\<close>

definition groupedDirections ::
  "(real \<Rightarrow> jsstr) \<Rightarrow> (jsstr \<Rightarrow> jsstr) \<Rightarrow> grouped_facility \<Rightarrow> sheet_effect list" where
  "groupedDirections num enc g =
     [OpenWindow (naverMapWebUrl num enc (g_building g) (g_latitude g) (g_longitude g)),
      Toast True MsgToNaver]"

text \<open>
  Line 184.  In the template literal \<open>\\n\<close> is an escaped backslash followed by \<open>n\<close>:
  two code units, 0x5C 0x6E, not a line feed.
\<close>

definition backslash_n :: jsstr where
  "backslash_n = [0x5C, 0x6E]"

definition groupedShareText :: "grouped_facility \<Rightarrow> jsstr" where
  "groupedShareText g =
     g_building g @ backslash_n @ categoryLabel (g_category g) @ backslash_n
     @ [0xCE35, 0xBCC4, 0x20, 0xC2DC, 0xC124, 0x3A, 0x20] @ show_nat (length (g_floors g))
     @ [0xAC1C, 0x20, 0xCE35]"

text \<open>Lines 183-189.\<close>

definition groupedShare :: "grouped_facility \<Rightarrow> sheet_state \<Rightarrow> sheet_state \<times> sheet_effect list" where
  "groupedShare g s =
     (s\<lparr>copied := True\<rparr>,
      [ClipboardWrite (groupedShareText g), Toast True MsgCopied, After 2000 (SetCopied False)])"

text \<open>
  Lines 191-195: \<open>onToggleFavorite(fac.id)\<close> for every facility of the group, one after
  the other, each on the list the previous one left.
\<close>

definition handleToggleFavoriteAll :: "grouped_facility \<Rightarrow> facility list \<Rightarrow> facility list" where
  "handleToggleFavoriteAll g fs = foldl toggleFavorite fs (map f_id (allFacilities g))"

section \<open>What the sheet shows\<close>

record facility_row =
  row_id :: int
  row_name :: jsstr
  row_heart :: bool
  row_hours :: jsstr
  row_contact :: "jsstr option"
  row_description :: "jsstr option"
  row_thumbnail :: bool

record floor_row =
  fr_label :: jsstr
  fr_open :: bool
  fr_count :: nat
  fr_rows :: "facility_row list"

record grouped_view =
  gv_title :: jsstr
  gv_label :: jsstr
  gv_heart :: bool
  gv_floor_badge :: nat
  gv_facility_count :: nat
  gv_floors :: "floor_row list"

record single_view =
  sv_title :: jsstr
  sv_label :: jsstr
  sv_operating :: bool
  sv_location :: jsstr
  sv_hours :: jsstr
  sv_contact :: "jsstr option"
  sv_description :: "jsstr option"
  sv_call_button :: bool
  sv_download_button :: bool
  sv_heart :: bool
  sv_copied :: bool

datatype sheet_view = GroupedSheet grouped_view | SingleSheet single_view

definition facility_row_of :: "facility \<Rightarrow> facility_row" where
  "facility_row_of f =
     \<lparr>row_id = f_id f, row_name = f_name f, row_heart = f_isFavorite f, row_hours = f_hours f,
      row_contact = js_truthy (f_contact f), row_description = js_truthy (f_description f),
      row_thumbnail = (js_truthy (f_image f) \<noteq> None)\<rparr>"

text \<open>Lines 197-371.\<close>

definition render_grouped :: "grouped_facility \<Rightarrow> sheet_state \<Rightarrow> grouped_view" where
  "render_grouped g s =
     \<lparr>gv_title = g_building g, gv_label = categoryLabel (g_category g), gv_heart = g_isFavorite g,
      gv_floor_badge = length (g_floors g), gv_facility_count = length (allFacilities g),
      gv_floors = map (\<lambda>fi. \<lparr>fr_label = fi_floor fi, fr_open = (fi_floor fi \<in> set (openFloors s)),
                              fr_count = length (fi_facilities fi),
                              fr_rows = map facility_row_of (fi_facilities fi)\<rparr>) (g_floors g)\<rparr>"

text \<open>Lines 374-555, at day \<open>day\<close> and hour \<open>hour\<close>.\<close>

definition render_single :: "facility \<Rightarrow> nat \<Rightarrow> nat \<Rightarrow> sheet_state \<Rightarrow> single_view" where
  "render_single f day hour s =
     \<lparr>sv_title = f_name f, sv_label = categoryLabel (f_category f),
      sv_operating = isOpen (Some f) day hour,
      sv_location = f_building f @ js '' '' @ f_floor f, sv_hours = f_hours f,
      sv_contact = js_truthy (f_contact f), sv_description = js_truthy (f_description f),
      sv_call_button = (js_truthy (f_contact f) \<noteq> None),
      sv_download_button = (js_truthy (f_image f) \<noteq> None), sv_heart = f_isFavorite f,
      sv_copied = copied s\<rparr>"

text \<open>Lines 48-49, 172 and 375: nothing without props; the group wins when both are given.\<close>

definition render_sheet ::
  "facility option \<Rightarrow> grouped_facility option \<Rightarrow> nat \<Rightarrow> nat \<Rightarrow> sheet_state \<Rightarrow> sheet_view option" where
  "render_sheet fac grp day hour s =
     (case grp of
        Some g \<Rightarrow> Some (GroupedSheet (render_grouped g s))
      | None \<Rightarrow> (case fac of Some f \<Rightarrow> Some (SingleSheet (render_single f day hour s)) | None \<Rightarrow> None))"

section \<open>Lemmas\<close>

lemma count_list_distinct:
  "distinct xs \<Longrightarrow> count_list xs x = (if x \<in> set xs then 1 else 0)"
  by (induction xs) auto

text \<open>Toggling all the members of a group flips each facility once per occurrence of its id.\<close>

lemma handleToggleFavoriteAll_parity:
  "handleToggleFavoriteAll g fs =
     map (\<lambda>f. if odd (count_list (map f_id (allFacilities g)) (f_id f))
               then f\<lparr>f_isFavorite := \<not> f_isFavorite f\<rparr> else f) fs"
  by (simp add: handleToggleFavoriteAll_def foldl_toggleFavorite)

lemma allFacilities_mset:
  assumes "g \<in> set (groupFacilitiesByBuilding fs)"
  shows "mset (allFacilities g) = mset (filter (\<lambda>f. f_building f = g_building g) fs)"
  using grouping_member_facilities [OF assms] by (simp add: allFacilities_def building_facilities_def)

text \<open>With unique ids, toggling all the members of a group flips exactly the building's facilities.\<close>

lemma toggle_all_building:
  assumes g: "g \<in> set (groupFacilitiesByBuilding fs)" and ids: "distinct (map f_id fs)"
  shows "handleToggleFavoriteAll g fs =
           map (\<lambda>f. if f_building f = g_building g then f\<lparr>f_isFavorite := \<not> f_isFavorite f\<rparr> else f) fs"
proof -
  let ?B = "filter (\<lambda>f. f_building f = g_building g) fs"
  have cnt: "count_list (map f_id (allFacilities g)) i = count_list (map f_id ?B) i" for i
    using allFacilities_mset [OF g] by (metis count_mset mset_map)
  have "distinct (map f_id ?B)"
    using ids by (simp add: distinct_map_filter)
  then have one: "count_list (map f_id ?B) i = (if i \<in> f_id ` set ?B then 1 else 0)" for i
    by (simp add: count_list_distinct)
  have inj: "inj_on f_id (set fs)"
    using ids by (simp add: distinct_map)
  have mem: "f_id f \<in> f_id ` {x \<in> set fs. f_building x = g_building g} \<longleftrightarrow>
               f_building f = g_building g" if "f \<in> set fs" for f
    using that inj by (auto dest: inj_onD)
  show ?thesis
    unfolding handleToggleFavoriteAll_parity cnt one
    by (rule map_cong [OF refl]) (simp add: mem)
qed

lemma show_nat_no_lf: "(0x0A :: 16 word) \<notin> set (show_nat n)"
  using show_nat_digits [of n] by (auto simp: is_digit_def)

lemma categoryLabel_no_lf: "(0x0A :: 16 word) \<notin> set (categoryLabel c)"
  by (cases c) (simp_all add: js_def)

lemma categoryLabel_sublist:
  "sublist (backslash_n @ categoryLabel (g_category g) @ backslash_n) (groupedShareText g)"
  unfolding groupedShareText_def sublist_def by (rule exI [of _ "g_building g"]) auto

lemmas sheet_eval = render_grouped_def render_single_def sheet_init_def toggleFloor_def isOpen_def
  handleShare_def handleDownload_def handleCall_def handleGetDirections_def groupedShareText_def
  allFacilities_def facility_row_of_def js_truthy_def kw_24h_def kw_weekday_def backslash_n_def

section \<open>Properties of the sheet\<close>

text \<open>
  C11.  With unique ids, the grouped sheet's favourite-all flips the favourite flag of
  exactly the facilities of the group's building and leaves every other facility
  unchanged.
\<close>

theorem handleToggleFavoriteAll_building:
  assumes "g \<in> set (groupFacilitiesByBuilding fs)" and "distinct (map f_id fs)"
  shows "handleToggleFavoriteAll g fs =
           map (\<lambda>f. if f_building f = g_building g then f\<lparr>f_isFavorite := \<not> f_isFavorite f\<rparr> else f) fs"
  using assms by (rule toggle_all_building)

text \<open>
  C10.  After the building heart's toggle-all on a group with a non-favourite member (ids
  unique), the regrouped building is still marked favourite, so the heart of a mixed group
  stays lit instead of clearing all favourites.
\<close>

theorem toggle_all_mixed_group_stays_favorite:
  assumes g: "g \<in> set (groupFacilitiesByBuilding fs)" and ids: "distinct (map f_id fs)"
    and f: "f \<in> set fs" "f_building f = g_building g" "\<not> f_isFavorite f"
  shows "\<exists>g' \<in> set (groupFacilitiesByBuilding (handleToggleFavoriteAll g fs)).
           g_building g' = g_building g \<and> gv_heart (render_grouped g' s)"
proof -
  let ?f = "f\<lparr>f_isFavorite := \<not> f_isFavorite f\<rparr>"
  have "?f \<in> set (handleToggleFavoriteAll g fs)"
    using f by (force simp: toggle_all_building [OF g ids])
  from grouping_building_favorite [OF this] f show ?thesis
    by (simp add: render_grouped_def)
qed

text \<open>
  Pressing the building heart twice restores every facility's favourite flag (spec
  section 8: toggling twice returns the flag to its original value).
\<close>

theorem handleToggleFavoriteAll_twice:
  "handleToggleFavoriteAll g (handleToggleFavoriteAll g fs) = fs"
proof -
  let ?ids = "map f_id (allFacilities g)"
  have "handleToggleFavoriteAll g (handleToggleFavoriteAll g fs) = foldl toggleFavorite fs (?ids @ ?ids)"
    by (simp add: handleToggleFavoriteAll_def)
  also have "\<dots> = fs"
    unfolding foldl_toggleFavorite count_list_append by (simp add: map_idI)
  finally show ?thesis .
qed

text \<open>
  C33.  The grouped share text contains no line feed at all: its separators are the two
  characters backslash and n, written around the category label.
\<close>

theorem groupedShareText_no_line_break:
  assumes "(0x0A :: 16 word) \<notin> set (g_building g)"
  shows "(0x0A :: 16 word) \<notin> set (groupedShareText g)
         \<and> sublist (backslash_n @ categoryLabel (g_category g) @ backslash_n) (groupedShareText g)"
  using assms show_nat_no_lf categoryLabel_no_lf categoryLabel_sublist
  by (simp add: groupedShareText_def backslash_n_def)

text \<open>
  Without navigator.share, the single sheet copies name, location and hours on three
  lines, sets copied and schedules its reset 2 s later.
\<close>

theorem handleShare_clipboard_lines:
  assumes "(0x0A :: 16 word) \<notin> set (f_name f)" "(0x0A :: 16 word) \<notin> set (f_building f)"
    "(0x0A :: 16 word) \<notin> set (f_floor f)" "(0x0A :: 16 word) \<notin> set (f_hours f)"
  shows "copied (fst (handleShare False (Some f) s))
         \<and> (\<exists>t. ClipboardWrite t \<in> set (snd (handleShare False (Some f) s)) \<and> count_list t 0x0A = 2)
         \<and> After 2000 (SetCopied False) \<in> set (snd (handleShare False (Some f) s))"
  using assms by (auto simp: handleShare_def js_def count_list_0_iff)

text \<open>
  C35.  On Saturday and Sunday the single sheet shows every facility as closed, including
  one whose hours say 24 hours.
\<close>

theorem render_single_weekend_closed:
  assumes "day = 0 \<or> day = 6"
  shows "\<not> sv_operating (render_single f day hour s)"
  using assms by (auto simp: render_single_def isOpen_def)

text \<open>
  C34.  A facility whose hours mention neither 24 hours nor weekdays (e.g. '09:00-18:00')
  is never shown as open, whatever the day and hour.
\<close>

theorem isOpen_unrecognised_hours:
  assumes "\<not> js_includes (f_hours f) kw_24h" and "\<not> js_includes (f_hours f) kw_weekday"
  shows "\<not> isOpen (Some f) day hour"
  using assms by (simp add: isOpen_def)

text \<open>
  Tapping a floor header flips that floor's section between expanded and collapsed
  and leaves every other section as it was.
\<close>

theorem toggleFloor_render:
  "map fr_open (gv_floors (render_grouped g (toggleFloor l s)))
     = map (\<lambda>fi. if fi_floor fi = l then fi_floor fi \<notin> set (openFloors s)
                 else fi_floor fi \<in> set (openFloors s)) (g_floors g)"
  by (simp add: render_grouped_def toggleFloor_def)

text \<open>
  When the sheet opens on a group, exactly the first (lowest) floor's section is
  expanded.
\<close>

theorem sheet_init_first_floor_open:
  assumes "g \<in> set (groupFacilitiesByBuilding fs)"
  shows "map fr_open (gv_floors (render_grouped g (sheet_init (Some g))))
           = (case g_floors g of [] \<Rightarrow> [] | _ # rest \<Rightarrow> True # replicate (length rest) False)"
proof (cases "g_floors g")
  case Nil
  then show ?thesis by (simp add: render_grouped_def)
next
  case (Cons fi rest)
  have d: "fi_floor fi \<notin> fi_floor ` set rest"
    using grouping_floor_labels_distinct [OF assms] Cons by simp
  have "map (\<lambda>fi'. fi_floor fi' = fi_floor fi) rest = replicate (length rest) False"
    using d by (induction rest) auto
  with Cons show ?thesis
    by (simp add: render_grouped_def sheet_init_def comp_def)
qed

text \<open>
  The grouped sheet's badges count the building's facilities and its distinct floor
  labels of the input list.
\<close>

theorem render_grouped_counts:
  assumes "g \<in> set (groupFacilitiesByBuilding fs)"
  shows "gv_facility_count (render_grouped g s) = length (filter (\<lambda>f. f_building f = g_building g) fs)
         \<and> gv_floor_badge (render_grouped g s) = card (f_floor ` {f \<in> set fs. f_building f = g_building g})"
proof
  show "gv_facility_count (render_grouped g s) = length (filter (\<lambda>f. f_building f = g_building g) fs)"
    using mset_eq_length [OF allFacilities_mset [OF assms]] by (simp add: render_grouped_def)
next
  have "length (g_floors g) = length (map fi_floor (g_floors g))" by simp
  also have "\<dots> = length (first_occ (map f_floor (building_facilities fs (g_building g))))"
    by (simp add: grouping_floor_labels [OF assms])
  also have "\<dots> = card (f_floor ` {f \<in> set fs. f_building f = g_building g})"
    by (simp add: distinct_card [symmetric] building_facilities_def)
  finally show "gv_floor_badge (render_grouped g s) = card (f_floor ` {f \<in> set fs. f_building f = g_building g})"
    by (simp add: render_grouped_def)
qed

text \<open>
  The call and download buttons are shown exactly when pressing them has an effect
  (a non-empty contact, a non-empty image).
\<close>

theorem render_single_buttons_effective:
  "(sv_call_button (render_single f day hour s) \<longleftrightarrow> handleCall (Some f) \<noteq> [])
   \<and> (sv_download_button (render_single f day hour s) \<longleftrightarrow> handleDownload (Some f) out \<noteq> [])"
  by (simp add: render_single_def handleCall_def handleDownload_def split: option.split fetch_outcome.split)

text \<open>
  The image download is saved only when the facility has a non-empty image and the
  fetch succeeds; a failed fetch shows only the error toast; without an image nothing
  happens.
\<close>

theorem handleDownload_outcomes:
  "((\<exists>n. DownloadAs n \<in> set (handleDownload fac out))
     \<longleftrightarrow> out = FetchOk \<and> (\<exists>f. fac = Some f \<and> js_truthy (f_image f) \<noteq> None))
   \<and> (Toast False MsgDownloadFailed \<in> set (handleDownload fac out)
     \<longleftrightarrow> out = FetchFails \<and> (\<exists>f. fac = Some f \<and> js_truthy (f_image f) \<noteq> None))"
  by (cases out; cases fac; cases "js_truthy (f_image (the fac))") (auto simp: handleDownload_def)

text \<open>
  On a phone the directions open, 2 s after the app link, the same web page a
  desktop opens at once, and every run ends with the success toast.
\<close>

theorem handleGetDirections_same_page:
  "(OpenWindow w \<in> set (handleGetDirections num enc False fac)
      \<longleftrightarrow> After 2000 (OpenWindow w) \<in> set (handleGetDirections num enc True fac))
   \<and> (fac \<noteq> None \<longrightarrow> last (handleGetDirections num enc mobile fac) = Toast True MsgToNaver)"
  by (auto simp: handleGetDirections_def Let_def split: option.split)

section \<open>Witnesses on the campus example\<close>

theorem handleToggleFavoriteAll_building_witness:
  "(hd (groupFacilitiesByBuilding campus_example)) \<in> set (groupFacilitiesByBuilding campus_example) \<and> distinct (map f_id campus_example)
   \<and> map f_isFavorite (handleToggleFavoriteAll (hd (groupFacilitiesByBuilding campus_example)) campus_example) = [True, True, False, True]"
  using handleToggleFavoriteAll_building [of "(hd (groupFacilitiesByBuilding campus_example))" campus_example]
  unfolding campus_example_grouped by (simp add: campus_groups_eval grouping_eval)

theorem toggle_all_mixed_group_stays_favorite_witness:
  "(hd (groupFacilitiesByBuilding campus_example)) \<in> set (groupFacilitiesByBuilding campus_example) \<and> distinct (map f_id campus_example)
   \<and> hd campus_example \<in> set campus_example \<and> f_building (hd campus_example) = g_building (hd (groupFacilitiesByBuilding campus_example))
   \<and> \<not> f_isFavorite (hd campus_example)
   \<and> (\<exists>g' \<in> set (groupFacilitiesByBuilding (handleToggleFavoriteAll (hd (groupFacilitiesByBuilding campus_example)) campus_example)).
        g_building g' = g_building (hd (groupFacilitiesByBuilding campus_example)) \<and> gv_heart (render_grouped g' (sheet_init (Some (hd (groupFacilitiesByBuilding campus_example))))))"
  using toggle_all_mixed_group_stays_favorite
    [of "(hd (groupFacilitiesByBuilding campus_example))" campus_example "hd campus_example" "sheet_init (Some (hd (groupFacilitiesByBuilding campus_example)))"]
  unfolding campus_example_grouped by (simp add: campus_groups_eval grouping_eval)

theorem groupedShareText_no_line_break_witness:
  "(0x0A :: 16 word) \<notin> set (g_building (hd (groupFacilitiesByBuilding campus_example))) \<and> (0x0A :: 16 word) \<notin> set (groupedShareText (hd (groupFacilitiesByBuilding campus_example)))"
  using groupedShareText_no_line_break [of "(hd (groupFacilitiesByBuilding campus_example))"]
  unfolding campus_example_grouped by (simp add: campus_groups_eval grouping_eval js_def)

theorem handleShare_clipboard_lines_witness:
  "(0x0A :: 16 word) \<notin> set (f_name (hd campus_example))
   \<and> (0x0A :: 16 word) \<notin> set (f_building (hd campus_example))
   \<and> (0x0A :: 16 word) \<notin> set (f_floor (hd campus_example))
   \<and> (0x0A :: 16 word) \<notin> set (f_hours (hd campus_example))
   \<and> copied (fst (handleShare False (Some (hd campus_example)) (sheet_init None)))"
  using handleShare_clipboard_lines [of "hd campus_example" "sheet_init None"]
  by (simp add: campus_example_def campus_facility_def cheung_def jsstr_simps js_def)

theorem render_single_weekend_closed_witness:
  "((6::nat) = 0 \<or> (6::nat) = 6)
   \<and> isOpen (Some ((hd campus_example)\<lparr>f_hours := kw_24h\<rparr>)) 3 12
   \<and> \<not> sv_operating (render_single ((hd campus_example)\<lparr>f_hours := kw_24h\<rparr>) 6 12 (sheet_init None))"
  using render_single_weekend_closed [of 6 "(hd campus_example)\<lparr>f_hours := kw_24h\<rparr>" 12 "sheet_init None"]
  by (simp add: campus_example_def campus_facility_def isOpen_def)

theorem isOpen_unrecognised_hours_witness:
  "\<not> js_includes (f_hours (hd campus_example)) kw_24h
   \<and> \<not> js_includes (f_hours (hd campus_example)) kw_weekday
   \<and> \<not> isOpen (Some (hd campus_example)) 3 10"
  using isOpen_unrecognised_hours [of "hd campus_example" 3 10]
  by (simp add: campus_example_def campus_facility_def kw_24h_def kw_weekday_def js_def)

theorem sheet_init_first_floor_open_witness:
  "(hd (groupFacilitiesByBuilding campus_example)) \<in> set (groupFacilitiesByBuilding campus_example)
   \<and> map fr_open (gv_floors (render_grouped (hd (groupFacilitiesByBuilding campus_example)) (sheet_init (Some (hd (groupFacilitiesByBuilding campus_example)))))) = [True, False]"
  using sheet_init_first_floor_open [of "(hd (groupFacilitiesByBuilding campus_example))" campus_example]
  unfolding campus_example_grouped by (simp add: campus_groups_eval grouping_eval)

theorem render_grouped_counts_witness:
  "(hd (groupFacilitiesByBuilding campus_example)) \<in> set (groupFacilitiesByBuilding campus_example)
   \<and> gv_facility_count (render_grouped (hd (groupFacilitiesByBuilding campus_example)) (sheet_init None)) = 3
   \<and> gv_floor_badge (render_grouped (hd (groupFacilitiesByBuilding campus_example)) (sheet_init None)) = 2"
  using render_grouped_counts [of "(hd (groupFacilitiesByBuilding campus_example))" campus_example "sheet_init None"]
  unfolding campus_example_grouped by (simp add: campus_groups_eval grouping_eval render_grouped_def allFacilities_def)

theorem handleGetDirections_same_page_witness:
  "Some (hd campus_example) \<noteq> None
   \<and> last (handleGetDirections (\<lambda>_. js ''0'') id True (Some (hd campus_example)))
       = Toast True MsgToNaver"
  using handleGetDirections_same_page [of _ "\<lambda>_. js ''0''" id "Some (hd campus_example)" True]
  by simp

end
