(* ===== verification/DetailPage.thy ===== *)
theory DetailPage
  imports DetailSheet "HOL-Library.List_Lexorder"
begin

text \<open>
  The routed detail page of \<open>FacilityDetailPage.tsx\<close> (\<open>/facility/:id\<close>).  Its effect looks
  the route's id up in the facility list, or navigates home; its render groups the
  facilities by building and, inside a building, by name, through plain JavaScript objects
  used as dictionaries.  Those objects are modelled with their real semantics: own keys as
  an association list in insertion order, \<open>Object.keys\<close> listing array-index keys first in
  ascending order, and a lookup of a missing key falling through to \<open>Object.prototype\<close>, whose
  members are truthy functions without \<open>push\<close>: the \<open>push\<close> then throws a \<open>TypeError\<close>, which
  is the value \<open>None\<close> of the render.
\<close>

section \<open>Plain objects used as dictionaries\<close>

text \<open>The property names every object literal inherits from \<open>Object.prototype\<close>.\<close>

definition object_prototype_names :: "jsstr list" where
  "object_prototype_names =
     map js [''constructor'', ''__defineGetter__'', ''__defineSetter__'', ''hasOwnProperty'',
             ''__lookupGetter__'', ''__lookupSetter__'', ''isPrototypeOf'', ''propertyIsEnumerable'',
             ''toString'', ''valueOf'', ''__proto__'', ''toLocaleString'']"

datatype 'v js_prop = Own 'v | Inherited | Undefined

definition obj_get :: "(jsstr \<times> 'v) list \<Rightarrow> jsstr \<Rightarrow> 'v js_prop" where
  "obj_get obj k =
     (case map_of obj k of
        Some v \<Rightarrow> Own v
      | None \<Rightarrow> if k \<in> set object_prototype_names then Inherited else Undefined)"

text \<open>An array index: a canonical decimal numeral below \<open>2^32 - 1\<close>.\<close>

definition is_array_index :: "jsstr \<Rightarrow> bool" where
  "is_array_index k \<longleftrightarrow>
     k \<noteq> [] \<and> list_all is_digit k \<and> (hd k = 0x30 \<longrightarrow> k = [0x30]) \<and> parse_digits k < 4294967295"

text \<open>\<open>Object.keys\<close> (and the order of \<open>Object.entries\<close>) of an object with these own keys.\<close>

definition key_order :: "jsstr list \<Rightarrow> jsstr list" where
  "key_order ks = sort_key parse_digits (filter is_array_index ks) @ filter (\<lambda>k. \<not> is_array_index k) ks"

definition object_keys :: "(jsstr \<times> 'v) list \<Rightarrow> jsstr list" where
  "object_keys obj = key_order (map fst obj)"

text \<open>
  \<open>if (!acc[k]) acc[k] = []; acc[k].push(x)\<close> (lines 62-65 and 86-89): a missing key gets a
  new array; an own array is extended; an inherited member is truthy, is kept, and has no
  \<open>push\<close>.
\<close>

definition obj_push :: "(jsstr \<times> 'a list) list \<Rightarrow> jsstr \<Rightarrow> 'a \<Rightarrow> (jsstr \<times> 'a list) list option" where
  "obj_push acc k x =
     (case obj_get acc k of
        Undefined \<Rightarrow> Some (AList.update k [x] acc)
      | Own xs \<Rightarrow> Some (AList.update k (xs @ [x]) acc)
      | Inherited \<Rightarrow> None)"

text \<open>The loop of lines 61-67 (\<open>reduce\<close>) and of lines 85-90 (\<open>forEach\<close>), keyed by \<open>key\<close>.\<close>

fun push_all :: "('a \<Rightarrow> jsstr) \<Rightarrow> (jsstr \<times> 'a list) list \<Rightarrow> 'a list \<Rightarrow> (jsstr \<times> 'a list) list option" where
  "push_all key acc [] = Some acc"
| "push_all key acc (x # xs) =
     (case obj_push acc (key x) x of None \<Rightarrow> None | Some acc' \<Rightarrow> push_all key acc' xs)"

text \<open>A \<open>map\<close> whose callback may throw: the first exception ends the map.\<close>

fun map_throwing :: "('a \<Rightarrow> 'b option) \<Rightarrow> 'a list \<Rightarrow> 'b list option" where
  "map_throwing h [] = Some []"
| "map_throwing h (x # xs) =
     (case h x of None \<Rightarrow> None
      | Some y \<Rightarrow> (case map_throwing h xs of None \<Rightarrow> None | Some ys \<Rightarrow> Some (y # ys)))"

section \<open>The building and name groups\<close>

record name_item =
  ni_name :: jsstr
  ni_floors :: "jsstr list"
  ni_facilityIds :: "int list"
  ni_firstFacilityId :: int
  ni_isCurrentFacility :: bool

text \<open>Lines 93-99, for the facility \<open>cur\<close> the page shows.\<close>

definition name_item_of :: "facility \<Rightarrow> jsstr \<Rightarrow> facility list \<Rightarrow> name_item" where
  "name_item_of cur name facs =
     \<lparr>ni_name = name, ni_floors = map f_floor facs, ni_facilityIds = map f_id facs,
      ni_firstFacilityId = f_id (hd facs), ni_isCurrentFacility = (\<exists>f \<in> set facs. f_id f = f_id cur)\<rparr>"

text \<open>Lines 80-100, for one building of \<open>groupedByBuilding\<close>.\<close>

definition building_items :: "facility \<Rightarrow> (jsstr \<times> facility list) list \<Rightarrow> jsstr \<Rightarrow> (jsstr \<times> name_item list) option" where
  "building_items cur byB b =
     (case push_all f_name [] (the (map_of byB b)) of
        None \<Rightarrow> None
      | Some nameGroups \<Rightarrow>
          Some (b, map (\<lambda>k. name_item_of cur k (the (map_of nameGroups k))) (object_keys nameGroups)))"

text \<open>Lines 61-100: \<open>None\<close> when a \<open>push\<close> throws.\<close>

definition groupedByBuildingAndName :: "facility \<Rightarrow> facility list \<Rightarrow> (jsstr \<times> name_item list) list option" where
  "groupedByBuildingAndName cur fs =
     (case push_all f_building [] fs of
        None \<Rightarrow> None
      | Some byB \<Rightarrow> map_throwing (building_items cur byB) (object_keys byB))"

text \<open>Line 102: \<open>Object.keys(...).sort()\<close>, the default sort comparing UTF-16 code units.\<close>

definition buildingNames :: "(jsstr \<times> name_item list) list \<Rightarrow> jsstr list" where
  "buildingNames r = sort (object_keys r)"

section \<open>Page state, effect and handlers\<close>

record page_state =
  pg_facility :: "facility option"
  pg_expanded :: "jsstr list"
  pg_activeTab :: jsstr

text \<open>Lines 43-45.\<close>

definition page_init :: page_state where
  "page_init = \<lparr>pg_facility = None, pg_expanded = [], pg_activeTab = js ''details''\<rparr>"

text \<open>Line 48: \<open>facilities.find(f => f.id === Number(id))\<close>; \<open>NaN\<close> equals nothing.\<close>

definition find_by_route :: "facility list \<Rightarrow> jsstr \<Rightarrow> facility option" where
  "find_by_route fs param = find (\<lambda>f. js_Number_int param = Some (f_id f)) fs"

text \<open>Lines 47-56: the new state and the paths navigated to.\<close>

definition page_effect :: "jsstr \<Rightarrow> facility list \<Rightarrow> page_state \<Rightarrow> page_state \<times> jsstr list" where
  "page_effect param fs s =
     (case find_by_route fs param of
        Some f \<Rightarrow> (s\<lparr>pg_facility := Some f, pg_expanded := [f_building f]\<rparr>, [])
      | None \<Rightarrow> (s, [js ''/'']))"

text \<open>Lines 104-110.\<close>

definition toggleBuilding :: "jsstr \<Rightarrow> page_state \<Rightarrow> page_state" where
  "toggleBuilding b s = s\<lparr>pg_expanded := toggle_member b (pg_expanded s)\<rparr>"

text \<open>Lines 112-114: the path navigated to.\<close>

definition handleFacilityClick :: "int \<Rightarrow> jsstr" where
  "handleFacilityClick i = js ''/facility/'' @ show_int i"

text \<open>Lines 116-120 and 122-141 are the sheet's \<open>handleCall\<close> and \<open>handleDownload\<close> on the shown facility.\<close>

definition page_handleCall :: "facility \<Rightarrow> sheet_effect list" where
  "page_handleCall f = handleCall (Some f)"

definition page_handleDownload :: "facility \<Rightarrow> fetch_outcome \<Rightarrow> sheet_effect list" where
  "page_handleDownload f outcome = handleDownload (Some f) outcome"

section \<open>What the page shows\<close>

text \<open>The placeholder of line 185 for a facility without a description.\<close>

definition description_placeholder :: jsstr where
  "description_placeholder =
     [0xC774, 0x0020, 0xC2DC, 0xC124, 0xC5D0, 0x0020, 0xB300, 0xD55C, 0x0020, 0xC0C1, 0xC138,
      0x0020, 0xC815, 0xBCF4, 0xB97C, 0x0020, 0xC785, 0xB825, 0xD560, 0x0020, 0xC218, 0x0020,
      0xC788, 0xC2B5, 0xB2C8, 0xB2E4, 0x002E, 0x0020, 0xC6B4, 0xC601, 0x0020, 0xC2DC, 0xAC04,
      0x002C, 0x0020, 0xC774, 0xC6A9, 0x0020, 0xBC29, 0xBC95, 0x002C, 0x0020, 0xD2B9, 0xC9D5,
      0x0020, 0xB4F1, 0xC744, 0x0020, 0xC790, 0xC138, 0xD788, 0x0020, 0xC124, 0xBA85, 0xD574,
      0xC8FC, 0xC138, 0xC694, 0x002E]"

record details_view =
  dv_name :: jsstr
  dv_label :: jsstr
  dv_image :: bool
  dv_description :: jsstr
  dv_location :: jsstr
  dv_hours :: jsstr
  dv_contact :: "jsstr option"

text \<open>Lines 144-234, \<open>FacilityDetailsContent\<close>.\<close>

definition render_details :: "facility \<Rightarrow> details_view" where
  "render_details f =
     \<lparr>dv_name = f_name f, dv_label = categoryLabel (f_category f),
      dv_image = (js_truthy (f_image f) \<noteq> None),
      dv_description = (case js_truthy (f_description f) of Some d \<Rightarrow> d | None \<Rightarrow> description_placeholder),
      dv_location = f_building f @ js '' '' @ f_floor f, dv_hours = f_hours f,
      dv_contact = js_truthy (f_contact f)\<rparr>"

record item_row =
  ir_name :: jsstr
  ir_floors_text :: jsstr
  ir_current :: bool
  ir_target :: int
  ir_thumbnail :: bool

record building_row =
  br_name :: jsstr
  br_expanded :: bool
  br_count :: nat
  br_items :: "item_row list"

text \<open>Lines 273-320: one row per name group; its thumbnail is the image of the first facility.\<close>

definition item_row_of :: "facility list \<Rightarrow> name_item \<Rightarrow> item_row" where
  "item_row_of fs it =
     \<lparr>ir_name = ni_name it, ir_floors_text = js_join (js '', '') (ni_floors it),
      ir_current = ni_isCurrentFacility it, ir_target = ni_firstFacilityId it,
      ir_thumbnail = (case find (\<lambda>f. f_id f = ni_firstFacilityId it) fs of
                        Some f \<Rightarrow> js_truthy (f_image f) \<noteq> None | None \<Rightarrow> False)\<rparr>"

text \<open>Lines 236-327, \<open>BuildingListContent\<close>: collapsed buildings list no items.\<close>

definition render_building_list ::
  "facility list \<Rightarrow> (jsstr \<times> name_item list) list \<Rightarrow> page_state \<Rightarrow> building_row list" where
  "render_building_list fs r s =
     map (\<lambda>b. let items = the (map_of r b); ex = (b \<in> set (pg_expanded s)) in
               \<lparr>br_name = b, br_expanded = ex, br_count = length items,
                br_items = (if ex then map (item_row_of fs) items else [])\<rparr>)
       (buildingNames r)"

datatype page_view = PageNull | PageShown details_view "building_row list"

text \<open>Lines 58-102 and 329-370: nothing before the effect found the facility; \<open>None\<close> when the render throws.\<close>

definition render_page :: "facility list \<Rightarrow> page_state \<Rightarrow> page_view option" where
  "render_page fs s =
     (case pg_facility s of
        None \<Rightarrow> Some PageNull
      | Some f \<Rightarrow>
          (case groupedByBuildingAndName f fs of
             None \<Rightarrow> None
           | Some r \<Rightarrow> Some (PageShown (render_details f) (render_building_list fs r s))))"

text \<open>The name groups of building \<open>b\<close> the render computes, written declaratively.\<close>

definition items_of_building :: "facility \<Rightarrow> facility list \<Rightarrow> jsstr \<Rightarrow> name_item list" where
  "items_of_building cur fs b =
     map (\<lambda>n. name_item_of cur n (filter (\<lambda>f. f_building f = b \<and> f_name f = n) fs))
       (key_order (first_occ (map f_name (filter (\<lambda>f. f_building f = b) fs))))"

text \<open>Examples: the campus example's dictionaries, and a facility in a building named like a prototype member.\<close>

definition page_example_result :: "(jsstr \<times> name_item list) list" where
  "page_example_result =
     map (\<lambda>b. (b, items_of_building (hd campus_example) campus_example b)) [js ''A'', js ''B'']"

definition constructor_facility :: facility where
  "constructor_facility = (hd campus_example)\<lparr>f_building := js ''constructor''\<rparr>"

section \<open>Lemmas on objects as dictionaries\<close>

lemma map_of_keys: "map_of (map (\<lambda>k. (k, g k)) ks) k = (if k \<in> set ks then Some (g k) else None)"
  by (induction ks) auto

lemma update_keys_present:
  "distinct ks \<Longrightarrow> k \<in> set ks \<Longrightarrow> AList.update k v (map (\<lambda>k. (k, g k)) ks) = map (\<lambda>k'. (k', if k' = k then v else g k')) ks"
  by (induction ks) auto

lemma update_keys_absent:
  "k \<notin> set ks \<Longrightarrow> AList.update k v (map (\<lambda>k. (k, g k)) ks) = map (\<lambda>k. (k, g k)) ks @ [(k, v)]"
  by (induction ks) auto

lemma push_all_snoc:
  "push_all key acc (xs @ [x]) = (case push_all key acc xs of None \<Rightarrow> None | Some a \<Rightarrow> obj_push a (key x) x)"
  by (induction xs arbitrary: acc) (auto split: option.split)

text \<open>Without inherited keys, the loop builds the grouping by key in first-occurrence order.\<close>

lemma push_all_groups:
  assumes "\<forall>x \<in> set xs. key x \<notin> set object_prototype_names"
  shows "push_all key [] xs = Some (map (\<lambda>k. (k, filter (\<lambda>x. key x = k) xs)) (first_occ (map key xs)))"
  using assms
proof (induction xs rule: rev_induct)
  case Nil
  then show ?case by (simp add: first_occ_def)
next
  case (snoc x xs)
  let ?A = "map (\<lambda>k. (k, filter (\<lambda>y. key y = k) xs)) (first_occ (map key xs))"
  have IH: "push_all key [] xs = Some ?A" using snoc by simp
  show ?case
  proof (cases "key x \<in> key ` set xs")
    case True
    then have "obj_get ?A (key x) = Own (filter (\<lambda>y. key y = key x) xs)"
      by (simp add: obj_get_def map_of_keys)
    with True show ?thesis
      by (simp add: push_all_snoc IH obj_push_def update_keys_present cong: map_cong)
  next
    case False
    with snoc.prems have "obj_get ?A (key x) = Undefined"
      by (simp add: obj_get_def map_of_keys)
    moreover have "filter (\<lambda>y. key y = key x) xs = []"
      using False by (metis (mono_tags, lifting) filter_False image_eqI)
    ultimately show ?thesis
      using False
      by (simp add: push_all_snoc IH obj_push_def update_keys_absent cong: map_cong) (metis image_eqI)
  qed
qed

text \<open>The loop throws exactly when some key is an inherited member's name.\<close>

lemma push_all_None:
  assumes "set (map fst acc) \<inter> set object_prototype_names = {}"
  shows "push_all key acc xs = None \<longleftrightarrow> (\<exists>x \<in> set xs. key x \<in> set object_prototype_names)"
  using assms
proof (induction xs arbitrary: acc)
  case Nil
  then show ?case by simp
next
  case (Cons x xs)
  show ?case
  proof (cases "key x \<in> set object_prototype_names")
    case True
    with Cons.prems have "map_of acc (key x) = None"
      by (auto simp: map_of_eq_None_iff)
    with True show ?thesis by (simp add: obj_push_def obj_get_def)
  next
    case False
    then obtain acc' where "obj_push acc (key x) x = Some acc'"
      and "set (map fst acc') \<inter> set object_prototype_names = {}"
      using Cons.prems
      by (cases "map_of acc (key x)") (auto simp: obj_push_def obj_get_def dom_update)
    with False Cons.IH show ?thesis by simp
  qed
qed

lemma map_throwing_eq:
  "map_throwing h xs = (if \<forall>x \<in> set xs. h x \<noteq> None then Some (map (\<lambda>x. the (h x)) xs) else None)"
  by (induction xs) (auto split: option.split)

lemma mset_key_order [simp]: "mset (key_order ks) = mset ks"
  by (simp add: key_order_def)

lemma set_key_order [simp]: "set (key_order ks) = set ks"
  by (metis mset_key_order mset_eq_setD)

lemma distinct_key_order [simp]: "distinct (key_order ks) = distinct ks"
  by (metis mset_key_order mset_eq_imp_distinct_iff)

lemma object_keys_map [simp]: "object_keys (map (\<lambda>k. (k, g k)) ks) = key_order ks"
  by (simp add: object_keys_def comp_def)

text \<open>Without inherited names, the render's dictionaries are the groupings by building and name.\<close>

lemma groupedByBuildingAndName_groups:
  assumes "\<forall>f \<in> set fs. f_building f \<notin> set object_prototype_names \<and> f_name f \<notin> set object_prototype_names"
  shows "groupedByBuildingAndName cur fs =
           Some (map (\<lambda>b. (b, items_of_building cur fs b)) (key_order (first_occ (map f_building fs))))"
proof -
  have B: "push_all f_building [] fs
     = Some (map (\<lambda>b. (b, filter (\<lambda>f. f_building f = b) fs)) (first_occ (map f_building fs)))"
    using assms by (simp add: push_all_groups)
  have N: "building_items cur (map (\<lambda>b. (b, filter (\<lambda>f. f_building f = b) fs)) (first_occ (map f_building fs))) b
             = Some (b, items_of_building cur fs b)"
    if "b \<in> f_building ` set fs" for b
    using that assms
    by (simp add: building_items_def items_of_building_def map_of_keys push_all_groups filter_filter conj_commute)
  show ?thesis
    unfolding groupedByBuildingAndName_def B
    by (simp add: map_throwing_eq N)
qed

lemma grouped_None_iff:
  "groupedByBuildingAndName cur fs = None \<longleftrightarrow>
     (\<exists>f \<in> set fs. f_building f \<in> set object_prototype_names \<or> f_name f \<in> set object_prototype_names)"
proof (cases "\<exists>f \<in> set fs. f_building f \<in> set object_prototype_names")
  case True
  then have "push_all f_building [] fs = None" by (simp add: push_all_None)
  with True show ?thesis by (auto simp: groupedByBuildingAndName_def)
next
  case False
  let ?byB = "map (\<lambda>b. (b, filter (\<lambda>f. f_building f = b) fs)) (first_occ (map f_building fs))"
  have B: "push_all f_building [] fs = Some ?byB"
    using False by (simp add: push_all_groups)
  have N: "building_items cur ?byB b = None \<longleftrightarrow>
             (\<exists>f \<in> set fs. f_building f = b \<and> f_name f \<in> set object_prototype_names)"
    if "b \<in> f_building ` set fs" for b
  proof -
    have "push_all f_name [] (filter (\<lambda>f. f_building f = b) fs) = None \<longleftrightarrow>
            (\<exists>f \<in> set fs. f_building f = b \<and> f_name f \<in> set object_prototype_names)"
      by (subst push_all_None) auto
    with that show ?thesis
      by (auto simp: building_items_def map_of_keys split: option.split)
  qed
  show ?thesis
    using False by (auto simp: groupedByBuildingAndName_def B map_throwing_eq N)
qed

lemma grouped_Some_names:
  "groupedByBuildingAndName cur fs = Some r \<Longrightarrow>
     \<forall>f \<in> set fs. f_building f \<notin> set object_prototype_names \<and> f_name f \<notin> set object_prototype_names"
  using grouped_None_iff [of cur fs] by auto

lemma grouped_Some_eq:
  "groupedByBuildingAndName cur fs = Some r \<Longrightarrow>
     r = map (\<lambda>b. (b, items_of_building cur fs b)) (key_order (first_occ (map f_building fs)))"
  using groupedByBuildingAndName_groups [OF grouped_Some_names] by fastforce

lemma concat_map_map: "concat (map (\<lambda>x. map h (X x)) xs) = map h (concat (map X xs))"
  by (induction xs) simp_all

lemma items_of_building_ids:
  "mset (concat (map ni_facilityIds (items_of_building cur fs b)))
     = mset (map f_id (filter (\<lambda>f. f_building f = b) fs))"
proof -
  let ?FB = "filter (\<lambda>f. f_building f = b) fs"
  let ?KO = "key_order (first_occ (map f_name ?FB))"
  have "map ni_facilityIds (items_of_building cur fs b)
          = map (\<lambda>n. map f_id (filter (\<lambda>f. f_building f = b \<and> f_name f = n) fs)) ?KO"
    by (simp add: items_of_building_def name_item_of_def comp_def)
  then have "concat (map ni_facilityIds (items_of_building cur fs b))
          = map f_id (concat (map (\<lambda>n. filter (\<lambda>f. f_building f = b \<and> f_name f = n) fs) ?KO))"
    by (simp only: concat_map_map)
  moreover have "mset (concat (map (\<lambda>n. filter (\<lambda>f. f_building f = b \<and> f_name f = n) fs) ?KO)) = mset ?FB"
    using mset_partition_by_key [of ?KO ?FB f_name] by simp
  ultimately show ?thesis
    by simp
qed

lemma find_unique_id:
  "distinct (map f_id fs) \<Longrightarrow> f \<in> set fs \<Longrightarrow> find (\<lambda>g. f_id f = f_id g) fs = Some f"
  by (induction fs) (auto simp: image_iff)

section \<open>Properties of the page\<close>

text \<open>
  C12.  Once the facility is found, the detail page's render throws a TypeError exactly
  when some facility's building or name is the name of an Object.prototype member (such as
  'constructor'), because the grouping dictionaries are plain objects.
\<close>

theorem render_page_throws:
  assumes "pg_facility s = Some cur"
  shows "render_page fs s = None \<longleftrightarrow>
           (\<exists>f \<in> set fs. f_building f \<in> set object_prototype_names \<or> f_name f \<in> set object_prototype_names)"
  using assms grouped_None_iff [of cur fs]
  by (cases "groupedByBuildingAndName cur fs") (auto simp: render_page_def)

text \<open>
  C27.  The building list of the page is the set of buildings of the facility list in
  ascending UTF-16 order, each once.
\<close>

theorem buildingNames_sorted:
  assumes "groupedByBuildingAndName cur fs = Some r"
  shows "buildingNames r = sorted_list_of_set (f_building ` set fs)"
proof -
  let ?ks = "key_order (first_occ (map f_building fs))"
  from grouped_Some_eq [OF assms] have "object_keys r = key_order ?ks" by simp
  moreover have "distinct (key_order ?ks)" and "set (key_order ?ks) = f_building ` set fs" by simp_all
  ultimately show ?thesis
    by (metis buildingNames_def sorted_list_of_set_sort_remdups distinct_remdups_id)
qed

text \<open>
  C26.  Each name row of a building lists the ids of exactly that building's facilities
  with that name, in list order; it is never empty, links to the first of them, and is
  highlighted exactly when it contains the page's facility.
\<close>

theorem name_items_spec:
  assumes "groupedByBuildingAndName cur fs = Some r" and "map_of r b = Some items" and "it \<in> set items"
  shows "ni_facilityIds it = map f_id (filter (\<lambda>f. f_building f = b \<and> f_name f = ni_name it) fs)
         \<and> ni_facilityIds it \<noteq> [] \<and> ni_firstFacilityId it = hd (ni_facilityIds it)
         \<and> (ni_isCurrentFacility it \<longleftrightarrow> f_id cur \<in> set (ni_facilityIds it))"
proof -
  from grouped_Some_eq [OF assms(1)] assms(2) have "items = items_of_building cur fs b"
    by (simp add: map_of_keys split: if_splits)
  then have "items = map (\<lambda>n. name_item_of cur n (filter (\<lambda>f. f_building f = b \<and> f_name f = n) fs))
                   (key_order (first_occ (map f_name (filter (\<lambda>f. f_building f = b) fs))))"
    by (simp add: items_of_building_def)
  with assms(3) obtain n where n: "n \<in> f_name ` {f \<in> set fs. f_building f = b}"
    and it: "it = name_item_of cur n (filter (\<lambda>f. f_building f = b \<and> f_name f = n) fs)"
    by auto
  from n have "filter (\<lambda>f. f_building f = b \<and> f_name f = n) fs \<noteq> []"
    by (auto simp: filter_empty_conv)
  with it show ?thesis
    by (cases "filter (\<lambda>f. f_building f = b \<and> f_name f = n) fs") (auto simp: name_item_of_def image_iff, metis)
qed

text \<open>
  C28.  With unique ids, the path a name row navigates to (/facility/ followed by the id)
  is read back by Number in the page's effect, which shows that facility and expands its
  building.
\<close>

theorem route_roundtrip:
  assumes "f \<in> set fs" and "distinct (map f_id fs)"
  shows "\<exists>p. handleFacilityClick (f_id f) = js ''/facility/'' @ p
           \<and> page_effect p fs s = (s\<lparr>pg_facility := Some f, pg_expanded := [f_building f]\<rparr>, [])"
  using assms find_unique_id [OF assms(2,1)]
  by (simp add: handleFacilityClick_def page_effect_def find_by_route_def)

text \<open>
  When no facility has the route's id, the page's effect navigates to '/' and the
  page renders nothing.
\<close>

theorem route_not_found:
  assumes "\<forall>f \<in> set fs. js_Number_int p \<noteq> Some (f_id f)"
  shows "page_effect p fs page_init = (page_init, [js ''/'']) \<and> render_page fs page_init = Some PageNull"
proof -
  have "find_by_route fs p = None"
    using assms by (simp add: find_by_route_def find_None_iff)
  then show ?thesis
    by (simp add: page_effect_def render_page_def page_init_def)
qed

text \<open>
  The detail page's building dictionary has the same buildings as the map's
  grouping, and for every map group the page lists the same facility ids (as a multiset)
  as the grouped sheet does.
\<close>

text \<open>
  The detail page's building dictionary has the same buildings as the map's
  grouping, and for every map group the page lists the same facility ids (as a multiset)
  as the grouped sheet does.
\<close>

text \<open>
  C25.  The detail page's building dictionary has the same buildings as the map's
  grouping, and for every map group the page lists the same facility ids (as a multiset)
  as the grouped sheet does.
\<close>

theorem page_groups_match_map_groups:
  assumes "groupedByBuildingAndName cur fs = Some r"
  shows "set (map fst r) = set (map g_building (groupFacilitiesByBuilding fs))
         \<and> (\<forall>g \<in> set (groupFacilitiesByBuilding fs). \<exists>items. map_of r (g_building g) = Some items
              \<and> mset (concat (map ni_facilityIds items)) = mset (map f_id (allFacilities g)))"
proof -
  have r: "r = map (\<lambda>b. (b, items_of_building cur fs b)) (key_order (first_occ (map f_building fs)))"
    by (rule grouped_Some_eq [OF assms])
  have gb: "set (map g_building (groupFacilitiesByBuilding fs)) = f_building ` set fs"
    by (simp add: grouping_eq_spec grouping_spec_buildings)
  have "\<exists>items. map_of r (g_building g) = Some items
          \<and> mset (concat (map ni_facilityIds items)) = mset (map f_id (allFacilities g))"
    if g: "g \<in> set (groupFacilitiesByBuilding fs)" for g
  proof -
    from g gb have "g_building g \<in> f_building ` set fs" by auto
    then have "map_of r (g_building g) = Some (items_of_building cur fs (g_building g))"
      by (simp add: r map_of_keys)
    moreover have "mset (map f_id (allFacilities g)) = mset (map f_id (filter (\<lambda>f. f_building f = g_building g) fs))"
      using allFacilities_mset [OF g] by (metis mset_map)
    ultimately show ?thesis
      by (simp add: items_of_building_ids)
  qed
  with gb show ?thesis
    by (simp add: r comp_def)
qed

section \<open>Witnesses on the campus example\<close>

lemma page_example_grouped:
  "groupedByBuildingAndName (hd campus_example) campus_example = Some page_example_result"
proof -
  have "\<forall>f \<in> set campus_example. f_building f \<notin> set object_prototype_names \<and> f_name f \<notin> set object_prototype_names"
    by (simp add: campus_example_def campus_facility_def object_prototype_names_def js_def)
  moreover have "key_order (first_occ (map f_building campus_example)) = [js ''A'', js ''B'']"
    by (simp add: campus_example_def campus_facility_def key_order_def is_array_index_def js_def
        is_digit_def first_occ_def)
  ultimately show ?thesis
    by (simp add: groupedByBuildingAndName_groups page_example_result_def)
qed

theorem render_page_throws_witness:
  "pg_facility (page_init\<lparr>pg_facility := Some constructor_facility\<rparr>) = Some constructor_facility
   \<and> render_page [constructor_facility] (page_init\<lparr>pg_facility := Some constructor_facility\<rparr>) = None"
  using render_page_throws [of "page_init\<lparr>pg_facility := Some constructor_facility\<rparr>" constructor_facility
      "[constructor_facility]"]
  by (simp add: constructor_facility_def object_prototype_names_def js_def)

theorem buildingNames_sorted_witness:
  "groupedByBuildingAndName (hd campus_example) campus_example = Some page_example_result
   \<and> buildingNames page_example_result = sorted_list_of_set (f_building ` set campus_example)"
  using buildingNames_sorted [OF page_example_grouped] page_example_grouped by simp

theorem name_items_spec_witness:
  "groupedByBuildingAndName (hd campus_example) campus_example = Some page_example_result
   \<and> map_of page_example_result (js ''A'') = Some (items_of_building (hd campus_example) campus_example (js ''A''))
   \<and> hd (items_of_building (hd campus_example) campus_example (js ''A''))
       \<in> set (items_of_building (hd campus_example) campus_example (js ''A''))
   \<and> ni_isCurrentFacility (hd (items_of_building (hd campus_example) campus_example (js ''A'')))"
proof -
  have items: "items_of_building (hd campus_example) campus_example (js ''A'')
       = [name_item_of (hd campus_example) (js ''facility'')
            (filter (\<lambda>f. f_building f = js ''A'' \<and> f_name f = js ''facility'') campus_example)]"
    by (simp add: items_of_building_def campus_example_def campus_facility_def key_order_def
        is_array_index_def js_def is_digit_def first_occ_def)
  have m: "map_of page_example_result (js ''A'') = Some (items_of_building (hd campus_example) campus_example (js ''A''))"
    by (simp add: page_example_result_def js_def)
  have cur: "ni_isCurrentFacility (name_item_of (hd campus_example) (js ''facility'')
              (filter (\<lambda>f. f_building f = js ''A'' \<and> f_name f = js ''facility'') campus_example))"
    by (simp add: name_item_of_def campus_example_def campus_facility_def js_def)
  from name_items_spec [OF page_example_grouped m, of "hd (items_of_building (hd campus_example) campus_example (js ''A''))"]
  show ?thesis
    using page_example_grouped m cur by (simp add: items)
qed

theorem route_roundtrip_witness:
  "hd campus_example \<in> set campus_example \<and> distinct (map f_id campus_example)
   \<and> (\<exists>p. handleFacilityClick 1 = js ''/facility/'' @ p
        \<and> page_effect p campus_example page_init
            = (page_init\<lparr>pg_facility := Some (hd campus_example), pg_expanded := [js ''A'']\<rparr>, []))"
  using route_roundtrip [of "hd campus_example" campus_example page_init]
  by (simp add: campus_example_def campus_facility_def)

theorem route_not_found_witness:
  "list_all (\<lambda>f. js_Number_int (js ''abc'') \<noteq> Some (f_id f)) campus_example
   \<and> page_effect (js ''abc'') campus_example page_init = (page_init, [js ''/''])"
  using route_not_found [of campus_example "js ''abc''"]
  by (simp add: list_all_iff js_Number_int_def js_def is_digit_def)

theorem page_groups_match_map_groups_witness:
  "groupedByBuildingAndName (hd campus_example) campus_example = Some page_example_result
   \<and> set (map fst page_example_result) = set (map g_building (groupFacilitiesByBuilding campus_example))"
  using page_groups_match_map_groups [OF page_example_grouped] page_example_grouped by simp

end
