(* ===== verification/LoginPage.thy ===== *)
theory LoginPage
  imports Prelude
begin

text \<open>
  The login and sign-up form of \<open>LoginPage.tsx\<close>.  Its state is the mode and the four
  controlled inputs.  A submit reaches \<open>handleSubmit\<close> only when the browser's constraint
  validation passes: every rendered \<open>required\<close> input is non-empty and the \<open>type="email"\<close>
  input holds a valid e-mail address in the sense of the HTML standard.  \<open>handleSubmit\<close>
  then checks the passwords, then the trimmed name, and calls the parent's \<open>onSignup\<close> or
  \<open>onLogin\<close>; \<open>window.alert\<close> and the parent callbacks are the outputs of a step.  The
  inputs for the name and the confirmation exist only in sign-up mode, so only there can
  they be typed into; the events of the page form a step relation.
\<close>

section \<open>State and the browser's validation\<close>

record login_state =
  ls_isSignup :: bool
  ls_email :: jsstr
  ls_password :: jsstr
  ls_name :: jsstr
  ls_confirmPassword :: jsstr

text \<open>Lines 16-20.\<close>

definition login_init :: login_state where
  "login_init = \<lparr>ls_isSignup = False, ls_email = [], ls_password = [], ls_name = [], ls_confirmPassword = []\<rparr>"

text \<open>The four \<open>set...('')\<close> calls of lines 36-39 and 47-50.\<close>

definition clear_fields :: "login_state \<Rightarrow> login_state" where
  "clear_fields s = s\<lparr>ls_email := [], ls_password := [], ls_name := [], ls_confirmPassword := []\<rparr>"

text \<open>
  The HTML standard's valid e-mail address: a non-empty local part of letters, digits and
  \<open>.!#$%&'*+/=?^_`{|}~-\<close>, then \<open>@\<close>, then dot-separated labels of 1 to 63 letters, digits
  and hyphens, each starting and ending with a letter or digit.
\<close>

definition is_ascii_alnum :: "16 word \<Rightarrow> bool" where
  "is_ascii_alnum c \<longleftrightarrow> (0x30 \<le> c \<and> c \<le> 0x39) \<or> (0x41 \<le> c \<and> c \<le> 0x5A) \<or> (0x61 \<le> c \<and> c \<le> 0x7A)"

definition is_email_atext :: "16 word \<Rightarrow> bool" where
  "is_email_atext c \<longleftrightarrow> is_ascii_alnum c \<or>
     c \<in> set [0x2E, 0x21, 0x23, 0x24, 0x25, 0x26, 0x27, 0x2A, 0x2B, 0x2F, 0x3D, 0x3F, 0x5E, 0x5F,
               0x60, 0x7B, 0x7C, 0x7D, 0x7E, 0x2D]"

fun split_on :: "16 word \<Rightarrow> jsstr \<Rightarrow> jsstr list" where
  "split_on d [] = [[]]"
| "split_on d (c # cs) =
     (if c = d then [] # split_on d cs
      else (case split_on d cs of w # ws \<Rightarrow> (c # w) # ws | [] \<Rightarrow> [[c]]))"

definition valid_label :: "jsstr \<Rightarrow> bool" where
  "valid_label l \<longleftrightarrow> l \<noteq> [] \<and> length l \<le> 63 \<and> list_all (\<lambda>c. is_ascii_alnum c \<or> c = 0x2D) l
     \<and> is_ascii_alnum (hd l) \<and> is_ascii_alnum (last l)"

definition valid_email :: "jsstr \<Rightarrow> bool" where
  "valid_email s \<longleftrightarrow>
     (let loc = takeWhile (\<lambda>c. c \<noteq> 0x40) s; rest = dropWhile (\<lambda>c. c \<noteq> 0x40) s in
      loc \<noteq> [] \<and> list_all is_email_atext loc \<and> rest \<noteq> [] \<and> list_all valid_label (split_on 0x2E (tl rest)))"

text \<open>Constraint validation of the form (lines 77-139): the rendered inputs are lines 83-94 and 128-139 in sign-up mode only.\<close>

definition form_valid :: "login_state \<Rightarrow> bool" where
  "form_valid s \<longleftrightarrow>
     ls_email s \<noteq> [] \<and> valid_email (ls_email s) \<and> ls_password s \<noteq> []
     \<and> (ls_isSignup s \<longrightarrow> ls_name s \<noteq> [] \<and> ls_confirmPassword s \<noteq> [])"

section \<open>Handlers\<close>

datatype login_alert = PasswordMismatch | NameRequired

datatype login_output =
    Alert login_alert
  | CallLogin jsstr jsstr
  | CallSignup jsstr jsstr jsstr
  | NavigateHome

text \<open>Lines 22-43.\<close>

definition handleSubmit :: "login_state \<Rightarrow> login_state \<times> login_output list" where
  "handleSubmit s =
     (if ls_isSignup s then
        (if ls_password s \<noteq> ls_confirmPassword s then (s, [Alert PasswordMismatch])
         else if js_trim (ls_name s) = [] then (s, [Alert NameRequired])
         else (clear_fields (s\<lparr>ls_isSignup := False\<rparr>),
               [CallSignup (ls_email s) (ls_password s) (ls_name s)]))
      else (s, [CallLogin (ls_email s) (ls_password s)]))"

text \<open>Lines 45-51.\<close>

definition toggleMode :: "login_state \<Rightarrow> login_state" where
  "toggleMode s = clear_fields (s\<lparr>ls_isSignup := \<not> ls_isSignup s\<rparr>)"

text \<open>The form's submit: nothing happens unless the constraint validation passes.\<close>

definition submit_form :: "login_state \<Rightarrow> login_state \<times> login_output list" where
  "submit_form s = (if form_valid s then handleSubmit s else (s, []))"

datatype login_event =
    TypeName jsstr | TypeEmail jsstr | TypePassword jsstr | TypeConfirm jsstr
  | ToggleMode | Submit | Back

text \<open>The events of the page (the \<open>onChange\<close> handlers, the toggle, the submit and the back button of line 59).\<close>

inductive login_step :: "login_state \<Rightarrow> login_event \<Rightarrow> login_state \<Rightarrow> login_output list \<Rightarrow> bool" where
  ev_type_name: "ls_isSignup s \<Longrightarrow> login_step s (TypeName v) (s\<lparr>ls_name := v\<rparr>) []"
| ev_type_email: "login_step s (TypeEmail v) (s\<lparr>ls_email := v\<rparr>) []"
| ev_type_password: "login_step s (TypePassword v) (s\<lparr>ls_password := v\<rparr>) []"
| ev_type_confirm: "ls_isSignup s \<Longrightarrow> login_step s (TypeConfirm v) (s\<lparr>ls_confirmPassword := v\<rparr>) []"
| ev_toggle: "login_step s ToggleMode (toggleMode s) []"
| ev_submit: "login_step s Submit (fst (submit_form s)) (snd (submit_form s))"
| ev_back: "login_step s Back s [NavigateHome]"

inductive login_reachable :: "login_state \<Rightarrow> bool" where
  init: "login_reachable login_init"
| step: "login_reachable s \<Longrightarrow> login_step s e t out \<Longrightarrow> login_reachable t"

section \<open>What the page shows\<close>

record login_view =
  lv_signup_title :: bool
  lv_name_input :: "jsstr option"
  lv_email_input :: jsstr
  lv_password_input :: jsstr
  lv_confirm_input :: "jsstr option"

text \<open>Lines 53-173.\<close>

definition render_login :: "login_state \<Rightarrow> login_view" where
  "render_login s =
     \<lparr>lv_signup_title = ls_isSignup s,
      lv_name_input = (if ls_isSignup s then Some (ls_name s) else None),
      lv_email_input = ls_email s, lv_password_input = ls_password s,
      lv_confirm_input = (if ls_isSignup s then Some (ls_confirmPassword s) else None)\<rparr>"

definition login_inv :: "login_state \<Rightarrow> bool" where
  "login_inv s \<longleftrightarrow> (\<not> ls_isSignup s \<longrightarrow> ls_name s = [] \<and> ls_confirmPassword s = [])"

section \<open>Lemmas\<close>

inductive_cases login_step_SubmitE: "login_step s Submit t out"

lemma login_step_inv: "login_step s e t out \<Longrightarrow> login_inv s \<Longrightarrow> login_inv t"
  by (induction rule: login_step.induct)
    (auto simp: login_inv_def toggleMode_def clear_fields_def submit_form_def handleSubmit_def)

lemma login_reachable_inv: "login_reachable s \<Longrightarrow> login_inv s"
proof (induction rule: login_reachable.induct)
  case init
  show ?case by (simp add: login_init_def login_inv_def)
next
  case (step s e t out)
  from step.hyps(2) step.IH show ?case by (rule login_step_inv)
qed

lemma clear_signup_init: "clear_fields (s\<lparr>ls_isSignup := False\<rparr>) = login_init"
  by (simp add: clear_fields_def login_init_def)

text \<open>Example forms: a sign-up with a one-space name, and a completed sign-up.\<close>

lemma signup_example_valid:
  "form_valid \<lparr>ls_isSignup = True, ls_email = js ''a@b.kr'', ls_password = js ''pw'',
                ls_name = nm, ls_confirmPassword = js ''pw''\<rparr> \<longleftrightarrow> nm \<noteq> []"
  by (simp add: form_valid_def valid_email_def valid_label_def is_ascii_alnum_def is_email_atext_def js_def)

section \<open>Properties of the form\<close>

text \<open>
  C17.  In every reachable state of the login page in login mode, the name and
  confirmation fields are empty, so the hidden inputs never carry stale values.
\<close>

theorem login_mode_fields_empty:
  assumes "login_reachable s" and "\<not> ls_isSignup s"
  shows "ls_name s = [] \<and> ls_confirmPassword s = []
         \<and> lv_name_input (render_login s) = None \<and> lv_confirm_input (render_login s) = None"
  using login_reachable_inv [OF assms(1)] assms(2) by (simp add: login_inv_def render_login_def)

text \<open>
  A valid sign-up form whose passwords differ shows the mismatch alert and changes
  nothing.
\<close>

theorem signup_password_mismatch:
  assumes "ls_isSignup s" and "form_valid s" and "ls_password s \<noteq> ls_confirmPassword s"
  shows "submit_form s = (s, [Alert PasswordMismatch])"
  using assms by (simp add: submit_form_def handleSubmit_def)

text \<open>
  C16.  A sign-up form whose name is only whitespace passes the browser's required check
  but is stopped by the name alert; nothing is called and the fields are kept.
\<close>

theorem signup_blank_name_alert:
  assumes "ls_isSignup s" and "form_valid s" and "ls_password s = ls_confirmPassword s"
    and "list_all js_is_space (ls_name s)"
  shows "submit_form s = (s, [Alert NameRequired])"
  using assms by (simp add: submit_form_def handleSubmit_def js_trim_Nil_iff)

text \<open>
  C15.  A valid sign-up form with matching passwords and a name that is not only
  whitespace calls onSignup with the e-mail, password and untrimmed name, then returns to
  login mode with every field cleared.
\<close>

theorem signup_success:
  assumes "ls_isSignup s" and "form_valid s" and "ls_password s = ls_confirmPassword s"
    and "\<not> list_all js_is_space (ls_name s)"
  shows "submit_form s = (login_init, [CallSignup (ls_email s) (ls_password s) (ls_name s)])"
  using assms by (simp add: submit_form_def handleSubmit_def js_trim_Nil_iff clear_signup_init)

text \<open>
  onLogin is only ever called by a submit in login mode, with the form's e-mail and
  password, the e-mail satisfying the browser's type=email grammar and the password non-
  empty.
\<close>

text \<open>
  onLogin is only ever called by a submit in login mode, with the form's e-mail and
  password, the e-mail satisfying the browser's type=email grammar and the password non-
  empty.
\<close>

text \<open>
  C14.  onLogin is only ever called by a submit in login mode, with the form's e-mail and
  password, the e-mail satisfying the browser's type=email grammar and the password non-
  empty.
\<close>

theorem login_call_valid_email:
  assumes "login_step s e t out" and "CallLogin em pw \<in> set out"
  shows "e = Submit \<and> em = ls_email s \<and> pw = ls_password s \<and> valid_email em \<and> pw \<noteq> [] \<and> \<not> ls_isSignup s"
  using assms
  by (induction rule: login_step.induct) (auto simp: submit_form_def handleSubmit_def form_valid_def split: if_splits)

section \<open>Witnesses\<close>

theorem login_mode_fields_empty_witness:
  "login_reachable login_init \<and> \<not> ls_isSignup login_init
   \<and> lv_name_input (render_login login_init) = None"
  using login_mode_fields_empty [OF login_reachable.init] login_reachable.init
  by (simp add: login_init_def)

theorem signup_password_mismatch_witness:
  "ls_isSignup \<lparr>ls_isSignup = True, ls_email = js ''a@b.kr'', ls_password = js ''pw'', ls_name = js ''Kim'', ls_confirmPassword = js ''pv''\<rparr>
   \<and> form_valid \<lparr>ls_isSignup = True, ls_email = js ''a@b.kr'', ls_password = js ''pw'', ls_name = js ''Kim'', ls_confirmPassword = js ''pv''\<rparr>
   \<and> snd (submit_form \<lparr>ls_isSignup = True, ls_email = js ''a@b.kr'', ls_password = js ''pw'', ls_name = js ''Kim'', ls_confirmPassword = js ''pv''\<rparr>)
       = [Alert PasswordMismatch]"
  using signup_password_mismatch [of "\<lparr>ls_isSignup = True, ls_email = js ''a@b.kr'', ls_password = js ''pw'', ls_name = js ''Kim'', ls_confirmPassword = js ''pv''\<rparr>"]
  by (simp add: form_valid_def valid_email_def valid_label_def is_ascii_alnum_def is_email_atext_def js_def)

theorem signup_blank_name_alert_witness:
  "form_valid \<lparr>ls_isSignup = True, ls_email = js ''a@b.kr'', ls_password = js ''pw'', ls_name = js '' '', ls_confirmPassword = js ''pw''\<rparr>
   \<and> list_all js_is_space (js '' '')
   \<and> submit_form \<lparr>ls_isSignup = True, ls_email = js ''a@b.kr'', ls_password = js ''pw'', ls_name = js '' '', ls_confirmPassword = js ''pw''\<rparr>
       = (\<lparr>ls_isSignup = True, ls_email = js ''a@b.kr'', ls_password = js ''pw'', ls_name = js '' '', ls_confirmPassword = js ''pw''\<rparr>,
          [Alert NameRequired])"
  using signup_blank_name_alert [of "\<lparr>ls_isSignup = True, ls_email = js ''a@b.kr'', ls_password = js ''pw'', ls_name = js '' '', ls_confirmPassword = js ''pw''\<rparr>"]
    signup_example_valid [of "js '' ''"]
  by (simp add: js_is_space_def js_def)

theorem signup_success_witness:
  "form_valid \<lparr>ls_isSignup = True, ls_email = js ''a@b.kr'', ls_password = js ''pw'', ls_name = js '' Kim'', ls_confirmPassword = js ''pw''\<rparr>
   \<and> \<not> list_all js_is_space (js '' Kim'')
   \<and> submit_form \<lparr>ls_isSignup = True, ls_email = js ''a@b.kr'', ls_password = js ''pw'', ls_name = js '' Kim'', ls_confirmPassword = js ''pw''\<rparr>
       = (login_init, [CallSignup (js ''a@b.kr'') (js ''pw'') (js '' Kim'')])"
  using signup_success [of "\<lparr>ls_isSignup = True, ls_email = js ''a@b.kr'', ls_password = js ''pw'', ls_name = js '' Kim'', ls_confirmPassword = js ''pw''\<rparr>"]
    signup_example_valid [of "js '' Kim''"]
  by (simp add: js_is_space_def js_def)

theorem login_call_valid_email_witness:
  "login_step (login_init\<lparr>ls_email := js ''a@b.kr'', ls_password := js ''pw''\<rparr>) Submit
     (login_init\<lparr>ls_email := js ''a@b.kr'', ls_password := js ''pw''\<rparr>) [CallLogin (js ''a@b.kr'') (js ''pw'')]
   \<and> valid_email (js ''a@b.kr'')"
proof -
  have v: "form_valid (login_init\<lparr>ls_email := js ''a@b.kr'', ls_password := js ''pw''\<rparr>)"
    by (simp add: login_init_def form_valid_def valid_email_def valid_label_def is_ascii_alnum_def
        is_email_atext_def js_def)
  have st: "login_step (login_init\<lparr>ls_email := js ''a@b.kr'', ls_password := js ''pw''\<rparr>) Submit
     (login_init\<lparr>ls_email := js ''a@b.kr'', ls_password := js ''pw''\<rparr>) [CallLogin (js ''a@b.kr'') (js ''pw'')]"
    using login_step.ev_submit [of "login_init\<lparr>ls_email := js ''a@b.kr'', ls_password := js ''pw''\<rparr>"] v
    by (simp add: submit_form_def handleSubmit_def login_init_def)
  from login_call_valid_email [OF st] st show ?thesis by simp
qed

end
