(* ===== verification/Screens.thy ===== *)
theory Screens
  imports MapView DetailPage
begin

text \<open>
  The home screen and the smaller components.  \<open>HomePage.tsx\<close> holds the current tab,
  the selected category and the building group whose sheet is open; it receives the
  facility list and the current user from the application (\<open>App.tsx\<close>, not among the
  sources), which owns them and mutates the list only through \<open>onToggleFavorite\<close>.  The
  composition is a step relation over the application's list and user and the home
  screen's state: marker clicks (from \<open>MapView\<close>), chip clicks, the sheet's hearts, its
  close and row clicks, the favourites list, and the settings' logout.  Alongside it:
  \<open>FavoritesList\<close>, \<open>FacilityList\<close>, the category chips of \<open>CategoryFilter\<close>, \<open>FilterBar\<close>
  and \<open>MainMenu\<close>, \<open>SearchBar\<close>, \<open>Header\<close>, \<open>SettingsView\<close> and \<open>WelcomePage\<close>.
\<close>

section \<open>Category chips\<close>

text \<open>\<open>CategoryFilter.tsx\<close> lines 19-30: the chip ids, in order.\<close>

definition filter_categories :: "jsstr list" where
  "filter_categories =
     js ''all'' # map category_id [Cafe, Restaurant, Library, Convenience, Lounge, Gym, Medical, Transport, Atm]"

record category_chip =
  chip_id :: jsstr
  chip_selected :: bool

text \<open>\<open>CategoryFilter.tsx\<close> lines 32-58: one chip per entry, selected when its id is the current one.\<close>

definition render_category_filter :: "jsstr \<Rightarrow> category_chip list" where
  "render_category_filter sel = map (\<lambda>i. \<lparr>chip_id = i, chip_selected = (sel = i)\<rparr>) filter_categories"

text \<open>\<open>FilterBar.tsx\<close> lines 12-22 and \<open>MainMenu.tsx\<close> lines 23-32: their chip ids.\<close>

definition filterbar_categories :: "jsstr list" where
  "filterbar_categories =
     js ''all'' # map category_id [Cafe, Restaurant, Library, Atm, Convenience, Medical, Gym, Lounge]"

definition mainmenu_categories :: "jsstr list" where
  "mainmenu_categories = map category_id [Cafe, Restaurant, Library, Atm, Convenience, Medical, Gym, Lounge]"

definition render_filterbar :: "jsstr \<Rightarrow> category_chip list" where
  "render_filterbar sel = map (\<lambda>i. \<lparr>chip_id = i, chip_selected = (sel = i)\<rparr>) filterbar_categories"

text \<open>
  \<open>FilterBar.tsx\<close> lines 24-61: the search input shows \<open>searchQuery\<close> and forwards every edit to
  \<open>onSearchChange\<close> (\<open>Inl\<close>); a chip calls \<open>onCategoryChange\<close> with its id (\<open>Inr\<close>).
\<close>

datatype filterbar_event = FilterBarInput jsstr | FilterBarChip jsstr

definition filterbar_handle :: "filterbar_event \<Rightarrow> (jsstr + jsstr) option" where
  "filterbar_handle e =
     (case e of
        FilterBarInput v \<Rightarrow> Some (Inl v)
      | FilterBarChip i \<Rightarrow> (if i \<in> set filterbar_categories then Some (Inr i) else None))"

text \<open>\<open>MainMenu.tsx\<close> lines 34-89: the two quick actions, then one button per category.\<close>

datatype menu_action = MenuMapView | MenuSearch | MenuCategory jsstr

definition mainmenu_buttons :: "menu_action list" where
  "mainmenu_buttons = [MenuMapView, MenuSearch] @ map MenuCategory mainmenu_categories"

section \<open>Favourites, the facility list and small components\<close>

text \<open>\<open>FavoritesList.tsx\<close> line 28.\<close>

definition favoriteFacilities :: "facility list \<Rightarrow> facility list" where
  "favoriteFacilities fs = filter f_isFavorite fs"

datatype favorites_view = LoginPrompt | EmptyFavorites | FavoriteRows nat "facility list"

text \<open>\<open>FavoritesList.tsx\<close> lines 30-148: the count of the header and the rows, or one of the two notices.\<close>

definition render_favorites :: "facility list \<Rightarrow> user option \<Rightarrow> favorites_view" where
  "render_favorites fs u =
     (case u of
        None \<Rightarrow> LoginPrompt
      | Some _ \<Rightarrow> (if favoriteFacilities fs = [] then EmptyFavorites
                  else FavoriteRows (length (favoriteFacilities fs)) (favoriteFacilities fs)))"

text \<open>
  \<open>FacilityList.tsx\<close> lines 12-21: \<open>categoryConfig\<close> has no entry for \<open>transport\<close>, so the
  lookup of line 41 is \<open>undefined\<close> and reading \<open>config.icon\<close> (line 42) throws.
\<close>

definition categoryConfig :: "category \<Rightarrow> jsstr option" where
  "categoryConfig c = (if c = Transport then None else Some (categoryLabel c))"

record list_card =
  lc_name :: jsstr
  lc_description :: "jsstr option"
  lc_label :: jsstr
  lc_selected :: bool

datatype facility_list_view = NoFacilities | FacilityCards nat "list_card list"

text \<open>\<open>FacilityList.tsx\<close> lines 23-88, for the selected facility's id; \<open>None\<close> when the render throws.\<close>

definition list_card_of :: "int option \<Rightarrow> facility \<Rightarrow> list_card option" where
  "list_card_of sel f =
     (case categoryConfig (f_category f) of
        None \<Rightarrow> None
      | Some lbl \<Rightarrow> Some \<lparr>lc_name = f_name f, lc_description = f_description f, lc_label = lbl,
                         lc_selected = (sel = Some (f_id f))\<rparr>)"

definition render_facility_list :: "facility list \<Rightarrow> int option \<Rightarrow> facility_list_view option" where
  "render_facility_list fs sel =
     (if fs = [] then Some NoFacilities
      else map_option (FacilityCards (length fs)) (map_throwing (list_card_of sel) fs))"

text \<open>\<open>SearchBar.tsx\<close> lines 8-14: the query is stored and passed to \<open>onSearch\<close>.\<close>

definition handleSearch :: "jsstr \<Rightarrow> jsstr \<Rightarrow> jsstr \<times> jsstr list" where
  "handleSearch query v = (v, [v])"

datatype nav = NavTo jsstr | NavBack | CallBackHandler | CallLogout

text \<open>\<open>Header.tsx\<close> lines 14-20.\<close>

definition handleBackClick :: "bool \<Rightarrow> nav list" where
  "handleBackClick has_onBack = (if has_onBack then [CallBackHandler] else [NavBack])"

record header_view =
  hv_back :: bool
  hv_title :: jsstr
  hv_home :: bool

text \<open>\<open>Header.tsx\<close> lines 11 and 22-46: the props' defaults and the two optional buttons.\<close>

definition render_header :: "bool option \<Rightarrow> bool option \<Rightarrow> jsstr option \<Rightarrow> header_view" where
  "render_header showBack showHome title =
     \<lparr>hv_back = (showBack = Some True), hv_title = (case title of None \<Rightarrow> js ''Campus Compass'' | Some t \<Rightarrow> t),
      hv_home = (showHome = Some True)\<rparr>"

datatype header_event = HeaderBack | HeaderHome

definition header_handle :: "header_view \<Rightarrow> bool \<Rightarrow> header_event \<Rightarrow> nav list option" where
  "header_handle v has_onBack e =
     (case e of
        HeaderBack \<Rightarrow> (if hv_back v then Some (handleBackClick has_onBack) else None)
      | HeaderHome \<Rightarrow> (if hv_home v then Some [NavTo (js ''/'')] else None))"

record settings_state =
  darkMode :: bool
  notifications :: bool
  locationTracking :: bool

text \<open>\<open>SettingsView.tsx\<close> lines 28-35: the switches start off, on, on; logout calls the parent and goes to the map.\<close>

definition settings_init :: settings_state where
  "settings_init = \<lparr>darkMode = False, notifications = True, locationTracking = True\<rparr>"

definition handleLogout :: "nav list" where
  "handleLogout = [CallLogout, NavTo (js ''/map'')]"

text \<open>\<open>WelcomePage.tsx\<close> lines 4-50 and 63-65: every card navigates to its route.\<close>

definition welcome_cards :: "(jsstr \<times> jsstr) list" where
  "welcome_cards =
     [(js ''map'', js ''/map''), (js ''convenience'', js ''/map''), (js ''service'', js ''/map''),
      (js ''study'', js ''/map''), (js ''transport'', js ''/map'')]"

definition handleCategoryClick :: "jsstr \<Rightarrow> nav list" where
  "handleCategoryClick route = [NavTo route]"

text \<open>\<open>WelcomePage.tsx\<close> lines 67-103: one card per entry, its click navigating to its route.\<close>

definition render_welcome :: "(jsstr \<times> nav list) list" where
  "render_welcome = map (\<lambda>(i, r). (i, handleCategoryClick r)) welcome_cards"

text \<open>\<open>FavoritesList.tsx\<close> lines 46-52 and 70-76: the home button, and the login button of the login prompt.\<close>

datatype favorites_nav_event = FavoritesHome | FavoritesLogin

definition favorites_nav :: "user option \<Rightarrow> favorites_nav_event \<Rightarrow> nav list option" where
  "favorites_nav u e =
     (case e of
        FavoritesHome \<Rightarrow> Some [NavTo (js ''/'')]
      | FavoritesLogin \<Rightarrow> (if u = None then Some [NavTo (js ''/login'')] else None))"

section \<open>The home screen and the application state\<close>

datatype home_view = ViewMap | ViewFavorites | ViewSettings

record home_state =
  hs_view :: home_view
  hs_selected :: "grouped_facility option"
  hs_category :: jsstr

text \<open>\<open>HomePage.tsx\<close> lines 20-22.\<close>

definition home_init :: home_state where
  "home_init = \<lparr>hs_view = ViewMap, hs_selected = None, hs_category = js ''all''\<rparr>"

record app_screen =
  as_facilities :: "facility list"
  as_user :: "user option"
  as_home :: home_state

datatype home_event =
    SelectView home_view
  | MarkerClick grouped_facility
  | ChipClick jsstr
  | SheetClose
  | SheetToggleAll
  | SheetToggleOne int
  | SheetRowClick facility
  | FavoriteClick facility
  | Logout

text \<open>
  The events of \<open>HomePage.tsx\<close> (lines 25-31 and 37-112) with their effect on the
  application's list and user: a marker offers a group of the current grouping, a chip one
  of the filter's ids, the sheet's hearts call \<open>onToggleFavorite\<close> for its facilities; the
  outputs are the paths navigated to.
\<close>

inductive home_step :: "app_screen \<Rightarrow> home_event \<Rightarrow> app_screen \<Rightarrow> jsstr list \<Rightarrow> bool" where
  hs_select_view: "home_step a (SelectView v) (a\<lparr>as_home := (as_home a)\<lparr>hs_view := v\<rparr>\<rparr>) []"
| hs_marker: "hs_view (as_home a) = ViewMap \<Longrightarrow>
    g \<in> set (groupedFacilities (as_facilities a) (hs_category (as_home a))) \<Longrightarrow>
    home_step a (MarkerClick g) (a\<lparr>as_home := (as_home a)\<lparr>hs_selected := Some g\<rparr>\<rparr>) []"
| hs_chip: "hs_view (as_home a) = ViewMap \<Longrightarrow> c \<in> set filter_categories \<Longrightarrow>
    home_step a (ChipClick c) (a\<lparr>as_home := (as_home a)\<lparr>hs_category := c\<rparr>\<rparr>) []"
| hs_close: "hs_selected (as_home a) = Some g \<Longrightarrow>
    home_step a SheetClose (a\<lparr>as_home := (as_home a)\<lparr>hs_selected := None\<rparr>\<rparr>) []"
| hs_toggle_all: "hs_selected (as_home a) = Some g \<Longrightarrow>
    home_step a SheetToggleAll (a\<lparr>as_facilities := handleToggleFavoriteAll g (as_facilities a)\<rparr>) []"
| hs_toggle_one: "hs_selected (as_home a) = Some g \<Longrightarrow> i \<in> set (map f_id (allFacilities g)) \<Longrightarrow>
    home_step a (SheetToggleOne i) (a\<lparr>as_facilities := toggleFavorite (as_facilities a) i\<rparr>) []"
| hs_row: "hs_selected (as_home a) = Some g \<Longrightarrow> f \<in> set (allFacilities g) \<Longrightarrow>
    home_step a (SheetRowClick f) (a\<lparr>as_home := (as_home a)\<lparr>hs_selected := None\<rparr>\<rparr>)
      [handleFacilityClick (f_id f)]"
| hs_favorite: "hs_view (as_home a) = ViewFavorites \<Longrightarrow> as_user a \<noteq> None \<Longrightarrow>
    f \<in> set (favoriteFacilities (as_facilities a)) \<Longrightarrow>
    home_step a (FavoriteClick f) a [handleFacilityClick (f_id f)]"
| hs_logout: "hs_view (as_home a) = ViewSettings \<Longrightarrow> as_user a \<noteq> None \<Longrightarrow>
    home_step a Logout (a\<lparr>as_user := None\<rparr>) [js ''/map'']"

section \<open>Lemmas\<close>

lemma set_allFacilities:
  "g \<in> set (groupFacilitiesByBuilding fs) \<Longrightarrow> set (allFacilities g) = {f \<in> set fs. f_building f = g_building g}"
proof -
  assume "g \<in> set (groupFacilitiesByBuilding fs)"
  then have "set (allFacilities g) = set (filter (\<lambda>f. f_building f = g_building g) fs)"
    by (rule mset_eq_setD [OF allFacilities_mset])
  then show ?thesis by (simp only: set_filter)
qed

lemma forget_favorite_toggle:
  "map (\<lambda>f. f\<lparr>f_isFavorite := False\<rparr>) (toggleFavorite fs i) = map (\<lambda>f. f\<lparr>f_isFavorite := False\<rparr>) fs"
  by (rule map_toggleFavorite_frame) simp

lemma forget_favorite_toggle_all:
  "map (\<lambda>f. f\<lparr>f_isFavorite := False\<rparr>) (handleToggleFavoriteAll g fs) = map (\<lambda>f. f\<lparr>f_isFavorite := False\<rparr>) fs"
  by (simp add: handleToggleFavoriteAll_parity)

lemma favorites_toggle_eq:
  "favoriteFacilities (toggleFavorite fs i)
     = map (\<lambda>f. if f_id f = i then f\<lparr>f_isFavorite := \<not> f_isFavorite f\<rparr> else f)
         (filter (\<lambda>x. if f_id x = i then \<not> f_isFavorite x else f_isFavorite x) fs)"
  by (induction fs) (auto simp: favoriteFacilities_def toggleFavorite_def)

lemma ids_favorites_toggle:
  "f_id ` set (favoriteFacilities (toggleFavorite fs i))
     = f_id ` {x \<in> set fs. if f_id x = i then \<not> f_isFavorite x else f_isFavorite x}"
proof -
  have e: "(\<lambda>f. f_id (if f_id f = i then f\<lparr>f_isFavorite := \<not> f_isFavorite f\<rparr> else f)) = f_id"
    by (rule ext) simp
  show ?thesis
    unfolding favorites_toggle_eq set_map image_image set_filter e ..
qed

section \<open>Properties of the screens\<close>

text \<open>
  C18.  With unique ids, toggling a facility's favourite removes its id from the
  favourites list if it was a favourite and adds it otherwise, leaving the other ids as
  they were.
\<close>

theorem favorites_after_toggle:
  assumes "distinct (map f_id fs)" and "f \<in> set fs"
  shows "f_id ` set (favoriteFacilities (toggleFavorite fs (f_id f)))
           = (if f_isFavorite f then f_id ` set (favoriteFacilities fs) - {f_id f}
              else insert (f_id f) (f_id ` set (favoriteFacilities fs)))"
proof -
  have same: "x = f" if "x \<in> set fs" "f_id x = f_id f" for x
    using assms that by (metis distinct_map inj_onD)
  have "f_id ` set (favoriteFacilities (toggleFavorite fs (f_id f)))
          = f_id ` {x \<in> set fs. if f_id x = f_id f then \<not> f_isFavorite x else f_isFavorite x}"
    by (rule ids_favorites_toggle)
  also have "\<dots> = (if f_isFavorite f then f_id ` set (favoriteFacilities fs) - {f_id f}
              else insert (f_id f) (f_id ` set (favoriteFacilities fs)))"
    using assms(2) by (auto simp: favoriteFacilities_def dest: same)
  finally show ?thesis .
qed

text \<open>
  FacilityList's render throws exactly when some facility is of the transport
  category, for which categoryConfig has no entry.
\<close>

text \<open>
  FacilityList's render throws exactly when some facility is of the transport
  category, for which categoryConfig has no entry.
\<close>

text \<open>
  C13.  FacilityList's render throws exactly when some facility is of the transport
  category, for which categoryConfig has no entry.
\<close>

theorem render_facility_list_throws:
  "render_facility_list fs sel = None \<longleftrightarrow> (\<exists>f \<in> set fs. f_category f = Transport)"
  by (auto simp: render_facility_list_def map_throwing_eq list_card_of_def categoryConfig_def
      split: option.splits)

section \<open>Witnesses on the campus example\<close>

lemma campus_example_distinct_ids: "distinct (map f_id campus_example)"
  by (simp add: campus_groups_eval)

theorem favorites_after_toggle_witness:
  "distinct (map f_id campus_example) \<and> hd campus_example \<in> set campus_example
   \<and> f_id ` set (favoriteFacilities (toggleFavorite campus_example (f_id (hd campus_example))))
       = insert (f_id (hd campus_example)) (f_id ` set (favoriteFacilities campus_example))"
proof -
  have h: "hd campus_example \<in> set campus_example" "\<not> f_isFavorite (hd campus_example)"
    by (simp_all add: campus_example_def campus_facility_def)
  show ?thesis
    using favorites_after_toggle [OF campus_example_distinct_ids h(1)] campus_example_distinct_ids h
    by simp
qed

end
