(* ===== verification/HomeScreen.thy ===== *)
theory HomeScreen
  imports Screens
begin

text \<open>
  The home screen as the user operates it.  \<open>Screens\<close> models \<open>HomePage\<close>'s own state and
  the application's; here the components it mounts keep their state too: the detail sheet
  (\<open>copied\<close>, \<open>openFloors\<close>, initialised when it mounts on a marker click) and the settings
  tab (its three switches, initialised whenever the tab mounts).  The sheet is a modal
  dialog: while it is open its overlay covers the map, the tabs and the lists, so only the
  sheet's own controls receive events.  The render composes the tab bar, the tab's content
  (the chips and groups of the map, \<open>FavoritesList\<close> or \<open>SettingsView\<close>) and the sheet.
\<close>

section \<open>The settings tab\<close>

record settings_view =
  sv_account :: "(jsstr \<times> jsstr) option"
  sv_darkMode :: bool
  sv_notifications :: bool
  sv_locationTracking :: bool

text \<open>\<open>SettingsView.tsx\<close> lines 37-210: the account card (name and e-mail with the logout button, or the login button) and the three switches.\<close>

definition render_settings :: "user option \<Rightarrow> settings_state \<Rightarrow> settings_view" where
  "render_settings u s =
     \<lparr>sv_account = map_option (\<lambda>x. (u_name x, u_email x)) u, sv_darkMode = darkMode s,
      sv_notifications = notifications s, sv_locationTracking = locationTracking s\<rparr>"

datatype settings_event =
    SwitchDarkMode bool | SwitchNotifications bool | SwitchLocationTracking bool
  | SettingsHome | SettingsLogin | SettingsLogout

text \<open>
  \<open>SettingsView.tsx\<close> lines 53-59 (home button), 82-102 (logout with a user, login
  without), 126-177 (the switches' \<open>onCheckedChange\<close>).  \<open>None\<close> for a button that is not
  rendered.
\<close>

definition settings_handle ::
  "user option \<Rightarrow> settings_event \<Rightarrow> settings_state \<Rightarrow> (settings_state \<times> nav list) option" where
  "settings_handle u e s =
     (case e of
        SwitchDarkMode b \<Rightarrow> Some (s\<lparr>darkMode := b\<rparr>, [])
      | SwitchNotifications b \<Rightarrow> Some (s\<lparr>notifications := b\<rparr>, [])
      | SwitchLocationTracking b \<Rightarrow> Some (s\<lparr>locationTracking := b\<rparr>, [])
      | SettingsHome \<Rightarrow> Some (s, [NavTo (js ''/'')])
      | SettingsLogin \<Rightarrow> (if u = None then Some (s, [NavTo (js ''/login'')]) else None)
      | SettingsLogout \<Rightarrow> (if u \<noteq> None then Some (s, handleLogout) else None))"

section \<open>The home screen with its mounted components\<close>

record home_ui =
  hu_app :: app_screen
  hu_sheet :: sheet_state
  hu_settings :: settings_state

definition home_ui_init :: "facility list \<Rightarrow> user option \<Rightarrow> home_ui" where
  "home_ui_init fs u =
     \<lparr>hu_app = \<lparr>as_facilities = fs, as_user = u, as_home = home_init\<rparr>,
      hu_sheet = sheet_init None, hu_settings = settings_init\<rparr>"

text \<open>Events that reach a control of the sheet, and those the sheet's overlay blocks.\<close>

fun sheet_event :: "home_event \<Rightarrow> bool" where
  "sheet_event SheetClose = True"
| "sheet_event SheetToggleAll = True"
| "sheet_event (SheetToggleOne _) = True"
| "sheet_event (SheetRowClick _) = True"
| "sheet_event _ = False"

text \<open>
  Mounting: a marker click mounts the sheet with \<open>sheet_init\<close> (the sheet is closed, since
  the overlay blocks the map while it is open); selecting the settings tab from another tab
  mounts \<open>SettingsView\<close> with \<open>settings_init\<close> (the tab's content is rendered only while
  selected, lines 52-57).
\<close>

definition mount_components :: "home_event \<Rightarrow> home_ui \<Rightarrow> home_ui" where
  "mount_components e u =
     (case e of
        MarkerClick g \<Rightarrow> u\<lparr>hu_sheet := sheet_init (Some g)\<rparr>
      | SelectView v \<Rightarrow>
          (if v = ViewSettings \<and> hs_view (as_home (hu_app u)) \<noteq> ViewSettings
           then u\<lparr>hu_settings := settings_init\<rparr> else u)
      | _ \<Rightarrow> u)"

datatype ui_event =
    HomeEvent home_event
  | FloorClick jsstr
  | SheetShare
  | CopiedReset
  | SettingsEvent settings_event

datatype ui_output = UiNavigate jsstr | UiSheet sheet_effect | UiSettings nav

inductive ui_step :: "home_ui \<Rightarrow> ui_event \<Rightarrow> home_ui \<Rightarrow> ui_output list \<Rightarrow> bool" where
  ui_home: "home_step (hu_app u) e a out \<Longrightarrow>
    (hs_selected (as_home (hu_app u)) = None \<or> sheet_event e) \<Longrightarrow>
    ui_step u (HomeEvent e) ((mount_components e u)\<lparr>hu_app := a\<rparr>) (map UiNavigate out)"
| ui_floor: "hs_selected (as_home (hu_app u)) = Some g \<Longrightarrow> fl \<in> set (map fi_floor (g_floors g)) \<Longrightarrow>
    ui_step u (FloorClick fl) (u\<lparr>hu_sheet := toggleFloor fl (hu_sheet u)\<rparr>) []"
| ui_share: "hs_selected (as_home (hu_app u)) = Some g \<Longrightarrow> groupedShare g (hu_sheet u) = (s, effs) \<Longrightarrow>
    ui_step u SheetShare (u\<lparr>hu_sheet := s\<rparr>) (map UiSheet effs)"
| ui_copied_reset: "hs_selected (as_home (hu_app u)) \<noteq> None \<Longrightarrow> copied (hu_sheet u) \<Longrightarrow>
    ui_step u CopiedReset (u\<lparr>hu_sheet := (hu_sheet u)\<lparr>copied := False\<rparr>\<rparr>) []"
| ui_settings: "hs_selected (as_home (hu_app u)) = None \<Longrightarrow> hs_view (as_home (hu_app u)) = ViewSettings \<Longrightarrow>
    e \<noteq> SettingsLogout \<Longrightarrow> settings_handle (as_user (hu_app u)) e (hu_settings u) = Some (s, navs) \<Longrightarrow>
    ui_step u (SettingsEvent e) (u\<lparr>hu_settings := s\<rparr>) (map UiSettings navs)"

inductive ui_reachable :: "home_ui \<Rightarrow> bool" where
  ui_start: "ui_reachable (home_ui_init fs u)"
| ui_next: "ui_reachable u \<Longrightarrow> ui_step u e u' out \<Longrightarrow> ui_reachable u'"

section \<open>The composed render\<close>

datatype home_content =
    MapContent "category_chip list" "grouped_facility list"
  | FavoritesContent favorites_view
  | SettingsContent settings_view

record home_render =
  hr_tab :: home_view
  hr_content :: home_content
  hr_sheet :: "grouped_view option"

text \<open>\<open>HomePage.tsx\<close> lines 33-114.\<close>

definition render_home :: "home_ui \<Rightarrow> home_render" where
  "render_home u =
     (let a = hu_app u; h = as_home a in
      \<lparr>hr_tab = hs_view h,
       hr_content = (case hs_view h of
          ViewMap \<Rightarrow> MapContent (render_category_filter (hs_category h))
                       (groupedFacilities (as_facilities a) (hs_category h))
        | ViewFavorites \<Rightarrow> FavoritesContent (render_favorites (as_facilities a) (as_user a))
        | ViewSettings \<Rightarrow> SettingsContent (render_settings (as_user a) (hu_settings u))),
       hr_sheet = map_option (\<lambda>g. render_grouped g (hu_sheet u)) (hs_selected h)\<rparr>)"

text \<open>What the open sheet keeps true: its expanded floors are floors of the group it shows.\<close>

definition ui_inv :: "home_ui \<Rightarrow> bool" where
  "ui_inv u =
     (case hs_selected (as_home (hu_app u)) of
        None \<Rightarrow> True
      | Some g \<Rightarrow> set (openFloors (hu_sheet u)) \<subseteq> fi_floor ` set (g_floors g))"

text \<open>
  The facilities of the group the open sheet shows are, up to their favourite flags, in the
  application's list: the list only ever changes in favourite flags.
\<close>

definition snapshot_known :: "home_ui \<Rightarrow> bool" where
  "snapshot_known u =
     (case hs_selected (as_home (hu_app u)) of
        None \<Rightarrow> True
      | Some g \<Rightarrow> (\<lambda>f. f\<lparr>f_isFavorite := False\<rparr>) ` set (allFacilities g)
                  \<subseteq> (\<lambda>f. f\<lparr>f_isFavorite := False\<rparr>) ` set (as_facilities (hu_app u)))"

text \<open>The campus example on a fresh home screen, without a user.\<close>

definition ui_example :: home_ui where
  "ui_example = home_ui_init campus_example None"

definition ui_example_open :: home_ui where
  "ui_example_open =
     ui_example\<lparr>hu_app := (hu_app ui_example)\<lparr>as_home := home_init\<lparr>hs_selected := Some campus_group_A\<rparr>\<rparr>,
                hu_sheet := sheet_init (Some campus_group_A)\<rparr>"

definition ui_example_view :: "home_view \<Rightarrow> home_ui" where
  "ui_example_view v = ui_example\<lparr>hu_app := (hu_app ui_example)\<lparr>as_home := home_init\<lparr>hs_view := v\<rparr>\<rparr>\<rparr>"

section \<open>Lemmas\<close>

lemma set_toggle_member_subset: "set (toggle_member x xs) \<subseteq> insert x (set xs)"
  by (auto simp: toggle_member_def)

lemma sheet_init_floors: "set (openFloors (sheet_init (Some g))) \<subseteq> fi_floor ` set (g_floors g)"
  by (cases "g_floors g") (auto simp: sheet_init_def)

lemma home_step_selected:
  "home_step a e b out \<Longrightarrow>
   hs_selected (as_home b) = (case e of MarkerClick g \<Rightarrow> Some g | SheetClose \<Rightarrow> None
                               | SheetRowClick _ \<Rightarrow> None | _ \<Rightarrow> hs_selected (as_home a))"
  by (induction rule: home_step.induct) simp_all

lemma mount_components_sheet:
  "hu_sheet (mount_components e u) = (case e of MarkerClick g \<Rightarrow> sheet_init (Some g) | _ \<Rightarrow> hu_sheet u)"
  by (cases e) (simp_all add: mount_components_def)

lemma ui_step_inv: "ui_step u e u' out \<Longrightarrow> ui_inv u \<Longrightarrow> ui_inv u'"
proof (induction rule: ui_step.induct)
  case (ui_home u e a out)
  then show ?case
    using home_step_selected [OF ui_home.hyps(1)] sheet_init_floors
    by (cases e) (auto simp: ui_inv_def mount_components_sheet split: option.splits)
next
  case (ui_floor u g fl)
  then show ?case
    using set_toggle_member_subset [of fl "openFloors (hu_sheet u)"]
    by (auto simp: ui_inv_def toggleFloor_def)
next
  case (ui_share u g s effs)
  then show ?case by (auto simp: ui_inv_def groupedShare_def)
qed (auto simp: ui_inv_def split: option.splits)

lemma ui_reachable_inv: "ui_reachable u \<Longrightarrow> ui_inv u"
proof (induction rule: ui_reachable.induct)
  case (ui_start fs u)
  then show ?case by (simp add: ui_inv_def home_ui_init_def home_init_def)
next
  case (ui_next u e u' out)
  show ?case by (rule ui_step_inv [OF ui_next.hyps(2) ui_next.IH])
qed

inductive_cases ui_step_HomeEventE: "ui_step u (HomeEvent e) u' out"
inductive_cases home_step_RowE: "home_step a (SheetRowClick f) b out"

lemma home_step_forget:
  "home_step a e b out \<Longrightarrow>
   map (\<lambda>f. f\<lparr>f_isFavorite := False\<rparr>) (as_facilities b) = map (\<lambda>f. f\<lparr>f_isFavorite := False\<rparr>) (as_facilities a)"
  by (induction rule: home_step.induct) (simp_all add: forget_favorite_toggle forget_favorite_toggle_all)

lemma set_filteredFacilities: "set (filteredFacilities fs c) \<subseteq> set fs"
  by (auto simp: filteredFacilities_def)

lemma ui_step_snapshot_known: "ui_step u e u' out \<Longrightarrow> snapshot_known u \<Longrightarrow> snapshot_known u'"
proof (induction rule: ui_step.induct)
  case (ui_home u e a out)
  have fs: "(\<lambda>f. f\<lparr>f_isFavorite := False\<rparr>) ` set (as_facilities a)
          = (\<lambda>f. f\<lparr>f_isFavorite := False\<rparr>) ` set (as_facilities (hu_app u))"
    using arg_cong [OF home_step_forget [OF ui_home.hyps(1)], of set] by simp
  from ui_home.hyps(1) show ?case
  proof cases
    case (hs_marker g)
    then have "set (allFacilities g) \<subseteq> set (as_facilities (hu_app u))"
      using set_allFacilities [of g] set_filteredFacilities by (fastforce simp: groupedFacilities_def)
    then show ?thesis
      using hs_marker by (auto simp: snapshot_known_def)
  qed (use ui_home.prems fs in \<open>auto simp: snapshot_known_def split: option.splits\<close>)
qed (auto simp: snapshot_known_def split: option.splits)

lemma ui_reachable_snapshot_known: "ui_reachable u \<Longrightarrow> snapshot_known u"
proof (induction rule: ui_reachable.induct)
  case (ui_start fs u)
  then show ?case by (simp add: snapshot_known_def home_ui_init_def home_init_def)
next
  case (ui_next u e u' out)
  show ?case by (rule ui_step_snapshot_known [OF ui_next.hyps(2) ui_next.IH])
qed

lemma ui_example_marker:
  "ui_step ui_example (HomeEvent (MarkerClick campus_group_A)) ui_example_open []"
proof -
  have "home_step (hu_app ui_example) (MarkerClick campus_group_A)
          ((hu_app ui_example)\<lparr>as_home := home_init\<lparr>hs_selected := Some campus_group_A\<rparr>\<rparr>) []"
    using hs_marker [of "hu_app ui_example" campus_group_A]
    by (simp add: ui_example_def home_ui_init_def home_init_def groupedFacilities_def
        filteredFacilities_def campus_example_grouped)
  from ui_home [OF this] show ?thesis
    by (simp add: ui_example_open_def ui_example_def home_ui_init_def home_init_def mount_components_def)
qed

lemma ui_example_select:
  "ui_step ui_example (HomeEvent (SelectView v)) (ui_example_view v) []"
proof -
  have "ui_step ui_example (HomeEvent (SelectView v))
          ((mount_components (SelectView v) ui_example)\<lparr>hu_app := (hu_app ui_example)\<lparr>as_home :=
             (as_home (hu_app ui_example))\<lparr>hs_view := v\<rparr>\<rparr>\<rparr>) (map UiNavigate [])"
    by (rule ui_home [OF hs_select_view]) (simp add: ui_example_def home_ui_init_def home_init_def)
  then show ?thesis
    by (cases "v = ViewSettings")
      (simp_all add: ui_example_view_def ui_example_def home_ui_init_def mount_components_def home_init_def)
qed

lemma ui_example_settings_again:
  "ui_step (ui_example_view ViewFavorites) (HomeEvent (SelectView ViewSettings)) (ui_example_view ViewSettings) []"
proof -
  let ?u = "ui_example_view ViewFavorites"
  have "ui_step ?u (HomeEvent (SelectView ViewSettings))
          ((mount_components (SelectView ViewSettings) ?u)\<lparr>hu_app := (hu_app ?u)\<lparr>as_home :=
             (as_home (hu_app ?u))\<lparr>hs_view := ViewSettings\<rparr>\<rparr>\<rparr>) (map UiNavigate [])"
    by (rule ui_home [OF hs_select_view]) (simp add: ui_example_view_def ui_example_def home_ui_init_def home_init_def)
  then show ?thesis
    by (simp add: ui_example_view_def ui_example_def home_ui_init_def mount_components_def home_init_def)
qed

lemma ui_example_open_reachable: "ui_reachable ui_example_open"
  using ui_next [OF ui_start ui_example_marker [unfolded ui_example_def]] by (simp add: ui_example_def)

lemma ui_example_row:
  "ui_step ui_example_open (HomeEvent (SheetRowClick (hd campus_example)))
     (ui_example_open\<lparr>hu_app := (hu_app ui_example_open)\<lparr>as_home :=
        (as_home (hu_app ui_example_open))\<lparr>hs_selected := None\<rparr>\<rparr>\<rparr>)
     [UiNavigate (handleFacilityClick 1)]"
proof -
  have sel: "hs_selected (as_home (hu_app ui_example_open)) = Some campus_group_A"
    by (simp add: ui_example_open_def)
  have f: "hd campus_example \<in> set (allFacilities campus_group_A)"
    by (simp add: allFacilities_def campus_groups_eval)
  have "f_id (hd campus_example) = 1"
    by (simp add: campus_groups_eval)
  with ui_home [OF hs_row [OF sel f]] show ?thesis
    by (simp add: mount_components_def)
qed

section \<open>Properties of the composed home screen\<close>

text \<open>
  C20.  In every reachable state of the home screen with the sheet open, the sheet's
  expanded floors are floor labels of the group it shows.
\<close>

theorem ui_open_floors_in_group:
  assumes "ui_reachable u" and "hs_selected (as_home (hu_app u)) = Some g"
  shows "set (openFloors (hu_sheet u)) \<subseteq> fi_floor ` set (g_floors g)"
  using ui_reachable_inv [OF assms(1)] assms(2) by (simp add: ui_inv_def)

text \<open>
  C19.  A marker click on the map opens the sheet on the clicked group with exactly its
  first (lowest) floor expanded, on the map tab and without navigating.
\<close>

theorem marker_click_renders_sheet:
  assumes "ui_step u (HomeEvent (MarkerClick g)) u' out"
  shows "out = [] \<and> hr_tab (render_home u') = ViewMap
         \<and> hr_sheet (render_home u') = Some (render_grouped g (sheet_init (Some g)))
         \<and> map fr_open (gv_floors (render_grouped g (sheet_init (Some g))))
             = (case g_floors g of [] \<Rightarrow> [] | _ # rest \<Rightarrow> True # replicate (length rest) False)"
proof -
  from assms obtain a where
    step: "home_step (hu_app u) (MarkerClick g) a []" and
    u': "u' = (mount_components (MarkerClick g) u)\<lparr>hu_app := a\<rparr>" and o: "out = []"
    by (cases rule: ui_step.cases) (auto elim: home_step.cases)
  from step have a: "a = (hu_app u)\<lparr>as_home := (as_home (hu_app u))\<lparr>hs_selected := Some g\<rparr>\<rparr>"
    and v: "hs_view (as_home (hu_app u)) = ViewMap"
    and g: "g \<in> set (groupFacilitiesByBuilding (filteredFacilities (as_facilities (hu_app u)) (hs_category (as_home (hu_app u)))))"
    by (cases rule: home_step.cases; simp add: groupedFacilities_def)+
  show ?thesis
    using o sheet_init_first_floor_open [OF g] v
    by (simp add: u' a render_home_def Let_def mount_components_def)
qed

text \<open>
  Leaving the settings tab and coming back mounts SettingsView again, so its
  switches are back to their initial values (dark mode off).
\<close>

text \<open>
  Leaving the settings tab and coming back mounts SettingsView again, so its
  switches are back to their initial values (dark mode off).
\<close>

text \<open>
  C21.  Leaving the settings tab and coming back mounts SettingsView again, so its
  switches are back to their initial values (dark mode off).
\<close>

theorem settings_reset_on_tab_change:
  assumes "ui_step u (HomeEvent (SelectView v)) u1 out1" and "v \<noteq> ViewSettings"
    and "ui_step u1 (HomeEvent (SelectView ViewSettings)) u2 out2"
  shows "hu_settings u2 = settings_init \<and> hs_view (as_home (hu_app u2)) = ViewSettings
         \<and> sv_darkMode (render_settings (as_user (hu_app u2)) (hu_settings u2)) = False"
proof -
  have "hs_view (as_home (hu_app u1)) = v"
    using assms(1) by (cases rule: ui_step.cases) (auto elim: home_step.cases)
  with assms(3) show ?thesis
    using assms(2)
    by (cases rule: ui_step.cases) (auto elim!: home_step.cases
        simp: mount_components_def settings_init_def render_settings_def)
qed

section \<open>Witnesses on the campus example\<close>

theorem ui_open_floors_in_group_witness:
  "ui_reachable ui_example_open \<and> hs_selected (as_home (hu_app ui_example_open)) = Some campus_group_A
   \<and> set (openFloors (hu_sheet ui_example_open)) \<subseteq> fi_floor ` set (g_floors campus_group_A)"
proof -
  note r = ui_example_open_reachable
  have sel: "hs_selected (as_home (hu_app ui_example_open)) = Some campus_group_A"
    by (simp add: ui_example_open_def)
  show ?thesis
    using ui_open_floors_in_group [OF r sel] r sel by simp
qed

theorem marker_click_renders_sheet_witness:
  "ui_step ui_example (HomeEvent (MarkerClick campus_group_A)) ui_example_open []
   \<and> hr_sheet (render_home ui_example_open) = Some (render_grouped campus_group_A (sheet_init (Some campus_group_A)))
   \<and> map fr_open (gv_floors (render_grouped campus_group_A (sheet_init (Some campus_group_A)))) = [True, False]"
  using marker_click_renders_sheet [OF ui_example_marker] ui_example_marker
  by (simp add: campus_group_A_def)

theorem settings_reset_on_tab_change_witness:
  "ui_step ui_example (HomeEvent (SelectView ViewFavorites)) (ui_example_view ViewFavorites) []
   \<and> ui_step (ui_example_view ViewFavorites) (HomeEvent (SelectView ViewSettings)) (ui_example_view ViewSettings) []
   \<and> hu_settings (ui_example_view ViewSettings) = settings_init"
  using settings_reset_on_tab_change [OF ui_example_select _ ui_example_settings_again]
    ui_example_select ui_example_settings_again by simp

end
