(* ===== verification/PageFlow.thy ===== *)
theory PageFlow
  imports Screens
begin

text \<open>
  The detail page as the user operates it (\<open>FacilityDetailPage.tsx\<close>).  The page is
  mounted on the route \<open>/facility/:id\<close>; its state is \<open>page_state\<close> of \<open>DetailPage\<close> together
  with the route parameter the effect of lines 47-56 last ran on.  A name row navigates to
  \<open>/facility/\<close> and its id: the route pattern is the same, so React keeps the component
  and its state, the parameter changes and the effect runs again, unless the parameter is
  unchanged (the row of the facility already shown), in which case nothing runs.  The tab
  triggers, the building headers and the header's back button are the other events.
\<close>

section \<open>The page as a state machine\<close>

record page_screen =
  ps_param :: jsstr
  ps_page :: page_state

datatype page_event = PageTab jsstr | PageToggleBuilding jsstr | PageRowClick int | PageBack

text \<open>Line 330: the page's header, with the back button and its callback.\<close>

definition page_header :: header_view where
  "page_header = render_header (Some True) None None"

text \<open>
  Lines 104-114 and 245-349 with the effect of lines 47-56: the events of a page showing
  a facility, on the facility list \<open>fs\<close> of the application, and the paths navigated to.
\<close>

inductive page_step :: "facility list \<Rightarrow> page_screen \<Rightarrow> page_event \<Rightarrow> page_screen \<Rightarrow> jsstr list \<Rightarrow> bool"
  for fs :: "facility list" where
  pg_tab: "t \<in> {js ''details'', js ''list''} \<Longrightarrow>
    page_step fs ps (PageTab t) (ps\<lparr>ps_page := (ps_page ps)\<lparr>pg_activeTab := t\<rparr>\<rparr>) []"
| pg_toggle: "render_page fs (ps_page ps) = Some (PageShown d rows) \<Longrightarrow> br \<in> set rows \<Longrightarrow>
    page_step fs ps (PageToggleBuilding (br_name br))
      (ps\<lparr>ps_page := toggleBuilding (br_name br) (ps_page ps)\<rparr>) []"
| pg_row: "render_page fs (ps_page ps) = Some (PageShown d rows) \<Longrightarrow> br \<in> set rows \<Longrightarrow>
    it \<in> set (br_items br) \<Longrightarrow>
    (s', out) = (if show_int (ir_target it) = ps_param ps then (ps_page ps, [])
                 else page_effect (show_int (ir_target it)) fs (ps_page ps)) \<Longrightarrow>
    page_step fs ps (PageRowClick (ir_target it))
      \<lparr>ps_param = show_int (ir_target it), ps_page = s'\<rparr> (handleFacilityClick (ir_target it) # out)"
| pg_back: "hv_back page_header \<Longrightarrow> page_step fs ps PageBack ps [js ''/map'']"

text \<open>The page after its effect found the route's facility, and what it reaches from there.\<close>

inductive page_reachable :: "facility list \<Rightarrow> page_screen \<Rightarrow> bool" for fs :: "facility list" where
  pg_enter: "page_effect p fs page_init = (s, []) \<Longrightarrow> page_reachable fs \<lparr>ps_param = p, ps_page = s\<rparr>"
| pg_next: "page_reachable fs ps \<Longrightarrow> page_step fs ps e ps' out \<Longrightarrow> page_reachable fs ps'"

text \<open>The campus example entered at the route of its first facility.\<close>

definition page_example :: page_screen where
  "page_example = \<lparr>ps_param = show_int 1,
     ps_page = page_init\<lparr>pg_facility := Some (hd campus_example), pg_expanded := [js ''A'']\<rparr>\<rparr>"

definition page_example_both :: page_screen where
  "page_example_both = page_example\<lparr>ps_page := (ps_page page_example)\<lparr>pg_expanded := [js ''A'', js ''B'']\<rparr>\<rparr>"

definition page_inv :: "facility list \<Rightarrow> page_screen \<Rightarrow> bool" where
  "page_inv fs ps \<longleftrightarrow>
     (\<exists>f. pg_facility (ps_page ps) = Some f \<and> f \<in> set fs \<and> js_Number_int (ps_param ps) = Some (f_id f))"

section \<open>Lemmas\<close>

lemma item_target_in:
  assumes "groupedByBuildingAndName cur fs = Some r" and "map_of r b = Some items" and "it \<in> set items"
  shows "\<exists>f \<in> set fs. f_id f = ni_firstFacilityId it"
proof -
  from grouped_Some_eq [OF assms(1)] assms(2) have "items = items_of_building cur fs b"
    by (simp add: map_of_keys split: if_splits)
  with assms(3) obtain n where n: "n \<in> f_name ` {f \<in> set fs. f_building f = b}"
    and it: "it = name_item_of cur n (filter (\<lambda>f. f_building f = b \<and> f_name f = n) fs)"
    by (auto simp: items_of_building_def)
  let ?xs = "filter (\<lambda>f. f_building f = b \<and> f_name f = n) fs"
  from n have "?xs \<noteq> []"
    by (auto simp: filter_empty_conv)
  then have "hd ?xs \<in> set fs"
    using hd_in_set [of ?xs] by auto
  then show ?thesis
    using it by (auto simp: name_item_of_def)
qed

lemma rendered_target_in:
  assumes "render_page fs s = Some (PageShown d rows)" and "br \<in> set rows" and "it \<in> set (br_items br)"
  shows "\<exists>f \<in> set fs. f_id f = ir_target it"
proof -
  from assms(1) obtain cur r where r: "groupedByBuildingAndName cur fs = Some r"
    and rows: "rows = render_building_list fs r s"
    by (auto simp: render_page_def split: option.splits)
  from assms(2,3) rows obtain b ni where b: "b \<in> set (buildingNames r)"
    and ni: "ni \<in> set (the (map_of r b))" and it: "it = item_row_of fs ni"
    by (auto simp: render_building_list_def Let_def split: if_splits)
  from b have "b \<in> fst ` set r"
    by (simp add: buildingNames_def object_keys_def)
  then obtain items where "map_of r b = Some items"
    by (metis map_of_eq_None_iff not_None_eq)
  with item_target_in [OF r this] ni it show ?thesis
    by (simp add: item_row_of_def)
qed

lemma find_by_route_SomeD:
  "find_by_route fs p = Some f \<Longrightarrow> f \<in> set fs \<and> js_Number_int p = Some (f_id f)"
  by (auto simp: find_by_route_def find_Some_iff nth_mem)

lemma find_by_route_show_int:
  assumes "\<exists>f \<in> set fs. f_id f = i"
  shows "\<exists>f. find_by_route fs (show_int i) = Some f"
proof -
  from assms have "find (\<lambda>f. js_Number_int (show_int i) = Some (f_id f)) fs \<noteq> None"
    by (auto simp: find_None_iff)
  then show ?thesis
    by (auto simp: find_by_route_def)
qed

lemma page_effect_Some:
  "find_by_route fs p = Some f \<Longrightarrow> page_effect p fs s = (s\<lparr>pg_facility := Some f, pg_expanded := [f_building f]\<rparr>, [])"
  by (simp add: page_effect_def)

lemma page_step_inv: "page_step fs ps e ps' out \<Longrightarrow> page_inv fs ps \<Longrightarrow> page_inv fs ps'"
proof (induction rule: page_step.induct)
  case (pg_toggle ps d rows br)
  then show ?case by (simp add: page_inv_def toggleBuilding_def)
next
  case (pg_row ps d rows br it s' out)
  show ?case
  proof (cases "show_int (ir_target it) = ps_param ps")
    case True
    then show ?thesis using pg_row by (simp add: page_inv_def)
  next
    case False
    obtain f where f: "find_by_route fs (show_int (ir_target it)) = Some f"
      using find_by_route_show_int [OF rendered_target_in [OF pg_row.hyps(1-3)]] by blast
    then have "s' = (ps_page ps)\<lparr>pg_facility := Some f, pg_expanded := [f_building f]\<rparr>"
      using pg_row.hyps(4) False by (simp add: page_effect_Some)
    then show ?thesis
      using find_by_route_SomeD [OF f] by (simp add: page_inv_def)
  qed
qed (simp_all add: page_inv_def)

lemma page_reachable_inv: "page_reachable fs ps \<Longrightarrow> page_inv fs ps"
proof (induction rule: page_reachable.induct)
  case (pg_enter p s)
  then obtain f where f: "find_by_route fs p = Some f"
    by (auto simp: page_effect_def split: option.splits)
  with pg_enter show ?case
    using find_by_route_SomeD [OF f] by (auto simp: page_effect_Some page_inv_def page_init_def)
next
  case (pg_next ps e ps' out)
  show ?case by (rule page_step_inv [OF pg_next.hyps(2) pg_next.IH])
qed

lemma page_example_reachable: "page_reachable campus_example page_example"
proof -
  have "find_by_route campus_example (show_int 1) = Some (hd campus_example)"
    by (simp add: find_by_route_def campus_groups_eval)
  then have "page_effect (show_int 1) campus_example page_init = (ps_page page_example, [])"
    by (simp add: page_effect_Some page_example_def campus_groups_eval)
  from pg_enter [OF this] show ?thesis
    by (simp add: page_example_def)
qed

lemma page_example_both_row:
  "\<exists>d rows br it. render_page campus_example (ps_page page_example_both) = Some (PageShown d rows)
     \<and> br \<in> set rows \<and> it \<in> set (br_items br) \<and> ir_target it = 2"
proof -
  have names: "buildingNames page_example_result = [js ''A'', js ''B'']"
    by (simp add: buildingNames_def page_example_result_def object_keys_def key_order_def
        is_array_index_def js_def)
  have itB: "items_of_building (hd campus_example) campus_example (js ''B'')
               = [name_item_of (hd campus_example) (js ''facility'') [campus_example ! 1]]"
    by (simp add: items_of_building_def campus_groups_eval key_order_def is_array_index_def js_def)
  let ?s = "ps_page page_example_both"
  let ?br = "\<lparr>br_name = js ''B'', br_expanded = True, br_count = 1,
              br_items = [item_row_of campus_example (name_item_of (hd campus_example) (js ''facility'') [campus_example ! 1])]\<rparr>"
  have r: "render_page campus_example ?s
             = Some (PageShown (render_details (hd campus_example)) (render_building_list campus_example page_example_result ?s))"
    by (simp add: render_page_def page_example_both_def page_example_def page_example_grouped)
  have ab: "js ''A'' \<noteq> js ''B''" "js ''B'' \<noteq> js ''A''"
    by (simp_all add: js_def)
  have "?br \<in> set (render_building_list campus_example page_example_result ?s)"
    unfolding render_building_list_def names
    by (simp add: page_example_result_def itB page_example_both_def page_example_def Let_def ab)
  moreover have "ir_target (item_row_of campus_example (name_item_of (hd campus_example) (js ''facility'') [campus_example ! 1])) = 2"
    by (simp add: item_row_of_def name_item_of_def campus_groups_eval)
  ultimately show ?thesis
    using r by fastforce
qed

section \<open>Properties of the page's flow\<close>

text \<open>
  C23.  In every state the detail page reaches after its route effect found a facility,
  the page shows a facility of the list whose id is the route parameter read by Number.
\<close>

theorem page_shows_route_facility:
  assumes "page_reachable fs ps"
  shows "\<exists>f. pg_facility (ps_page ps) = Some f \<and> f \<in> set fs \<and> js_Number_int (ps_param ps) = Some (f_id f)"
  using page_reachable_inv [OF assms] by (simp add: page_inv_def)

text \<open>
  A name row click navigates to /facility/ and the row's id; when the id differs
  from the route parameter the effect reruns and the page shows a facility of the list
  with that id and expands only its building, otherwise nothing changes; the active tab is
  kept in both cases.
\<close>

text \<open>
  C24.  A name row click navigates to /facility/ and the row's id; when the id differs
  from the route parameter the effect reruns and the page shows a facility of the list
  with that id and expands only its building, otherwise nothing changes; the active tab is
  kept in both cases.
\<close>

theorem page_row_click:
  assumes "page_step fs ps (PageRowClick i) ps' out"
  shows "ps_param ps' = show_int i \<and> pg_activeTab (ps_page ps') = pg_activeTab (ps_page ps)
         \<and> (if show_int i = ps_param ps then ps_page ps' = ps_page ps \<and> out = [handleFacilityClick i]
            else (\<exists>f \<in> set fs. f_id f = i \<and> out = [handleFacilityClick i]
                   \<and> ps_page ps' = (ps_page ps)\<lparr>pg_facility := Some f, pg_expanded := [f_building f]\<rparr>))"
  using assms
proof (cases rule: page_step.cases)
  case (pg_row d rows br it s' out')
  show ?thesis
  proof (cases "show_int i = ps_param ps")
    case True
    then show ?thesis using pg_row by simp
  next
    case False
    have i: "i = ir_target it"
      using pg_row by simp
    have r: "render_page fs (ps_page ps) = Some (PageShown d rows)" "br \<in> set rows" "it \<in> set (br_items br)"
      using pg_row by simp_all
    obtain f where f: "find_by_route fs (show_int i) = Some f"
      using find_by_route_show_int [OF rendered_target_in [OF r]] i by blast
    have "f \<in> set fs" "f_id f = i"
      using find_by_route_SomeD [OF f] by auto
    then show ?thesis
      using pg_row f False by (auto simp: page_effect_Some)
  qed
qed

section \<open>Witnesses on the campus example\<close>

theorem page_shows_route_facility_witness:
  "page_reachable campus_example page_example
   \<and> (\<exists>f. pg_facility (ps_page page_example) = Some f \<and> f \<in> set campus_example
          \<and> js_Number_int (ps_param page_example) = Some (f_id f))"
  using page_shows_route_facility [OF page_example_reachable] page_example_reachable by simp

theorem page_row_click_witness:
  "\<exists>ps' out. page_step campus_example page_example_both (PageRowClick 2) ps' out
     \<and> ps_param ps' = show_int 2 \<and> pg_activeTab (ps_page ps') = js ''details''
     \<and> (\<exists>f \<in> set campus_example. f_id f = 2 \<and> out = [handleFacilityClick 2]
          \<and> ps_page ps' = (ps_page page_example_both)\<lparr>pg_facility := Some f, pg_expanded := [f_building f]\<rparr>)"
proof -
  obtain d rows br it where r: "render_page campus_example (ps_page page_example_both) = Some (PageShown d rows)"
    "br \<in> set rows" "it \<in> set (br_items br)" and t: "ir_target it = 2"
    using page_example_both_row by blast
  obtain s' out where e: "(s', out) = (if show_int (ir_target it) = ps_param page_example_both
                                        then (ps_page page_example_both, [])
                                        else page_effect (show_int (ir_target it)) campus_example (ps_page page_example_both))"
    by (metis surj_pair)
  have step: "page_step campus_example page_example_both (PageRowClick 2)
                \<lparr>ps_param = show_int 2, ps_page = s'\<rparr> (handleFacilityClick 2 # out)"
    using pg_row [OF r e] t by simp
  have "show_int 2 \<noteq> show_int 1"
  proof
    assume "show_int 2 = show_int 1"
    then have "(2::int) = 1" by (rule show_int_inj)
    then show False by simp
  qed
  then have ne: "show_int 2 \<noteq> ps_param page_example_both"
    by (simp add: page_example_both_def page_example_def)
  have tab: "pg_activeTab (ps_page page_example_both) = js ''details''"
    by (simp add: page_example_both_def page_example_def page_init_def)
  from page_row_click [OF step] ne obtain f where f: "f \<in> set campus_example" "f_id f = 2"
    "handleFacilityClick 2 # out = [handleFacilityClick 2]"
    "s' = (ps_page page_example_both)\<lparr>pg_facility := Some f, pg_expanded := [f_building f]\<rparr>"
    by auto
  show ?thesis
  proof (intro exI conjI)
    show "page_step campus_example page_example_both (PageRowClick 2)
            \<lparr>ps_param = show_int 2, ps_page = s'\<rparr> (handleFacilityClick 2 # out)"
      by (rule step)
  qed (use f tab in auto)
qed

end
