(* ===== verification/Spec2Isabelle.thy ===== *)
theory Spec2Isabelle
  imports MapView DetailSheet DetailPage LoginPage Screens HomeScreen PageFlow
begin

text \<open>
  Verification development of Campus Compass, a React/TypeScript application that shows
  the facilities of a university campus on a map (sources under
  \<open>src/Campusfacilitiesmapapp-main/Campusfacilitiesmapapp-main/src/components\<close>).

  \<^bold>\<open>The program.\<close>  The application component (\<open>App.tsx\<close>, not among the sources) owns the
  facility list and the current user and passes them down with one mutation,
  \<open>onToggleFavorite\<close>.  \<open>HomePage\<close> shows one of three tabs (the map, the favourites, the
  settings) and the detail sheet of the building group a map marker surfaced.  \<open>MapView\<close>
  filters the facilities by category, groups them by building
  (\<open>groupFacilitiesByBuilding\<close>), loads the Naver Maps SDK by a script tag with a 100 ms
  poll and a 5 s fallback timer, and draws one marker per group, either on the SDK map or
  on a fallback map placed by \<open>latLngToPixel\<close>.  \<open>FacilityDetailSheet\<close> shows a group
  (floors, facilities, hearts, share and directions) or a single facility;
  \<open>FacilityDetailPage\<close> is the route \<open>/facility/:id\<close>, listing all buildings and names in
  plain-object dictionaries.  \<open>LoginPage\<close> is the login and sign-up form; the smaller
  components are the chips (\<open>CategoryFilter\<close>, \<open>FilterBar\<close>, \<open>MainMenu\<close>), \<open>FavoritesList\<close>,
  \<open>FacilityList\<close>, \<open>SearchBar\<close>, \<open>Header\<close>, \<open>SettingsView\<close> and \<open>WelcomePage\<close>.

  \<^bold>\<open>Theories.\<close>
  \<^item> \<open>Prelude\<close>: JavaScript strings as lists of UTF-16 code units (\<open>jsstr\<close>), the string
    primitives the code calls (\<open>includes\<close>, the first digit run of \<open>/(\d+)/\<close>, \<open>parseInt\<close>,
    \<open>Number\<close> on integer strings, \<open>trim\<close> with the ECMAScript white-space set, \<open>join\<close>),
    the insertion-ordered \<open>Map\<close> as an association list updated by \<open>AList.update\<close>, and the
    shared lemmas on lists, multisets and association lists.
  \<^item> \<open>Facility\<close>: the \<open>Facility\<close>, \<open>User\<close> and \<open>GroupedFacility\<close> types of \<open>App.tsx\<close> and its
    favourite toggle, modelled from the specification (the one spec-modelled part).
  \<^item> \<open>Grouping\<close>: \<open>MapView.groupFacilitiesByBuilding\<close> and \<open>getFloorNumber\<close> as a fold of
    \<open>group_step\<close> over the list (the \<open>forEach\<close> loop), \<open>add_to_floors\<close> (\<open>find\<close>/\<open>push\<close>) and the
    stable sort \<open>sort_floors\<close>; a declarative grouping \<open>grouping_spec\<close> and the refinement
    between them, from which every grouping property follows.
  \<^item> \<open>MapView\<close>: the component's state and the browser state it observes as a record
    \<open>map_state\<close>; the three \<open>useEffect\<close> hooks, the script callbacks, the interval and the
    timeout as the step relation \<open>map_step\<close> with reachability \<open>map_reachable\<close> and the
    invariant \<open>map_inv\<close> (rule induction); the render's map area; \<open>handleCurrentLocation\<close>;
    and the timers after \<open>script.onload\<close> as the loop \<open>poll_timers\<close> (\<open>while_option\<close>)
    under a schedule given as input.  All of it describes one mount of \<open>MapView\<close>; a tab
    switch unmounts it and the next mount probes the SDK again (not modelled).
    \<open>latLngToPixel\<close> is computed in real arithmetic, not in IEEE doubles, and no
    claim rests on its exact values.
  \<^item> \<open>DetailSheet\<close>: the sheet's state (\<open>copied\<close>, \<open>openFloors\<close>), every handler of both
    branches as a function returning its browser effects in order (the clock, user agent,
    \<open>navigator.share\<close> and the fetch outcome are inputs), and both render branches.
  \<^item> \<open>DetailPage\<close>: plain JavaScript objects as dictionaries with \<open>Object.keys\<close> order and
    prototype lookup (\<open>obj_get\<close>, \<open>obj_push\<close>), the grouping by building and name, the route
    effect, the handlers and the render (\<open>None\<close> where the render throws).
  \<^item> \<open>LoginPage\<close>: the form state, the browser's constraint validation (\<open>required\<close>,
    \<open>type=email\<close>), the handlers and the step relation \<open>login_step\<close> with its invariant.
  \<^item> \<open>Screens\<close>: the chips, the favourites and facility lists, the small components, and
    the home screen as the step relation \<open>home_step\<close> over the application's list and user
    and the screen's state; it composes \<open>MapView\<close>'s grouping, the sheet's handlers and
    the page's navigation path.  The list changes only through \<open>onToggleFavorite\<close>, whose
    body is in \<open>App.tsx\<close>: \<open>Facility.toggleFavorite\<close> returns new records, so the claims do
    not depend on whether the objects are shared with a group stored earlier.
  \<^item> \<open>HomeScreen\<close>: the home screen as operated, with the state of the components it
    mounts (the sheet's open floors and copied flag, the settings switches), the sheet's
    modal overlay, the settings tab's handlers and render, and the composed render
    \<open>render_home\<close> of tab bar, tab content and sheet; each home event of \<open>ui_step\<close> is a
    \<open>home_step\<close>, the others leave the application's state alone.  The modal overlay comes
    from the \<open>Sheet\<close> of the UI library (not among the sources).
  \<^item> \<open>PageFlow\<close>: the detail page as a state machine over its route parameter and state:
    the tabs, the building headers, the name rows (same route, so the component persists
    and the effect reruns only when the parameter changes) and the back button.

  \<^bold>\<open>What is shown.\<close>  Refinement of the grouping loop by its declarative form and the
  grouping's order, partition, floor and favourite properties; invariants of the map
  effects (one-way fallback, exclusive render modes, no error panel) and the race in
  which the loading overlay stays forever; termination of the polling timers under every
  schedule, with the exact outcome (loaded, fallback, or the race); the favourite-all
  heart flipping instead of setting; the detail page's crash on names of
  \<open>Object.prototype\<close> members and its agreement with the map's grouping; the route round
  trip and the page's flow (the shown facility always matches the route; a name row
  keeps the tab); the login form's alerts, its calls and its invariant; the facility
  list's crash on transport facilities; on the composed home screen, the floors the
  sheet expands and the reset of the settings on a tab change.  This theory proves the
  property that spans the home screen and the detail page: a row of the sheet navigates
  to a route the page resolves to the facility of the current list with that id.  Every claim with
  hypotheses has a witness at a concrete input (mostly the four-facility
  \<open>campus_example\<close> of \<open>Grouping\<close>).

  \<^bold>\<open>Bounds and fuel.\<close>  No definition uses fuel.  The grouping, the dictionaries and the
  handlers are structural recursion or folds over the input list.  The timer loop
  \<open>poll_timers\<close> is a \<open>while_option\<close>; it always returns \<open>Some\<close> (proved with the measure
  \<open>Suc ticks - n\<close> on the event counter, where \<open>ticks\<close> is the number of interval ticks the
  schedule lets run before the timeout: 50 for punctual timers, fewer under drift), so
  \<open>None\<close> never occurs.  Integers are unbounded (\<open>int\<close>): JavaScript numbers in the code
  are facility ids, floor numbers and millisecond delays far below \<open>2^53\<close>; \<open>parseInt\<close>
  in \<open>getFloorNumber\<close> is exact, which differs from the code only for digit runs beyond
  \<open>2^53\<close>.

  \<^bold>\<open>Not modelled.\<close>  Styling, layout and icons; the UI library (\<open>ui/\<close>, \<open>figma/\<close>) and the
  router, beyond the path passed to \<open>navigate\<close>; \<open>Number\<close> on non-integer syntaxes
  (decimals, exponents, hexadecimal), which no route of the application produces; the
  formatting of coordinates in URLs and \<open>encodeURIComponent\<close>, which are parameters;
  IEEE double rounding in \<open>latLngToPixel\<close>; and \<open>App.tsx\<close> itself, whose types and toggle
  are modelled from the specification.
\<close>

section \<open>Across the components: from the home screen's sheet to the detail page\<close>

text \<open>
  C22.  With unique ids, a row click in the home screen's sheet closes it and navigates to
  /facility/ and the row's id, which the detail page's route effect resolves to the
  facility of the current list with that id (the row's facility up to its favourite flag,
  since the group the sheet holds was taken when its marker was clicked).
\<close>

theorem sheet_row_opens_current_facility:
  assumes "ui_reachable u" and "distinct (map f_id (as_facilities (hu_app u)))"
    and "ui_step u (HomeEvent (SheetRowClick f)) u' out"
  shows "\<exists>f' p. out = [UiNavigate (js ''/facility/'' @ p)] \<and> hs_selected (as_home (hu_app u')) = None
           \<and> f' \<in> set (as_facilities (hu_app u')) \<and> f'\<lparr>f_isFavorite := False\<rparr> = f\<lparr>f_isFavorite := False\<rparr>
           \<and> page_effect p (as_facilities (hu_app u')) s
               = (s\<lparr>pg_facility := Some f', pg_expanded := [f_building f']\<rparr>, [])"
proof -
  from assms(3) obtain a out0 where st: "home_step (hu_app u) (SheetRowClick f) a out0"
    and u': "u' = (mount_components (SheetRowClick f) u)\<lparr>hu_app := a\<rparr>" and o: "out = map UiNavigate out0"
    by (auto elim: ui_step_HomeEventE)
  from st obtain g where row: "hs_selected (as_home (hu_app u)) = Some g" "f \<in> set (allFacilities g)"
    and a: "a = (hu_app u)\<lparr>as_home := (as_home (hu_app u))\<lparr>hs_selected := None\<rparr>\<rparr>"
    and out0: "out0 = [handleFacilityClick (f_id f)]"
    by (rule home_step_RowE) simp
  have "(\<lambda>f. f\<lparr>f_isFavorite := False\<rparr>) ` set (allFacilities g)
          \<subseteq> (\<lambda>f. f\<lparr>f_isFavorite := False\<rparr>) ` set (as_facilities (hu_app u))"
    using ui_reachable_snapshot_known [OF assms(1)] row(1) by (simp add: snapshot_known_def)
  moreover have "f\<lparr>f_isFavorite := False\<rparr> \<in> (\<lambda>f. f\<lparr>f_isFavorite := False\<rparr>) ` set (allFacilities g)"
    using row(2) by (rule imageI)
  ultimately have "f\<lparr>f_isFavorite := False\<rparr> \<in> (\<lambda>f. f\<lparr>f_isFavorite := False\<rparr>) ` set (as_facilities (hu_app u))"
    by (rule subsetD)
  then obtain f' where f': "f' \<in> set (as_facilities (hu_app u))"
    "f'\<lparr>f_isFavorite := False\<rparr> = f\<lparr>f_isFavorite := False\<rparr>"
    by (auto elim!: imageE)
  have id: "f_id f' = f_id f"
    using arg_cong [OF f'(2), of f_id] by simp
  have "find (\<lambda>x. f_id f' = f_id x) (as_facilities (hu_app u)) = Some f'"
    by (rule find_unique_id [OF assms(2) f'(1)])
  then have "page_effect (show_int (f_id f)) (as_facilities (hu_app u)) s
               = (s\<lparr>pg_facility := Some f', pg_expanded := [f_building f']\<rparr>, [])"
    by (simp add: page_effect_def find_by_route_def id)
  moreover have "hu_app u' = a"
    by (simp add: u')
  ultimately show ?thesis
    using f' o out0 a by (auto simp: handleFacilityClick_def)
qed

theorem sheet_row_opens_current_facility_witness:
  "ui_reachable ui_example_open \<and> distinct (map f_id (as_facilities (hu_app ui_example_open)))
   \<and> ui_step ui_example_open (HomeEvent (SheetRowClick (hd campus_example)))
       (ui_example_open\<lparr>hu_app := (hu_app ui_example_open)\<lparr>as_home :=
          (as_home (hu_app ui_example_open))\<lparr>hs_selected := None\<rparr>\<rparr>\<rparr>)
       [UiNavigate (handleFacilityClick 1)]
   \<and> (\<exists>f' p. [UiNavigate (handleFacilityClick 1)] = [UiNavigate (js ''/facility/'' @ p)]
         \<and> f' \<in> set campus_example \<and> f'\<lparr>f_isFavorite := False\<rparr> = (hd campus_example)\<lparr>f_isFavorite := False\<rparr>
         \<and> page_effect p campus_example page_init
             = (page_init\<lparr>pg_facility := Some f', pg_expanded := [f_building f']\<rparr>, []))"
proof -
  have d: "distinct (map f_id (as_facilities (hu_app ui_example_open)))"
    by (simp add: ui_example_open_def ui_example_def home_ui_init_def campus_example_distinct_ids)
  have fs: "as_facilities (hu_app ui_example_open) = campus_example"
    by (simp add: ui_example_open_def ui_example_def home_ui_init_def)
  show ?thesis
    using sheet_row_opens_current_facility [OF ui_example_open_reachable d ui_example_row, of page_init]
      ui_example_open_reachable d ui_example_row
    by (simp add: fs)
qed

end
